theory Spec2Isabelle
  imports Complex_Main
begin

section \<open>JavaScript numbers and strings\<close>

text \<open>
  A JavaScript number is modelled as an exact real, one of the two infinities, or NaN.
  Rounding to double precision, overflow and the sign of zero are not modelled.
\<close>

datatype jsnum = NaN | PInf | NInf | Fin real

fun isNaN :: "jsnum \<Rightarrow> bool" where
  "isNaN NaN = True"
| "isNaN _ = False"

text \<open>The comparison \<open>a > b\<close>: false as soon as one side is NaN.\<close>

fun jgt :: "jsnum \<Rightarrow> jsnum \<Rightarrow> bool" where
  "jgt NaN _ = False"
| "jgt _ NaN = False"
| "jgt PInf PInf = False"
| "jgt PInf _ = True"
| "jgt NInf _ = False"
| "jgt (Fin a) PInf = False"
| "jgt (Fin a) NInf = True"
| "jgt (Fin a) (Fin b) = (a > b)"

definition jlt :: "jsnum \<Rightarrow> jsnum \<Rightarrow> bool" where
  "jlt a b = jgt b a"

fun jneg :: "jsnum \<Rightarrow> jsnum" where
  "jneg NaN = NaN"
| "jneg PInf = NInf"
| "jneg NInf = PInf"
| "jneg (Fin a) = Fin (- a)"

fun jadd :: "jsnum \<Rightarrow> jsnum \<Rightarrow> jsnum" where
  "jadd NaN _ = NaN"
| "jadd _ NaN = NaN"
| "jadd PInf NInf = NaN"
| "jadd NInf PInf = NaN"
| "jadd PInf _ = PInf"
| "jadd NInf _ = NInf"
| "jadd (Fin a) PInf = PInf"
| "jadd (Fin a) NInf = NInf"
| "jadd (Fin a) (Fin b) = Fin (a + b)"

definition jsub :: "jsnum \<Rightarrow> jsnum \<Rightarrow> jsnum" where
  "jsub a b = jadd a (jneg b)"

text \<open>The infinity of the given sign: \<open>PInf\<close> for a positive sign.\<close>

definition inf_of :: "bool \<Rightarrow> jsnum" where
  "inf_of pos = (if pos then PInf else NInf)"

fun jmul :: "jsnum \<Rightarrow> jsnum \<Rightarrow> jsnum" where
  "jmul NaN _ = NaN"
| "jmul _ NaN = NaN"
| "jmul PInf PInf = PInf"
| "jmul PInf NInf = NInf"
| "jmul NInf PInf = NInf"
| "jmul NInf NInf = PInf"
| "jmul PInf (Fin b) = (if b = 0 then NaN else inf_of (b > 0))"
| "jmul NInf (Fin b) = (if b = 0 then NaN else inf_of (b < 0))"
| "jmul (Fin a) PInf = (if a = 0 then NaN else inf_of (a > 0))"
| "jmul (Fin a) NInf = (if a = 0 then NaN else inf_of (a < 0))"
| "jmul (Fin a) (Fin b) = Fin (a * b)"

fun jdiv :: "jsnum \<Rightarrow> jsnum \<Rightarrow> jsnum" where
  "jdiv NaN _ = NaN"
| "jdiv _ NaN = NaN"
| "jdiv PInf (Fin b) = inf_of (b \<ge> 0)"
| "jdiv NInf (Fin b) = inf_of (b < 0)"
| "jdiv PInf _ = NaN"
| "jdiv NInf _ = NaN"
| "jdiv (Fin a) PInf = Fin 0"
| "jdiv (Fin a) NInf = Fin 0"
| "jdiv (Fin a) (Fin b) =
     (if b = 0 then (if a = 0 then NaN else inf_of (a > 0)) else Fin (a / b))"

text \<open>\<open>Math.floor\<close>, \<open>Math.round\<close> (half up), \<open>Math.abs\<close> and \<open>Math.sin\<close>.\<close>

fun jfloor :: "jsnum \<Rightarrow> jsnum" where
  "jfloor (Fin a) = Fin (of_int \<lfloor>a\<rfloor>)"
| "jfloor x = x"

fun jround :: "jsnum \<Rightarrow> jsnum" where
  "jround (Fin a) = Fin (of_int \<lfloor>a + 1 / 2\<rfloor>)"
| "jround x = x"

fun jabs :: "jsnum \<Rightarrow> jsnum" where
  "jabs (Fin a) = Fin \<bar>a\<bar>"
| "jabs NInf = PInf"
| "jabs x = x"

fun jsin :: "jsnum \<Rightarrow> jsnum" where
  "jsin (Fin a) = Fin (sin a)"
| "jsin _ = NaN"

subsection \<open>Characters and decimal numerals\<close>

definition isDigit :: "char \<Rightarrow> bool" where
  "isDigit c = (48 \<le> (of_char c :: nat) \<and> (of_char c :: nat) \<le> 57)"

definition digitVal :: "char \<Rightarrow> nat" where
  "digitVal c = of_char c - 48"

text \<open>The value of a string of decimal digits, most significant digit first.\<close>

definition digitsVal :: "string \<Rightarrow> nat" where
  "digitsVal ds = foldl (\<lambda>acc c. 10 * acc + digitVal c) 0 ds"

text \<open>
  The white space that \<open>parseFloat\<close>, \<open>parseInt\<close> and \<open>trim\<close> strip, as far as it is
  ASCII: tab, line feed, vertical tab, form feed, carriage return and space.
\<close>

definition isWhiteSpace :: "char \<Rightarrow> bool" where
  "isWhiteSpace c = (of_char c \<in> {9, 10, 11, 12, 13, 32 :: nat})"

text \<open>
  \<open>String(n)\<close> of a non-negative integer \<open>n\<close>: its decimal digits.
\<close>

definition digitChar :: "nat \<Rightarrow> char" where
  "digitChar d = ''0123456789'' ! d"

fun digitsOf :: "nat \<Rightarrow> string" where
  "digitsOf n = (if n < 10 then [digitChar n]
                 else digitsOf (n div 10) @ [digitChar (n mod 10)])"

declare digitsOf.simps [simp del]

subsection \<open>\<open>parseFloat\<close> and \<open>parseInt\<close>\<close>

text \<open>An optional sign at the head of a string: whether it is a minus, and the rest.\<close>

definition takeSign :: "string \<Rightarrow> bool \<times> string" where
  "takeSign t = (case t of [] \<Rightarrow> (False, t)
     | c # r \<Rightarrow> if c = CHR ''-'' then (True, r)
                else if c = CHR ''+'' then (False, r) else (False, t))"

text \<open>
  The exponent part at the head of a string: \<open>e\<close> or \<open>E\<close>, an optional sign and at
  least one digit. A malformed exponent part is not consumed and counts as 0.
\<close>

definition parseExponent :: "string \<Rightarrow> int" where
  "parseExponent r = (case r of [] \<Rightarrow> 0
     | c # r1 \<Rightarrow>
         if c = CHR ''e'' \<or> c = CHR ''E'' then
           (let (neg, r2) = takeSign r1; ds = takeWhile isDigit r2
            in if ds = [] then 0
               else if neg then - int (digitsVal ds) else int (digitsVal ds))
         else 0)"

text \<open>
  \<open>parseFloat\<close>: leading white space is skipped, then the longest prefix that is a
  decimal literal (or \<open>Infinity\<close>) is read; NaN when there is none.
\<close>

definition parseFloat :: "string \<Rightarrow> jsnum" where
  "parseFloat s =
     (let (neg, u) = takeSign (dropWhile isWhiteSpace s)
      in if take 8 u = ''Infinity'' then inf_of (\<not> neg)
         else
           let ip = takeWhile isDigit u;
               r1 = dropWhile isDigit u;
               (fp, r2) = (case r1 of [] \<Rightarrow> ([], r1)
                  | c # r \<Rightarrow> if c = CHR ''.''
                             then (takeWhile isDigit r, dropWhile isDigit r)
                             else ([], r1))
           in if ip = [] \<and> fp = [] then NaN
              else
                let m = real (digitsVal ip) + real (digitsVal fp) / 10 ^ length fp;
                    v = m * 10 powi parseExponent r2
                in Fin (if neg then - v else v))"

definition isHexDigit :: "char \<Rightarrow> bool" where
  "isHexDigit c = (isDigit c \<or> (65 \<le> (of_char c :: nat) \<and> (of_char c :: nat) \<le> 70)
                    \<or> (97 \<le> (of_char c :: nat) \<and> (of_char c :: nat) \<le> 102))"

definition hexVal :: "char \<Rightarrow> nat" where
  "hexVal c = (if isDigit c then of_char c - 48
               else if (of_char c :: nat) \<le> 70 then of_char c - 55 else of_char c - 87)"

text \<open>
  \<open>parseInt\<close> with no radix: white space and a sign are skipped, a \<open>0x\<close> prefix selects
  base 16, and the longest prefix of digits is read; NaN when there is none.
\<close>

definition parseInt :: "string \<Rightarrow> jsnum" where
  "parseInt s =
     (let (neg, u) = takeSign (dropWhile isWhiteSpace s)
      in if take 2 u = ''0x'' \<or> take 2 u = ''0X'' then
           (let ds = takeWhile isHexDigit (drop 2 u)
            in if ds = [] then NaN
               else let v = real (foldl (\<lambda>acc c. 16 * acc + hexVal c) 0 ds)
                    in Fin (if neg then - v else v))
         else
           (let ds = takeWhile isDigit u
            in if ds = [] then NaN
               else let v = real (digitsVal ds) in Fin (if neg then - v else v)))"

section \<open>RetailScanner: normalising a scanned element\<close>

text \<open>
  An element of the endpoint's answer. \<open>el_id\<close> is \<open>String(element.id)\<close>, the
  identifier as the code renders it; a field the answer leaves out is \<open>None\<close>, and
  \<open>el_tags\<close> is \<open>element.tags || {}\<close>.
\<close>

record element =
  el_type :: string
  el_id :: string
  el_lat :: "jsnum option"
  el_lon :: "jsnum option"
  el_center :: "(jsnum option \<times> jsnum option) option"
  el_tags :: "string \<rightharpoonup> string"

text \<open>Truthiness of an optional string and of an optional number, and \<open>a || b\<close>.\<close>

definition truthy :: "string option \<Rightarrow> bool" where
  "truthy v = (case v of None \<Rightarrow> False | Some s \<Rightarrow> s \<noteq> [])"

definition truthyNum :: "jsnum option \<Rightarrow> bool" where
  "truthyNum v = (case v of None \<Rightarrow> False | Some x \<Rightarrow> \<not> isNaN x \<and> x \<noteq> Fin 0)"

definition jsOr :: "string option \<Rightarrow> string option \<Rightarrow> string option" where
  "jsOr a b = (if truthy a then a else b)"

definition toLowerChar :: "char \<Rightarrow> char" where
  "toLowerChar c =
     (case map_of (zip ''ABCDEFGHIJKLMNOPQRSTUVWXYZ'' ''abcdefghijklmnopqrstuvwxyz'') c of
        None \<Rightarrow> c | Some l \<Rightarrow> l)"

definition toLowerCase :: "string \<Rightarrow> string" where
  "toLowerCase s = map toLowerChar s"

definition getCategory :: "string \<Rightarrow> string" where
  "getCategory shopType =
     (let s = toLowerCase shopType in
      if s \<in> set [''supermarket'', ''convenience'', ''grocery'', ''greengrocer'', ''organic'',
                   ''frozen_food'', ''spices''] then ''Groceries''
      else if s \<in> set [''food'', ''bakery'', ''butcher'', ''seafood'', ''ice_cream'', ''beverages'',
                        ''coffee'', ''tea'', ''confectionery'', ''chocolate''] then ''Food & Beverages''
      else if s \<in> set [''clothes'', ''fashion'', ''boutique'', ''textiles'', ''fabric'', ''tailor'',
                        ''baby''] then ''Fashion''
      else if s \<in> set [''shoes'', ''jewelry'', ''bag'', ''watches'', ''optician'', ''leather'']
        then ''Accessories''
      else if s \<in> set [''electronics'', ''mobile_phone'', ''computer'', ''robot'', ''hifi'',
                        ''telecommunication'', ''video_games''] then ''Electronics''
      else if s \<in> set [''furniture'', ''interior_decoration'', ''carpet'', ''lighting'', ''bed'',
                        ''kitchen'', ''curtain''] then ''Home & Living''
      else if s \<in> set [''hardware'', ''doityourself'', ''paint'', ''trade'', ''building_materials'',
                        ''glaziery'', ''flooring''] then ''Hardware & DIY''
      else if s \<in> set [''chemist'', ''pharmacy'', ''medical_supply'', ''nutrition_supplements'',
                        ''hearing_aids''] then ''Health''
      else if s \<in> set [''cosmetics'', ''hairdresser'', ''beauty'', ''salon'', ''tattoo'',
                        ''perfumery''] then ''Beauty''
      else if s \<in> set [''car'', ''motorcycle'', ''tyres'', ''bicycle'', ''car_repair'', ''car_parts'']
        then ''Automotive''
      else if s \<in> set [''books'', ''stationery'', ''newsagent'', ''copy'', ''bookmaker'']
        then ''Books & Stationery''
      else if s \<in> set [''gift'', ''toys'', ''musical_instrument'', ''art'', ''craft'', ''photo'',
                        ''camera'', ''music''] then ''Gifts & Hobbies''
      else if s \<in> set [''alcohol'', ''wine'', ''tobacco'', ''e-cigarette''] then ''Liquor & Tobacco''
      else if s \<in> set [''department_store'', ''general'', ''mall'', ''shopping_centre'']
        then ''Department Stores''
      else ''General Retail'')"

text \<open>
  The rating read from the tags: the first of \<open>stars\<close>, \<open>rating\<close> and \<open>addr:rate\<close>
  that holds a truthy value is parsed, and the others are not looked at; \<open>None\<close>
  stands for \<open>undefined\<close>.
\<close>

definition parsedOrUndefined :: "string \<Rightarrow> jsnum option" where
  "parsedOrUndefined v = (let parsed = parseFloat v in if \<not> isNaN parsed then Some parsed else None)"

definition parsedRating :: "(string \<rightharpoonup> string) \<Rightarrow> jsnum option" where
  "parsedRating tags =
     (if truthy (tags ''stars'') then parsedOrUndefined (the (tags ''stars''))
      else if truthy (tags ''rating'') then parsedOrUndefined (the (tags ''rating''))
      else if truthy (tags ''addr:rate'') then parsedOrUndefined (the (tags ''addr:rate''))
      else None)"

text \<open>A rating above 5 is taken to be on a scale of 10 and halved.\<close>

definition normalizeRating :: "jsnum option \<Rightarrow> jsnum option" where
  "normalizeRating rating =
     (case rating of None \<Rightarrow> None
      | Some r \<Rightarrow> if jgt r (Fin 5) then Some (jdiv r (Fin 2)) else Some r)"

text \<open>
  The rating generated from the identifier when the tags give none:
  \<open>parseInt(String(id).replace(/\D/g, '')) || 0\<close> feeds the sine hash.
\<close>

definition idNum :: "string \<Rightarrow> jsnum" where
  "idNum ident = (let n = parseInt (filter isDigit ident)
                  in if isNaN n \<or> n = Fin 0 then Fin 0 else n)"

definition syntheticRating :: "string \<Rightarrow> jsnum" where
  "syntheticRating ident =
     (let seed = jmul (jsin (idNum ident)) (Fin 10000);
          rand = jsub seed (jfloor seed);
          rating = jadd (Fin 3.5) (jmul rand (Fin 1.5))
      in jdiv (jround (jmul rating (Fin 10))) (Fin 10))"

definition storeRating :: "element \<Rightarrow> jsnum" where
  "storeRating el =
     (case normalizeRating (parsedRating (el_tags el)) of
        None \<Rightarrow> syntheticRating (el_id el)
      | Some r \<Rightarrow> r)"

record store =
  s_id :: string
  s_prop_id :: string
  s_geocode :: string
  s_name :: string
  s_type :: string
  s_description :: string
  s_category :: string
  s_subCategory :: string
  s_vicinity :: string
  s_phone :: "string option"
  s_website :: "string option"
  s_openingHours :: "string option"
  s_rating :: jsnum
  s_userRatingsTotal :: jsnum
  s_keyMarkets :: "string list"
  s_coordinates :: "jsnum option \<times> jsnum option"

text \<open>\<open>parts.filter(Boolean).join(', ')\<close> on strings.\<close>

fun joinWith :: "string \<Rightarrow> string list \<Rightarrow> string" where
  "joinWith sep [] = []"
| "joinWith sep [x] = x"
| "joinWith sep (x # y # ys) = x @ sep @ joinWith sep (y # ys)"

definition orEmpty :: "string option \<Rightarrow> string" where
  "orEmpty v = (if truthy v then the v else [])"

definition transformToGeoFeature :: "element \<Rightarrow> store" where
  "transformToGeoFeature el =
     (let isWay = (el_type el = ''way'');
          lat = (if isWay then (case el_center el of None \<Rightarrow> None | Some c \<Rightarrow> fst c)
                 else el_lat el);
          lng = (if isWay then (case el_center el of None \<Rightarrow> None | Some c \<Rightarrow> snd c)
                 else el_lon el);
          tags = el_tags el;
          name = the (jsOr (tags ''name'') (jsOr (tags ''brand'')
                   (jsOr (tags ''shop'') (Some ''Retail Store''))));
          shopType = the (jsOr (tags ''shop'') (Some ''store''));
          category = getCategory shopType;
          street = orEmpty (tags ''addr:street'');
          city = orEmpty (tags ''addr:city'');
          postcode = orEmpty (tags ''addr:postcode'');
          joined = joinWith '', '' (filter (\<lambda>p. p \<noteq> []) [street, city, postcode]);
          vicinity = (if joined \<noteq> [] then joined else ''Bengaluru'');
          userRatings = jadd (jfloor (jabs (jmul (jsin (parseInt (el_id el))) (Fin 500)))) (Fin 5)
      in \<lparr> s_id = ''osm-'' @ el_id el,
           s_prop_id = el_id el,
           s_geocode = ''OSM-'' @ take 6 (el_id el),
           s_name = name,
           s_type = ''Store'',
           s_description = ''Retail Store ('' @ shopType @ '').'',
           s_category = category,
           s_subCategory = shopType,
           s_vicinity = vicinity,
           s_phone = jsOr (tags ''phone'') (jsOr (tags ''contact:phone'')
                       (jsOr (tags ''contact:mobile'') None)),
           s_website = jsOr (tags ''website'') (jsOr (tags ''contact:website'')
                         (jsOr (tags ''url'') None)),
           s_openingHours = jsOr (tags ''opening_hours'') None,
           s_rating = storeRating el,
           s_userRatingsTotal = userRatings,
           s_keyMarkets = [shopType, category],
           s_coordinates = (lng, lat) \<rparr>)"

section \<open>RetailScanner: the query, its retries and the quadrant split\<close>

text \<open>
  The query text of a bounding-box scan is determined by the four numbers interpolated
  into it, so a query is modelled by them: south, west, north, east.
\<close>

datatype query = BBoxQuery jsnum jsnum jsnum jsnum

record jserror =
  err_name :: string
  err_message :: string

text \<open>\<open>new Error(msg)\<close>.\<close>

definition mkError :: "string \<Rightarrow> jserror" where
  "mkError msg = \<lparr> err_name = ''Error'', err_message = msg \<rparr>"

text \<open>
  What one \<open>fetch\<close> of the endpoint does: it rejects with an error (a network failure,
  or \<open>AbortError\<close> when the 120 s timer aborts the request), or it answers with a
  status and a body; reading the body with \<open>response.json()\<close> throws, or gives
  \<open>data.elements || []\<close>.
\<close>

datatype fetch_result = Threw jserror | Response nat "jserror + element list"

text \<open>
  The endpoint may answer the same query differently each time: it is a function of the
  number of requests made before, and of the query. \<open>Math.random\<close> is a sequence of
  draws.
\<close>

type_synonym endpoint = "nat \<Rightarrow> query \<Rightarrow> fetch_result"

type_synonym random_source = "nat \<Rightarrow> real"

text \<open>
  What a scan does besides returning: each call of \<open>fetchRetailStoresBounded\<close> with its
  depth, each request with its attempt number, and each wait in milliseconds. Console
  output and the advisory progress callback are left out.
\<close>

datatype event = Call nat query | Request query nat | Sleep real

record scan_state =
  nreq :: nat
  nrand :: nat
  events :: "event list"

definition emit :: "event \<Rightarrow> scan_state \<Rightarrow> scan_state" where
  "emit e st = st\<lparr> events := events st @ [e] \<rparr>"

definition response_ok :: "nat \<Rightarrow> bool" where
  "response_ok status = (200 \<le> status \<and> status \<le> 299)"

text \<open>The filter on the answer's elements: \<open>(el.lat && el.lon) || (el.center?.lat && el.center?.lon)\<close>.\<close>

definition hasCoords :: "element \<Rightarrow> bool" where
  "hasCoords el =
     ((truthyNum (el_lat el) \<and> truthyNum (el_lon el)) \<or>
      (case el_center el of None \<Rightarrow> False | Some c \<Rightarrow> truthyNum (fst c) \<and> truthyNum (snd c)))"

text \<open>
  \<open>executeOverpassQuery\<close>. One request is made per attempt. An error thrown inside the
  \<open>try\<close> block reaches the \<open>catch\<close> clause, which retries an \<open>AbortError\<close> while
  \<open>attempt <= 2\<close> and rethrows anything else; the result of a retry is returned
  without \<open>await\<close>, so its failure is not caught again here.
\<close>

definition catchClause :: "jserror \<Rightarrow> nat \<Rightarrow> bool" where
  "catchClause err attempt = (err_name err = ''AbortError'' \<and> attempt \<le> 2)"

function executeOverpassQuery ::
  "endpoint \<Rightarrow> random_source \<Rightarrow> query \<Rightarrow> nat \<Rightarrow> scan_state \<Rightarrow> (jserror + store list) \<times> scan_state"
where
  "executeOverpassQuery ep rnd q attempt st =
     (let st1 = emit (Request q attempt) (st\<lparr> nreq := nreq st + 1 \<rparr>) in
      case ep (nreq st) q of
        Threw err \<Rightarrow>
          if catchClause err attempt then executeOverpassQuery ep rnd q (attempt + 1) st1
          else (Inl err, st1)
      | Response status body \<Rightarrow>
          if \<not> response_ok status then
            if status = 429 \<and> attempt \<le> 5 then
              (let delay = 3000 * 2 powi (int attempt - 1) + rnd (nrand st1) * 1000;
                   st2 = emit (Sleep delay) (st1\<lparr> nrand := nrand st1 + 1 \<rparr>)
               in executeOverpassQuery ep rnd q (attempt + 1) st2)
            else if (status = 504 \<or> status = 502) \<and> attempt \<le> 2 then
              executeOverpassQuery ep rnd q (attempt + 1) (emit (Sleep 2000) st1)
            else
              (let err = mkError (''OSM_ERROR_'' @ digitsOf status)
               in if catchClause err attempt
                  then executeOverpassQuery ep rnd q (attempt + 1) st1
                  else (Inl err, st1))
          else
            (case body of
               Inl err \<Rightarrow>
                 if catchClause err attempt
                 then executeOverpassQuery ep rnd q (attempt + 1) st1
                 else (Inl err, st1)
             | Inr elements \<Rightarrow>
                 (Inr (map transformToGeoFeature (filter hasCoords elements)), st1)))"
  by pat_completeness auto
termination
  by (relation "measure (\<lambda>(ep, rnd, q, attempt, st). 6 - attempt)")
     (auto simp: catchClause_def)

declare executeOverpassQuery.simps [simp del]

text \<open>\<open>hay.includes(needle)\<close>.\<close>

fun includes_str :: "string \<Rightarrow> string \<Rightarrow> bool" where
  "includes_str [] needle = (needle = [])"
| "includes_str (c # cs) needle = (take (length needle) (c # cs) = needle \<or> includes_str cs needle)"

text \<open>\<open>error.message || error.toString()\<close>: the name stands in for an empty message.\<close>

definition errorMsgOf :: "jserror \<Rightarrow> string" where
  "errorMsgOf e = (if err_message e \<noteq> [] then err_message e else err_name e)"

definition splittable :: "string \<Rightarrow> bool" where
  "splittable errorMsg =
     (includes_str errorMsg ''OSM_ERROR_504'' \<or> includes_str errorMsg ''OSM_ERROR_502''
      \<or> includes_str errorMsg ''timeout'')"

type_synonym bbox = "jsnum \<times> jsnum \<times> jsnum \<times> jsnum"

text \<open>The four quadrants of a box (south, west, north, east): SW, SE, NW, NE.\<close>

definition quadrants :: "bbox \<Rightarrow> bbox list" where
  "quadrants b =
     (case b of (south, west, north, east) \<Rightarrow>
        let midLat = jdiv (jadd south north) (Fin 2);
            midLng = jdiv (jadd west east) (Fin 2)
        in [(south, west, midLat, midLng),
            (south, midLng, midLat, east),
            (midLat, west, north, midLng),
            (midLat, midLng, north, east)])"

definition queryOf :: "bbox \<Rightarrow> query" where
  "queryOf b = (case b of (south, west, north, east) \<Rightarrow> BBoxQuery south west north east)"

definition rateLimitError :: jserror where
  "rateLimitError = mkError ''Server is too busy (Rate Limit). Please wait a few minutes and try again.''"

text \<open>
  One turn of the loop over the quadrants: the results of a quadrant that returns are
  appended and the loop waits 200 ms; a quadrant that throws is skipped.
\<close>

definition quadrantStep ::
  "(jserror + store list) \<times> scan_state \<Rightarrow> store list \<Rightarrow> store list \<times> scan_state" where
  "quadrantStep r results =
     (case r of
        (Inr qRes, st) \<Rightarrow> (results @ qRes, emit (Sleep 200) st)
      | (Inl e, st) \<Rightarrow> (results, st))"

function fetchRetailStoresBounded ::
  "endpoint \<Rightarrow> random_source \<Rightarrow> bbox \<Rightarrow> nat \<Rightarrow> scan_state \<Rightarrow> (jserror + store list) \<times> scan_state"
where
  "fetchRetailStoresBounded ep rnd b depth st =
     (case executeOverpassQuery ep rnd (queryOf b) 1 (emit (Call depth (queryOf b)) st) of
        (Inr features, st1) \<Rightarrow> (Inr features, st1)
      | (Inl error, st1) \<Rightarrow>
          let errorMsg = errorMsgOf error in
          if includes_str errorMsg ''OSM_ERROR_429'' then (Inl rateLimitError, st1)
          else if depth < 2 \<and> splittable errorMsg then
            (let (results, st2) =
               fold (\<lambda>q acc. quadrantStep (fetchRetailStoresBounded ep rnd q (depth + 1) (snd acc)) (fst acc))
                 (quadrants b) ([], st1)
             in (Inr results, st2))
          else if depth > 0 then (Inr [], st1)
          else (Inl error, st1))"
  by pat_completeness auto
termination
  by (relation "measure (\<lambda>(ep, rnd, b, depth, st). 2 - depth)") auto

declare fetchRetailStoresBounded.simps [simp del]

text \<open>The deepest call among the events, and the number of calls at a given depth.\<close>

fun callDepths :: "event list \<Rightarrow> nat list" where
  "callDepths [] = []"
| "callDepths (Call d q # es) = d # callDepths es"
| "callDepths (e # es) = callDepths es"

definition maxDepth :: "event list \<Rightarrow> nat" where
  "maxDepth es = fold max (callDepths es) 0"

definition callsAt :: "nat \<Rightarrow> event list \<Rightarrow> nat" where
  "callsAt d es = length (filter (\<lambda>k. k = d) (callDepths es))"

fun sleeps :: "event list \<Rightarrow> real list" where
  "sleeps [] = []"
| "sleeps (Sleep ms # es) = ms # sleeps es"
| "sleeps (e # es) = sleeps es"

definition initialScan :: scan_state where
  "initialScan = \<lparr> nreq = 0, nrand = 0, events = [] \<rparr>"

text \<open>
  What a quadrant contributes to its parent: its features when it returns, nothing when
  it throws; and the state the loop goes on from, after the 200 ms wait that follows a
  quadrant that returned.
\<close>

definition okResults :: "(jserror + store list) \<times> scan_state \<Rightarrow> store list" where
  "okResults r = (case fst r of Inr fs \<Rightarrow> fs | Inl e \<Rightarrow> [])"

definition paced :: "(jserror + store list) \<times> scan_state \<Rightarrow> scan_state" where
  "paced r = (case fst r of Inr fs \<Rightarrow> emit (Sleep 200) (snd r) | Inl e \<Rightarrow> snd r)"

text \<open>
  How far a scan has moved from one state to a later one: at most \<open>n\<close> more requests,
  and the calls made in between are at depth 2 at most, at most \<open>l\<close> of them at depth 2.
\<close>

definition grows :: "scan_state \<Rightarrow> scan_state \<Rightarrow> nat \<Rightarrow> nat \<Rightarrow> bool" where
  "grows st st' n l =
     (nreq st' \<le> nreq st + n \<and>
      (\<exists>ds. callDepths (events st') = callDepths (events st) @ ds
            \<and> list_all (\<lambda>x. x \<le> 2) ds \<and> length (filter (\<lambda>k. k = 2) ds) \<le> l))"

subsection \<open>Endpoints of the scenarios\<close>

text \<open>A request is answered, with the given status.\<close>

definition answersStatus :: "fetch_result \<Rightarrow> nat \<Rightarrow> bool" where
  "answersStatus r s = (case r of Response s' body \<Rightarrow> s' = s | Threw e \<Rightarrow> False)"

text \<open>An endpoint that answers every request with HTTP 504.\<close>

definition perpetual504 :: endpoint where
  "perpetual504 n q = Response 504 (Inr [])"

text \<open>An endpoint that answers every request with HTTP 429.\<close>

definition perpetual429 :: endpoint where
  "perpetual429 n q = Response 429 (Inr [])"



definition scenarioBox :: bbox where
  "scenarioBox = (Fin 12.90, Fin 77.55, Fin 13.00, Fin 77.65)"

text \<open>A node with coordinates and no tags.\<close>

definition pointElement :: "string \<Rightarrow> element" where
  "pointElement i =
     \<lparr> el_type = ''node'', el_id = i, el_lat = Some (Fin 12.93), el_lon = Some (Fin 77.58),
       el_center = None, el_tags = Map.empty \<rparr>"



subsection \<open>Elements of the rating examples\<close>



section \<open>GeoPrimitives\<close>

text \<open>A coordinate pair \<open>[lng, lat]\<close>; a ring is a list of them.\<close>

type_synonym point = "jsnum \<times> jsnum"

definition isValidRing :: "point list \<Rightarrow> bool" where
  "isValidRing ring =
     (3 \<le> length ring \<and> list_all (\<lambda>p. \<not> isNaN (fst p) \<and> \<not> isNaN (snd p)) ring)"

text \<open>
  The ray-casting test. The loop visits every vertex \<open>vs[i]\<close> together with its
  predecessor \<open>vs[j]\<close>, the last vertex being the predecessor of the first, and flips
  \<open>inside\<close> at every edge the ray crosses. The division is only evaluated when the
  two latitudes differ.
\<close>

definition crosses :: "point \<Rightarrow> point \<Rightarrow> point \<Rightarrow> bool" where
  "crosses p vi vj =
     (case p of (x, y) \<Rightarrow> case vi of (xi, yi) \<Rightarrow> case vj of (xj, yj) \<Rightarrow>
        (jgt yi y \<noteq> jgt yj y)
        \<and> jlt x (jadd (jdiv (jmul (jsub xj xi) (jsub y yi)) (jsub yj yi)) xi))"

fun rayLoop :: "point \<Rightarrow> point list \<Rightarrow> point \<Rightarrow> bool \<Rightarrow> bool" where
  "rayLoop p [] vj inside = inside"
| "rayLoop p (vi # vs) vj inside =
     rayLoop p vs vi (if crosses p vi vj then \<not> inside else inside)"

definition isPointInPolygon :: "point \<Rightarrow> point list \<Rightarrow> bool" where
  "isPointInPolygon p vs = (if vs = [] then False else rayLoop p vs (last vs) False)"

text \<open>
  \<open>generateOrganicPolygon\<close>, reading \<open>Math.random\<close> from draw \<open>d\<close> on: one draw for
  the number of sides, then one per vertex. It returns the ring (the source wraps it in
  a one-element list) and the number of the next draw.
\<close>

definition organicPoint ::
  "random_source \<Rightarrow> nat \<Rightarrow> jsnum \<Rightarrow> jsnum \<Rightarrow> real \<Rightarrow> nat \<Rightarrow> nat \<Rightarrow> point" where
  "organicPoint rnd d centerLat centerLng baseRadius sides i =
     (let angle = (real i * 2 * pi) / real sides;
          r = baseRadius * (0.8 + rnd (d + i) * 0.4)
      in (jadd centerLng (Fin (r * cos angle)),
          jadd centerLat (Fin (r * sin angle * 0.85))))"

definition generateOrganicPolygon ::
  "random_source \<Rightarrow> nat \<Rightarrow> jsnum \<Rightarrow> jsnum \<Rightarrow> real \<Rightarrow> point list \<times> nat" where
  "generateOrganicPolygon rnd d centerLat centerLng baseRadius =
     (let sides = 6 + nat \<lfloor>rnd d * 4\<rfloor>;
          points = map (organicPoint rnd (d + 1) centerLat centerLng baseRadius sides) [0..<sides]
      in (points @ [hd points], d + 1 + sides))"

text \<open>\<open>Math.min(...xs)\<close> and \<open>Math.max(...xs)\<close>: NaN as soon as one argument is.\<close>

definition mathMin :: "jsnum list \<Rightarrow> jsnum" where
  "mathMin xs = foldl (\<lambda>a b. if isNaN a \<or> isNaN b then NaN else if jlt b a then b else a) PInf xs"

definition mathMax :: "jsnum list \<Rightarrow> jsnum" where
  "mathMax xs = foldl (\<lambda>a b. if isNaN a \<or> isNaN b then NaN else if jgt b a then b else a) NInf xs"

section \<open>BoundaryComposer: the taluk boundaries\<close>

text \<open>The junction points that neighbouring taluks share.\<close>

definition J_Nelamangala_Doddaballapur_BlrNorth :: point where
  "J_Nelamangala_Doddaballapur_BlrNorth = (Fin 77.42, Fin 13.18)"

definition J_Doddaballapur_Devanahalli_BlrNorth :: point where
  "J_Doddaballapur_Devanahalli_BlrNorth = (Fin 77.61, Fin 13.21)"

definition J_Devanahalli_Hoskote_BlrEast :: point where
  "J_Devanahalli_Hoskote_BlrEast = (Fin 77.74, Fin 13.08)"

definition J_BlrNorth_BlrEast_BlrSouth :: point where
  "J_BlrNorth_BlrEast_BlrSouth = (Fin 77.61, Fin 12.97)"

definition J_BlrSouth_BlrEast_Anekal :: point where
  "J_BlrSouth_BlrEast_Anekal = (Fin 77.66, Fin 12.87)"

definition J_BlrSouth_Anekal_West :: point where
  "J_BlrSouth_Anekal_West = (Fin 77.53, Fin 12.82)"

definition COORDS_NELAMANGALA :: "point list" where
  "COORDS_NELAMANGALA =
    [J_Nelamangala_Doddaballapur_BlrNorth, (Fin 77.45, Fin 13.10), (Fin 77.48, Fin 13.02),
     (Fin 77.42, Fin 12.96), (Fin 77.35, Fin 12.98), (Fin 77.25, Fin 13.05),
     (Fin 77.22, Fin 13.15), (Fin 77.28, Fin 13.25), (Fin 77.35, Fin 13.22),
     J_Nelamangala_Doddaballapur_BlrNorth]"

definition COORDS_DODDABALLAPUR :: "point list" where
  "COORDS_DODDABALLAPUR =
    [J_Nelamangala_Doddaballapur_BlrNorth, (Fin 77.38, Fin 13.25), (Fin 77.35, Fin 13.35),
     (Fin 77.40, Fin 13.45), (Fin 77.45, Fin 13.55), (Fin 77.55, Fin 13.52),
     (Fin 77.65, Fin 13.48), (Fin 77.62, Fin 13.35), J_Doddaballapur_Devanahalli_BlrNorth,
     (Fin 77.52, Fin 13.20), J_Nelamangala_Doddaballapur_BlrNorth]"

definition COORDS_DEVANAHALLI :: "point list" where
  "COORDS_DEVANAHALLI =
    [J_Doddaballapur_Devanahalli_BlrNorth, (Fin 77.62, Fin 13.35), (Fin 77.68, Fin 13.42),
     (Fin 77.78, Fin 13.40), (Fin 77.85, Fin 13.30), (Fin 77.82, Fin 13.20),
     (Fin 77.78, Fin 13.15), J_Devanahalli_Hoskote_BlrEast, (Fin 77.68, Fin 13.15),
     J_Doddaballapur_Devanahalli_BlrNorth]"

definition COORDS_HOSKOTE :: "point list" where
  "COORDS_HOSKOTE =
    [J_Devanahalli_Hoskote_BlrEast, (Fin 77.78, Fin 13.15), (Fin 77.88, Fin 13.12),
     (Fin 77.92, Fin 13.00), (Fin 77.88, Fin 12.90), (Fin 77.80, Fin 12.92),
     (Fin 77.75, Fin 12.95), J_Devanahalli_Hoskote_BlrEast]"

definition COORDS_BLR_NORTH :: "point list" where
  "COORDS_BLR_NORTH =
    [J_Nelamangala_Doddaballapur_BlrNorth, (Fin 77.52, Fin 13.20),
     J_Doddaballapur_Devanahalli_BlrNorth, (Fin 77.68, Fin 13.15),
     J_Devanahalli_Hoskote_BlrEast, (Fin 77.70, Fin 13.05), (Fin 77.65, Fin 13.00),
     J_BlrNorth_BlrEast_BlrSouth, (Fin 77.55, Fin 12.98), (Fin 77.50, Fin 13.00),
     (Fin 77.48, Fin 13.02), (Fin 77.45, Fin 13.10), J_Nelamangala_Doddaballapur_BlrNorth]"

definition COORDS_BLR_EAST :: "point list" where
  "COORDS_BLR_EAST =
    [J_BlrNorth_BlrEast_BlrSouth, (Fin 77.65, Fin 13.00), (Fin 77.70, Fin 13.05),
     J_Devanahalli_Hoskote_BlrEast, (Fin 77.75, Fin 12.95), (Fin 77.80, Fin 12.92),
     (Fin 77.75, Fin 12.88), J_BlrSouth_BlrEast_Anekal, (Fin 77.65, Fin 12.92),
     J_BlrNorth_BlrEast_BlrSouth]"

definition COORDS_BLR_SOUTH :: "point list" where
  "COORDS_BLR_SOUTH =
    [J_BlrNorth_BlrEast_BlrSouth, (Fin 77.65, Fin 12.92), J_BlrSouth_BlrEast_Anekal,
     (Fin 77.60, Fin 12.85), J_BlrSouth_Anekal_West, (Fin 77.48, Fin 12.88),
     (Fin 77.48, Fin 12.95), (Fin 77.55, Fin 12.98), J_BlrNorth_BlrEast_BlrSouth]"

definition COORDS_ANEKAL :: "point list" where
  "COORDS_ANEKAL =
    [J_BlrSouth_Anekal_West, (Fin 77.60, Fin 12.85), J_BlrSouth_BlrEast_Anekal,
     (Fin 77.75, Fin 12.88), (Fin 77.82, Fin 12.80), (Fin 77.78, Fin 12.70),
     (Fin 77.70, Fin 12.65), (Fin 77.60, Fin 12.68), (Fin 77.52, Fin 12.75),
     J_BlrSouth_Anekal_West]"

text \<open>
  A row of \<open>talukDataRaw\<close>. Population, literacy rate and centre only feed attributes
  that are left out of the features below.
\<close>

record taluk =
  t_name :: string
  t_district :: string
  t_coords :: "point list"
  t_crops :: "string list option"
  t_keyMarkets :: "string list option"

definition talukDataRaw :: "taluk list" where
  "talukDataRaw =
     [\<lparr> t_name = ''Doddaballapur'', t_district = ''Bengaluru Rural'', t_coords = COORDS_DODDABALLAPUR,
        t_crops = Some [''Ragi'', ''Maize'', ''Silk''],
        t_keyMarkets = Some [''Apparel Park'', ''Weaving''] \<rparr>,
      \<lparr> t_name = ''Devanahalli'', t_district = ''Bengaluru Rural'', t_coords = COORDS_DEVANAHALLI,
        t_crops = Some [''Grapes'', ''Vegetables'', ''Flowers''],
        t_keyMarkets = Some [''Aerospace'', ''Logistics''] \<rparr>,
      \<lparr> t_name = ''Nelamangala'', t_district = ''Bengaluru Rural'', t_coords = COORDS_NELAMANGALA,
        t_crops = Some [''Ragi'', ''Arecanut'', ''Coconut''],
        t_keyMarkets = Some [''Industrial'', ''Warehousing''] \<rparr>,
      \<lparr> t_name = ''Hoskote'', t_district = ''Bengaluru Rural'', t_coords = COORDS_HOSKOTE,
        t_crops = Some [''Vegetables'', ''Flowers'', ''Tomato''],
        t_keyMarkets = Some [''Auto Components'', ''Logistics''] \<rparr>,
      \<lparr> t_name = ''Bengaluru North'', t_district = ''Bengaluru Urban'', t_coords = COORDS_BLR_NORTH,
        t_crops = None,
        t_keyMarkets = Some [''Peenya Industrial'', ''Research Inst.'', ''Aerospace''] \<rparr>,
      \<lparr> t_name = ''Bengaluru East'', t_district = ''Bengaluru Urban'', t_coords = COORDS_BLR_EAST,
        t_crops = None,
        t_keyMarkets = Some [''IT/BT'', ''Whitefield Cluster'', ''Tech Parks''] \<rparr>,
      \<lparr> t_name = ''Bengaluru South'', t_district = ''Bengaluru Urban'', t_coords = COORDS_BLR_SOUTH,
        t_crops = None,
        t_keyMarkets = Some [''Software'', ''Education Hub'', ''Heavy Engg''] \<rparr>,
      \<lparr> t_name = ''Anekal'', t_district = ''Bengaluru Urban'', t_coords = COORDS_ANEKAL,
        t_crops = Some [''Ragi'', ''Floriculture''],
        t_keyMarkets = Some [''Electronic City'', ''Textiles''] \<rparr>]"

section \<open>VillageSynthesizer\<close>

text \<open>The curated gazetteer: the village names of each taluk and their \<open>[lat, lng]\<close>.\<close>

definition REAL_VILLAGE_NAMES :: "string \<rightharpoonup> string list" where
  "REAL_VILLAGE_NAMES = map_of
     [(''Devanahalli'',
         [''Avati'', ''Bidalur'', ''Kundana'', ''Vijayapura'', ''Channarayapatna'',
          ''Kannamangala'', ''Koira'', ''Sathanur'', ''Yeliyur'', ''Venkatagirikote'',
          ''Sadahalli'', ''Devanahalli Town'']),
      (''Doddaballapur'',
         [''Tubagere'', ''Sasalu'', ''Madhure'', ''Doddabelavangala'', ''Melekote'',
          ''Raghunathapura'', ''Konaghatta'', ''Heggadihalli'', ''Aroodi'', ''Kadur'',
          ''Doddaballapur Ind. Area'']),
      (''Hoskote'',
         [''Anugondanahalli'', ''Jadigenahalli'', ''Nandagudi'', ''Sulibele'', ''Mugabal'',
          ''Kalkunte'', ''Doddagattiganabbe'', ''Vagata'', ''Muthasandra'',
          ''Hoskote Town'', ''Thavarekere'']),
      (''Nelamangala'',
         [''Sompura'', ''T. Begur'', ''Kulumepalya'', ''Dabaspet'', ''Thyamagondlu'',
          ''Baraguru'', ''Manne'', ''Nidavanda'', ''Mahadevapura'', ''Nelamangala Town'',
          ''Arishinakunte'']),
      (''Anekal'',
         [''Sarjapura'', ''Attibele'', ''Jigani'', ''Marsur'', ''Mugalur'',
          ''Dommasandra'', ''Neriga'', ''Chandapura'', ''Mayasandra'', ''Indlavadi'',
          ''Anekal Town'', ''Hebbagodi'']),
      (''Bengaluru North'',
         [''Hesaraghatta'', ''Gopalapura'', ''Singanayakanahalli'', ''Bagalur'',
          ''Kadalagere'', ''Chikkabanavara'', ''Srigandhada Kaval'',
          ''Yelahanka New Town'', ''Jakkur'', ''Thanisandra'']),
      (''Bengaluru East'',
         [''Varthur'', ''Gunjur'', ''Sorahunase'', ''Immadihalli'', ''Mullur'',
          ''Panathur'', ''Balagere'', ''Hoodi'', ''Kadugodi'', ''Bellandur'']),
      (''Bengaluru South'',
         [''Kengeri'', ''Begur'', ''Hulimavu'', ''Gottigere'', ''Tataguni'', ''Agara'',
          ''Uttarahalli'', ''Konanakunte'', ''Anjanapura'', ''Vasanthapura''])]"

definition villageLocationTable :: "(string \<times> jsnum \<times> jsnum) list" where
  "villageLocationTable =
     [(''Avati'', (Fin 13.303, Fin 77.726)),
      (''Bidalur'', (Fin 13.218, Fin 77.693)),
      (''Kundana'', (Fin 13.208, Fin 77.636)),
      (''Vijayapura'', (Fin 13.293, Fin 77.801)),
      (''Channarayapatna'', (Fin 13.220, Fin 77.750)),
      (''Kannamangala'', (Fin 13.180, Fin 77.730)),
      (''Koira'', (Fin 13.220, Fin 77.660)),
      (''Sathanur'', (Fin 13.140, Fin 77.650)),
      (''Yeliyur'', (Fin 13.190, Fin 77.720)),
      (''Venkatagirikote'', (Fin 13.240, Fin 77.710)),
      (''Sadahalli'', (Fin 13.190, Fin 77.680)),
      (''Devanahalli Town'', (Fin 13.248, Fin 77.713)),
      (''Tubagere'', (Fin 13.350, Fin 77.450)),
      (''Sasalu'', (Fin 13.260, Fin 77.450)),
      (''Madhure'', (Fin 13.220, Fin 77.440)),
      (''Doddabelavangala'', (Fin 13.380, Fin 77.380)),
      (''Melekote'', (Fin 13.320, Fin 77.510)),
      (''Raghunathapura'', (Fin 13.280, Fin 77.520)),
      (''Konaghatta'', (Fin 13.310, Fin 77.540)),
      (''Heggadihalli'', (Fin 13.380, Fin 77.480)),
      (''Aroodi'', (Fin 13.400, Fin 77.420)),
      (''Kadur'', (Fin 13.300, Fin 77.400)),
      (''Doddaballapur Ind. Area'', (Fin 13.280, Fin 77.530)),
      (''Anugondanahalli'', (Fin 13.010, Fin 77.820)),
      (''Jadigenahalli'', (Fin 13.060, Fin 77.850)),
      (''Nandagudi'', (Fin 13.150, Fin 77.880)),
      (''Sulibele'', (Fin 13.120, Fin 77.810)),
      (''Mugabal'', (Fin 13.040, Fin 77.860)),
      (''Kalkunte'', (Fin 13.080, Fin 77.750)),
      (''Doddagattiganabbe'', (Fin 13.060, Fin 77.800)),
      (''Vagata'', (Fin 13.110, Fin 77.860)),
      (''Muthasandra'', (Fin 13.020, Fin 77.790)),
      (''Hoskote Town'', (Fin 13.070, Fin 77.795)),
      (''Thavarekere'', (Fin 13.000, Fin 77.820)),
      (''Sompura'', (Fin 13.240, Fin 77.230)),
      (''T. Begur'', (Fin 13.150, Fin 77.300)),
      (''Kulumepalya'', (Fin 13.120, Fin 77.350)),
      (''Dabaspet'', (Fin 13.240, Fin 77.240)),
      (''Thyamagondlu'', (Fin 13.200, Fin 77.280)),
      (''Baraguru'', (Fin 13.180, Fin 77.250)),
      (''Manne'', (Fin 13.220, Fin 77.320)),
      (''Nidavanda'', (Fin 13.260, Fin 77.220)),
      (''Mahadevapura'', (Fin 13.120, Fin 77.380)),
      (''Nelamangala Town'', (Fin 13.095, Fin 77.390)),
      (''Arishinakunte'', (Fin 13.130, Fin 77.420)),
      (''Sarjapura'', (Fin 12.860, Fin 77.780)),
      (''Attibele'', (Fin 12.780, Fin 77.770)),
      (''Jigani'', (Fin 12.780, Fin 77.640)),
      (''Marsur'', (Fin 12.800, Fin 77.700)),
      (''Mugalur'', (Fin 12.880, Fin 77.750)),
      (''Dommasandra'', (Fin 12.890, Fin 77.750)),
      (''Neriga'', (Fin 12.920, Fin 77.760)),
      (''Chandapura'', (Fin 12.800, Fin 77.700)),
      (''Mayasandra'', (Fin 12.750, Fin 77.720)),
      (''Indlavadi'', (Fin 12.740, Fin 77.680)),
      (''Anekal Town'', (Fin 12.710, Fin 77.690)),
      (''Hebbagodi'', (Fin 12.840, Fin 77.670)),
      (''Hesaraghatta'', (Fin 13.140, Fin 77.480)),
      (''Gopalapura'', (Fin 13.160, Fin 77.460)),
      (''Singanayakanahalli'', (Fin 13.120, Fin 77.560)),
      (''Bagalur'', (Fin 13.140, Fin 77.640)),
      (''Kadalagere'', (Fin 13.170, Fin 77.600)),
      (''Chikkabanavara'', (Fin 13.070, Fin 77.510)),
      (''Srigandhada Kaval'', (Fin 12.990, Fin 77.500)),
      (''Yelahanka New Town'', (Fin 13.100, Fin 77.580)),
      (''Jakkur'', (Fin 13.070, Fin 77.600)),
      (''Thanisandra'', (Fin 13.050, Fin 77.630)),
      (''Varthur'', (Fin 12.940, Fin 77.740)),
      (''Gunjur'', (Fin 12.920, Fin 77.740)),
      (''Sorahunase'', (Fin 12.950, Fin 77.750)),
      (''Immadihalli'', (Fin 12.960, Fin 77.760)),
      (''Mullur'', (Fin 12.910, Fin 77.730)),
      (''Panathur'', (Fin 12.930, Fin 77.700)),
      (''Balagere'', (Fin 12.940, Fin 77.720)),
      (''Hoodi'', (Fin 12.990, Fin 77.710)),
      (''Kadugodi'', (Fin 12.995, Fin 77.760)),
      (''Bellandur'', (Fin 12.930, Fin 77.670)),
      (''Kengeri'', (Fin 12.910, Fin 77.480)),
      (''Begur'', (Fin 12.880, Fin 77.630)),
      (''Hulimavu'', (Fin 12.870, Fin 77.600)),
      (''Gottigere'', (Fin 12.860, Fin 77.580)),
      (''Tataguni'', (Fin 12.850, Fin 77.520)),
      (''Agara'', (Fin 12.920, Fin 77.640)),
      (''Uttarahalli'', (Fin 12.900, Fin 77.540)),
      (''Konanakunte'', (Fin 12.890, Fin 77.570)),
      (''Anjanapura'', (Fin 12.860, Fin 77.560)),
      (''Vasanthapura'', (Fin 12.890, Fin 77.540))]"

definition REAL_VILLAGE_LOCATIONS :: "string \<rightharpoonup> jsnum \<times> jsnum" where
  "REAL_VILLAGE_LOCATIONS = map_of villageLocationTable"

definition villagePrefixes :: "string list" where
  "villagePrefixes = [''Doda'', ''Chikka'', ''Malla'', ''Golla'', ''Hosa'', ''Byra'', ''Kumba'', ''Sidda'', ''Rama'', ''Shiva'', ''Nara'']"

definition villageSuffixes :: "string list" where
  "villageSuffixes = [''pura'', ''halli'', ''kere'', ''gudda'', ''palya'', ''sandra'', ''kote'', ''ur'', ''pete'', ''gere'']"

text \<open>
  A village feature. \<open>v_ring\<close> is the ring of its polygon. \<open>v_centre\<close> is the point
  \<open>[lng, lat]\<close> the polygon was generated around: the source does not store it in the
  feature, it is kept here so that the placement can be talked about. The distance
  attributes, which are functions of the centre alone, are left out.
\<close>

record village =
  v_id :: string
  v_geocode :: string
  v_name :: string
  v_district :: string
  v_taluk :: string
  v_population :: int
  v_areaSqKm :: real
  v_literacyRate :: real
  v_waterSource :: string
  v_roadCondition :: string
  v_busFrequency :: string
  v_householdCount :: int
  v_schoolCount :: int
  v_mainCrops :: "string list option"
  v_keyMarkets :: "string list option"
  v_ring :: "point list"
  v_centre :: point

text \<open>
  The module-level state of the generator: the two counters, the number of draws taken
  from \<open>Math.random\<close> so far, and the villages pushed so far.
\<close>

record gen_state =
  vId :: nat
  villageGeocodeCounter :: nat
  draws :: nat
  generatedVillages :: "village list"

definition initialGen :: gen_state where
  "initialGen = \<lparr> vId = 0, villageGeocodeCounter = 1001, draws = 0, generatedVillages = [] \<rparr>"

text \<open>
  \<open>xs[Math.floor(r * xs.length)]\<close>; an index out of range, which no draw in [0, 1)
  gives, reads \<open>undefined\<close>.
\<close>

definition pick :: "string list \<Rightarrow> real \<Rightarrow> string" where
  "pick xs r = (let i = \<lfloor>r * real (length xs)\<rfloor>
                in if 0 \<le> i \<and> nat i < length xs then xs ! nat i else ''undefined'')"

definition waterSources :: "string list" where
  "waterSources = [''Borewell'', ''Kaveri Connection'', ''Local Lake/Tank'', ''Panchayat Supply'']"

definition roads :: "string list" where
  "roads = [''Asphalted'', ''Concrete'', ''Gravel/Mud'', ''All-weather'']"

definition buses :: "string list" where
  "buses = [''Hourly'', ''Every 30 mins'', ''Twice a day'', ''Irregular'']"

text \<open>
  \<open>createVillageFeature\<close>. The polygon is generated, both counters are advanced and
  the population is drawn before the ring is checked; the remaining six draws are taken
  only when the feature is built.
\<close>

definition createVillageFeature ::
  "random_source \<Rightarrow> string \<Rightarrow> jsnum \<Rightarrow> jsnum \<Rightarrow> string \<Rightarrow> string \<Rightarrow> string list option
     \<Rightarrow> string list option \<Rightarrow> gen_state \<Rightarrow> village option \<times> gen_state" where
  "createVillageFeature rnd name lat lng talukName districtName crops keyMarkets st =
     (let (ring, d) = generateOrganicPolygon rnd (draws st) lat lng 0.005;
          vIDString = ''village-'' @ digitsOf (vId st);
          geocode = ''KAV'' @ digitsOf (villageGeocodeCounter st);
          population = 500 + \<lfloor>rnd d * 4000\<rfloor>;
          st1 = st\<lparr> vId := vId st + 1,
                    villageGeocodeCounter := villageGeocodeCounter st + 1,
                    draws := d + 1 \<rparr>
      in if isValidRing ring then
           (Some \<lparr> v_id = vIDString,
                   v_geocode = geocode,
                   v_name = name,
                   v_district = districtName,
                   v_taluk = talukName,
                   v_population = population,
                   v_areaSqKm = 1 + rnd (d + 1) * 2,
                   v_literacyRate = 60 + rnd (d + 2) * 30,
                   v_waterSource = pick waterSources (rnd (d + 3)),
                   v_roadCondition = pick roads (rnd (d + 4)),
                   v_busFrequency = pick buses (rnd (d + 5)),
                   v_householdCount = \<lfloor>real_of_int population / 4.5\<rfloor>,
                   v_schoolCount = \<lfloor>rnd (d + 6) * 3\<rfloor>,
                   v_mainCrops = crops,
                   v_keyMarkets = keyMarkets,
                   v_ring = ring,
                   v_centre = (lng, lat) \<rparr>,
            st1\<lparr> draws := d + 7 \<rparr>)
         else (None, st1))"

definition pushVillage :: "village \<Rightarrow> gen_state \<Rightarrow> gen_state" where
  "pushVillage feature st = st\<lparr> generatedVillages := generatedVillages st @ [feature] \<rparr>"

text \<open>
  Step 1 of a taluk: every curated name that has a location is placed there, with no
  containment test. The count of placed villages is threaded with the state.
\<close>

fun placeRealVillages ::
  "random_source \<Rightarrow> taluk \<Rightarrow> string list \<Rightarrow> nat \<Rightarrow> gen_state \<Rightarrow> nat \<times> gen_state" where
  "placeRealVillages rnd t [] count st = (count, st)"
| "placeRealVillages rnd t (name # names) count st =
     (case REAL_VILLAGE_LOCATIONS name of
        None \<Rightarrow> placeRealVillages rnd t names count st
      | Some (lat, lng) \<Rightarrow>
          (case createVillageFeature rnd name lat lng (t_name t) (t_district t)
                  (t_crops t) (t_keyMarkets t) st of
             (Some feature, st1) \<Rightarrow> placeRealVillages rnd t names (count + 1) (pushVillage feature st1)
           | (None, st1) \<Rightarrow> placeRealVillages rnd t names count st1))"

text \<open>
  Step 2 of a taluk: up to 400 attempts to fill the count up to 35 with points drawn in
  the bounding box (minLat, maxLat, minLng, maxLng) and kept only when they lie in the
  polygon.
\<close>

function fillRandomVillages ::
  "random_source \<Rightarrow> taluk \<Rightarrow> jsnum \<times> jsnum \<times> jsnum \<times> jsnum \<Rightarrow> nat \<Rightarrow> nat \<Rightarrow> gen_state \<Rightarrow> gen_state"
where
  "fillRandomVillages rnd t bounds count attempts st =
     (if count < 35 \<and> attempts < 400 then
        (case bounds of (minLat, maxLat, minLng, maxLng) \<Rightarrow>
           let lat = jadd minLat (jmul (Fin (rnd (draws st))) (jsub maxLat minLat));
               lng = jadd minLng (jmul (Fin (rnd (draws st + 1))) (jsub maxLng minLng));
               st1 = st\<lparr> draws := draws st + 2 \<rparr>
           in if isNaN lat \<or> isNaN lng then
                fillRandomVillages rnd t bounds count (attempts + 1) st1
              else if isPointInPolygon (lng, lat) (t_coords t) then
                (let name = pick villagePrefixes (rnd (draws st1))
                            @ pick villageSuffixes (rnd (draws st1 + 1));
                     st2 = st1\<lparr> draws := draws st1 + 2 \<rparr>
                 in case createVillageFeature rnd name lat lng (t_name t) (t_district t)
                           (t_crops t) (t_keyMarkets t) st2 of
                      (Some feature, st3) \<Rightarrow>
                        fillRandomVillages rnd t bounds (count + 1) (attempts + 1)
                          (pushVillage feature st3)
                    | (None, st3) \<Rightarrow>
                        fillRandomVillages rnd t bounds count (attempts + 1) st3)
              else fillRandomVillages rnd t bounds count (attempts + 1) st1)
      else st)"
  by pat_completeness auto
termination
  by (relation "measure (\<lambda>(rnd, t, bounds, count, attempts, st). 400 - attempts)") auto

declare fillRandomVillages.simps [simp del]

definition processTaluk :: "random_source \<Rightarrow> taluk \<Rightarrow> gen_state \<Rightarrow> gen_state" where
  "processTaluk rnd t st =
     (let lats = map snd (t_coords t);
          lngs = map fst (t_coords t);
          bounds = (mathMin lats, mathMax lats, mathMin lngs, mathMax lngs);
          realNames = (case REAL_VILLAGE_NAMES (t_name t) of None \<Rightarrow> [] | Some names \<Rightarrow> names);
          (count, st1) = placeRealVillages rnd t realNames 0 st
      in fillRandomVillages rnd t bounds count 0 st1)"

text \<open>
  The state in which either step goes on after it has called \<open>createVillageFeature\<close>:
  the village is pushed if one was returned.
\<close>

definition afterCreate ::
  "random_source \<Rightarrow> string \<Rightarrow> jsnum \<Rightarrow> jsnum \<Rightarrow> taluk \<Rightarrow> gen_state \<Rightarrow> gen_state" where
  "afterCreate rnd name lat lng t st =
     (case createVillageFeature rnd name lat lng (t_name t) (t_district t)
             (t_crops t) (t_keyMarkets t) st of
        (Some feature, st1) \<Rightarrow> pushVillage feature st1
      | (None, st1) \<Rightarrow> st1)"

text \<open>\<open>talukDataRaw.forEach\<close>, for any list of taluks, and the villages collection.\<close>

definition generateVillages :: "random_source \<Rightarrow> taluk list \<Rightarrow> gen_state \<Rightarrow> gen_state" where
  "generateVillages rnd taluks st = foldl (\<lambda>s t. processTaluk rnd t s) st taluks"

definition villagesData :: "random_source \<Rightarrow> village list" where
  "villagesData rnd = generatedVillages (generateVillages rnd talukDataRaw initialGen)"

section \<open>The other generated collections\<close>

text \<open>
  Of the features of the taluks, districts and postal zones, the identifier, the
  geocode, the name and the geometry are modelled; their other attributes do not enter
  identifiers or geocodes.
\<close>

record region =
  r_id :: string
  r_geocode :: string
  r_name :: string
  r_type :: string
  r_polygons :: "point list list"

text \<open>\<open>s.padStart(2, '0')\<close>.\<close>

definition padStart2 :: "string \<Rightarrow> string" where
  "padStart2 s = replicate (2 - length s) CHR ''0'' @ s"

definition talukFeature :: "nat \<Rightarrow> taluk \<Rightarrow> region" where
  "talukFeature i t =
     \<lparr> r_id = ''taluk-'' @ digitsOf i,
       r_geocode = ''KAT'' @ padStart2 (digitsOf (i + 1)),
       r_name = t_name t,
       r_type = ''Taluk'',
       r_polygons = [t_coords t] \<rparr>"

definition taluksData :: "region list" where
  "taluksData = map (\<lambda>(i, t). talukFeature i t) (enumerate 0 talukDataRaw)"

definition districtsData :: "region list" where
  "districtsData =
     [\<lparr> r_id = ''dist-rural'', r_geocode = ''KAD01'', r_name = ''Bengaluru Rural'',
        r_type = ''District'',
        r_polygons = [COORDS_DODDABALLAPUR, COORDS_DEVANAHALLI, COORDS_NELAMANGALA, COORDS_HOSKOTE] \<rparr>,
      \<lparr> r_id = ''dist-urban'', r_geocode = ''KAD02'', r_name = ''Bengaluru Urban'',
        r_type = ''District'',
        r_polygons = [COORDS_BLR_NORTH, COORDS_BLR_EAST, COORDS_BLR_SOUTH, COORDS_ANEKAL] \<rparr>]"

text \<open>The postal zones: code, area name and district of each row of \<open>REAL_PINCODES\<close>.\<close>

definition REAL_PINCODES :: "(string \<times> string \<times> string) list" where
  "REAL_PINCODES =
     [(''560001'', ''M.G. Road'', ''Bengaluru Urban''),
      (''560002'', ''City Market'', ''Bengaluru Urban''),
      (''560003'', ''Malleswaram'', ''Bengaluru Urban''),
      (''560004'', ''Basavanagudi'', ''Bengaluru Urban''),
      (''560005'', ''Fraser Town'', ''Bengaluru Urban''),
      (''560009'', ''Gandhinagar'', ''Bengaluru Urban''),
      (''560020'', ''Seshadripuram'', ''Bengaluru Urban''),
      (''560025'', ''Richmond Town'', ''Bengaluru Urban''),
      (''560027'', ''Wilson Garden'', ''Bengaluru Urban''),
      (''560046'', ''Benson Town'', ''Bengaluru Urban''),
      (''560053'', ''Cottonpet'', ''Bengaluru Urban''),
      (''560006'', ''J.C. Nagar'', ''Bengaluru Urban''),
      (''560012'', ''IISC'', ''Bengaluru Urban''),
      (''560013'', ''Jalahalli'', ''Bengaluru Urban''),
      (''560015'', ''Gangamma Circle'', ''Bengaluru Urban''),
      (''560022'', ''Yeshwanthpur'', ''Bengaluru Urban''),
      (''560024'', ''Hebbal'', ''Bengaluru Urban''),
      (''560032'', ''R.T. Nagar'', ''Bengaluru Urban''),
      (''560054'', ''Mathikere'', ''Bengaluru Urban''),
      (''560057'', ''Dasarahalli'', ''Bengaluru Urban''),
      (''560058'', ''Peenya'', ''Bengaluru Urban''),
      (''560064'', ''Yelahanka'', ''Bengaluru Urban''),
      (''560092'', ''Sahakara Nagar'', ''Bengaluru Urban''),
      (''560094'', ''Sanjay Nagar'', ''Bengaluru Urban''),
      (''560097'', ''Vidyaranyapura'', ''Bengaluru Urban''),
      (''560063'', ''Jalahalli West'', ''Bengaluru Urban''),
      (''560090'', ''Chikkabanavara'', ''Bengaluru Urban''),
      (''560008'', ''Ulsoor'', ''Bengaluru Urban''),
      (''560016'', ''Ramamurthy Nagar'', ''Bengaluru Urban''),
      (''560017'', ''Old Airport Rd'', ''Bengaluru Urban''),
      (''560033'', ''Maruthi Sevanagar'', ''Bengaluru Urban''),
      (''560036'', ''Krishnarajapuram'', ''Bengaluru Urban''),
      (''560037'', ''Marathahalli'', ''Bengaluru Urban''),
      (''560038'', ''Indiranagar'', ''Bengaluru Urban''),
      (''560043'', ''Kalyan Nagar'', ''Bengaluru Urban''),
      (''560045'', ''Nagawara'', ''Bengaluru Urban''),
      (''560048'', ''Mahadevapura'', ''Bengaluru Urban''),
      (''560049'', ''Virgonagar'', ''Bengaluru Urban''),
      (''560066'', ''Whitefield'', ''Bengaluru Urban''),
      (''560067'', ''Kadugodi'', ''Bengaluru Urban''),
      (''560071'', ''Domlur'', ''Bengaluru Urban''),
      (''560077'', ''Kothanur'', ''Bengaluru Urban''),
      (''560093'', ''C.V. Raman Nagar'', ''Bengaluru Urban''),
      (''560105'', ''Seegehalli'', ''Bengaluru Urban''),
      (''560011'', ''Jayanagar'', ''Bengaluru Urban''),
      (''560019'', ''Hanumanthnagar'', ''Bengaluru Urban''),
      (''560028'', ''Thyagarajanagar'', ''Bengaluru Urban''),
      (''560029'', ''BTM 1st Stage'', ''Bengaluru Urban''),
      (''560030'', ''Adugodi'', ''Bengaluru Urban''),
      (''560034'', ''Koramangala'', ''Bengaluru Urban''),
      (''560035'', ''Sarjapur Road'', ''Bengaluru Urban''),
      (''560041'', ''Jayanagar 9th Block'', ''Bengaluru Urban''),
      (''560047'', ''Vivek Nagar'', ''Bengaluru Urban''),
      (''560050'', ''Hanumanthnagar'', ''Bengaluru Urban''),
      (''560061'', ''Subramanyapura'', ''Bengaluru Urban''),
      (''560062'', ''Doddakallasandra'', ''Bengaluru Urban''),
      (''560068'', ''Bommanahalli'', ''Bengaluru Urban''),
      (''560069'', ''Jayanagar 4th T Block'', ''Bengaluru Urban''),
      (''560070'', ''Banashankari II Stage'', ''Bengaluru Urban''),
      (''560076'', ''BTM Layout'', ''Bengaluru Urban''),
      (''560078'', ''JP Nagar'', ''Bengaluru Urban''),
      (''560083'', ''Bannerghatta'', ''Bengaluru Urban''),
      (''560085'', ''Banashankari'', ''Bengaluru Urban''),
      (''560099'', ''Bommasandra'', ''Bengaluru Urban''),
      (''560100'', ''Electronic City'', ''Bengaluru Urban''),
      (''560102'', ''HSR Layout'', ''Bengaluru Urban''),
      (''560103'', ''Bellandur'', ''Bengaluru Urban''),
      (''560010'', ''Rajajinagar'', ''Bengaluru Urban''),
      (''560018'', ''Chamrajpet'', ''Bengaluru Urban''),
      (''560021'', ''Srirampura'', ''Bengaluru Urban''),
      (''560023'', ''Magadi Road'', ''Bengaluru Urban''),
      (''560026'', ''Mysore Road'', ''Bengaluru Urban''),
      (''560039'', ''Nayandahalli'', ''Bengaluru Urban''),
      (''560040'', ''Vijayanagar'', ''Bengaluru Urban''),
      (''560056'', ''Bangalore University'', ''Bengaluru Urban''),
      (''560059'', ''Kengeri Satellite Town'', ''Bengaluru Urban''),
      (''560060'', ''Kengeri'', ''Bengaluru Urban''),
      (''560072'', ''Nagarbhavi'', ''Bengaluru Urban''),
      (''560073'', ''Nagasandra'', ''Bengaluru Urban''),
      (''560074'', ''Kumbalgodu'', ''Bengaluru Urban''),
      (''560079'', ''Magadi Road (West)'', ''Bengaluru Urban''),
      (''560091'', ''Viswaneedam'', ''Bengaluru Urban''),
      (''560096'', ''Nandini Layout'', ''Bengaluru Urban''),
      (''560098'', ''Rajarajeshwari Nagar'', ''Bengaluru Urban''),
      (''562110'', ''Bial (Airport)'', ''Bengaluru Rural''),
      (''562114'', ''Dobbaspet'', ''Bengaluru Rural''),
      (''562123'', ''Nelamangala'', ''Bengaluru Rural''),
      (''562125'', ''Shivakote'', ''Bengaluru Urban''),
      (''562129'', ''Hoskote'', ''Bengaluru Rural''),
      (''562135'', ''Tavarekere'', ''Bengaluru Rural''),
      (''562149'', ''Rajanukunte'', ''Bengaluru Urban''),
      (''562157'', ''Devanahalli'', ''Bengaluru Rural''),
      (''562162'', ''Arishinakunte'', ''Bengaluru Rural''),
      (''562163'', ''Thyamagondlu'', ''Bengaluru Rural''),
      (''562164'', ''Heggunda'', ''Bengaluru Rural''),
      (''561203'', ''Doddaballapur'', ''Bengaluru Rural''),
      (''561204'', ''Doddabelavangala'', ''Bengaluru Rural''),
      (''561205'', ''Tubagere'', ''Bengaluru Rural''),
      (''560089'', ''Hesaraghatta'', ''Bengaluru Urban''),
      (''562106'', ''Anekal'', ''Bengaluru Urban''),
      (''562107'', ''Jigani'', ''Bengaluru Urban'')]"

text \<open>
  The Voronoi tessellation comes from a library and is a parameter here: building it
  throws, or it gives for each row a cell polygon, no polygon, or throws when asked.
\<close>

datatype cell = CellThrows | NoCell | Cell "point list"

datatype tessellation = BuildThrows | Cells "nat \<Rightarrow> cell"

definition pincodeFeature :: "string \<times> string \<times> string \<Rightarrow> point list \<Rightarrow> region" where
  "pincodeFeature row poly =
     (case row of (code, areaName, district) \<Rightarrow>
        \<lparr> r_id = ''pin-'' @ code,
          r_geocode = ''KAP'' @ code,
          r_name = code @ '' - '' @ areaName,
          r_type = ''Pincode'',
          r_polygons = [poly] \<rparr>)"

text \<open>
  The loop over the rows from index \<open>i\<close> on: a row whose cell is missing or invalid is
  skipped, and an exception ends the loop, keeping what was pushed before.
\<close>

fun pincodeLoop :: "(nat \<Rightarrow> cell) \<Rightarrow> nat \<Rightarrow> (string \<times> string \<times> string) list \<Rightarrow> region list" where
  "pincodeLoop cells i [] = []"
| "pincodeLoop cells i (row # rows) =
     (case cells i of
        CellThrows \<Rightarrow> []
      | NoCell \<Rightarrow> pincodeLoop cells (i + 1) rows
      | Cell poly \<Rightarrow>
          if isValidRing poly then pincodeFeature row poly # pincodeLoop cells (i + 1) rows
          else pincodeLoop cells (i + 1) rows)"

definition pincodesData :: "tessellation \<Rightarrow> region list" where
  "pincodesData tess =
     (case tess of BuildThrows \<Rightarrow> [] | Cells cells \<Rightarrow> pincodeLoop cells 0 REAL_PINCODES)"

subsection \<open>Predicates on the generated villages\<close>

text \<open>
  The villages pushed so far are numbered without gaps: the \<open>k\<close>-th village (from 0)
  has the identifier \<open>village-k\<close> and the geocode \<open>KAV\<close> followed by 1001 + k, and
  both counters stand at the next free number.
\<close>

definition numbered :: "gen_state \<Rightarrow> bool" where
  "numbered st =
     (villageGeocodeCounter st = 1001 + vId st \<and> vId st = length (generatedVillages st)
      \<and> map v_geocode (generatedVillages st)
          = map (\<lambda>k. ''KAV'' @ digitsOf (1001 + k)) [0..<length (generatedVillages st)]
      \<and> map v_id (generatedVillages st)
          = map (\<lambda>k. ''village-'' @ digitsOf k) [0..<length (generatedVillages st)])"

text \<open>
  A village is a curated one of a taluk when its name is in the taluk's gazetteer and
  its centre is the location the gazetteer gives for that name.
\<close>

definition curatedAt :: "taluk \<Rightarrow> village \<Rightarrow> bool" where
  "curatedAt t v =
     (case REAL_VILLAGE_NAMES (t_name t) of
        None \<Rightarrow> False
      | Some names \<Rightarrow> v_name v \<in> set names
          \<and> REAL_VILLAGE_LOCATIONS (v_name v) = Some (snd (v_centre v), fst (v_centre v)))"

text \<open>
  A village is placed in a list of taluks when a taluk of its name contains its centre,
  by the ray-casting test, or has it as a curated village.
\<close>

definition placedIn :: "taluk list \<Rightarrow> village \<Rightarrow> bool" where
  "placedIn taluks v =
     list_ex (\<lambda>t. v_taluk v = t_name t
                \<and> (isPointInPolygon (v_centre v) (t_coords t) \<or> curatedAt t v)) taluks"

text \<open>The identifiers of all generated collections, one after the other.\<close>

definition generatedIds :: "random_source \<Rightarrow> tessellation \<Rightarrow> string list" where
  "generatedIds rnd tess =
     map r_id districtsData @ map r_id taluksData @ map v_id (villagesData rnd)
       @ map r_id (pincodesData tess)"

subsection \<open>Inputs of the examples\<close>

text \<open>A random source whose every draw is 0.\<close>

definition zeroDraws :: random_source where
  "zeroDraws n = 0"

text \<open>A random source whose every draw is one half.\<close>

definition halfDraws :: random_source where
  "halfDraws n = 1 / 2"

text \<open>Name, taluk and centre of each village of a list.\<close>

definition placements :: "village list \<Rightarrow> (string \<times> string \<times> point) list" where
  "placements vs = map (\<lambda>v. (v_name v, v_taluk v, v_centre v)) vs"

text \<open>The taluk of a given name in a list of taluks, if there is one.\<close>

definition talukNamed :: "taluk list \<Rightarrow> string \<Rightarrow> taluk option" where
  "talukNamed ts n = find (\<lambda>t. t_name t = n) ts"

text \<open>An endpoint that answers every request with two nodes whose identifiers share their first six digits.\<close>

definition twinEndpoint :: endpoint where
  "twinEndpoint n q = Response 200 (Inr [pointElement ''1234567890'', pointElement ''1234567891''])"

section \<open>Tabular export and import of a collection\<close>

text \<open>
  The attribute bag of a feature (\<open>GeoMetadata\<close>) is an object with arbitrary keys. Its
  values, in the collections the application holds, are strings, numbers, arrays and
  \<open>undefined\<close>; an object is a list of keys with their values, in insertion order, each
  key once. A geometry is its \<open>type\<close> and its nested \<open>coordinates\<close> array.
\<close>

datatype jsvalue = Undefined | Str string | Num jsnum | Arr "jsvalue list"

record geometry =
  g_type :: string
  g_coordinates :: jsvalue

record feature =
  f_id :: string
  f_properties :: "(string \<times> jsvalue) list"
  f_geometry :: geometry

text \<open>\<open>obj[k]\<close>: the value under a key, \<open>undefined\<close> when the key is absent.\<close>

definition getProp :: "(string \<times> jsvalue) list \<Rightarrow> string \<Rightarrow> jsvalue" where
  "getProp obj k = (case map_of obj k of None \<Rightarrow> Undefined | Some v \<Rightarrow> v)"

text \<open>
  \<open>obj[k] = v\<close>: an existing key keeps its place and takes the new value, a new key goes
  to the end.
\<close>

fun setProp :: "string \<Rightarrow> jsvalue \<Rightarrow> (string \<times> jsvalue) list \<Rightarrow> (string \<times> jsvalue) list" where
  "setProp k v [] = [(k, v)]"
| "setProp k v (kv # r) = (if fst kv = k then (k, v) # r else kv # setProp k v r)"

subsection \<open>Numbers and JSON text\<close>

text \<open>
  \<open>String(x)\<close> of a number. The digits after the point are produced one by one, at most
  17 of them: this is the text JavaScript prints for a number written as a decimal
  with that many digits and of magnitude between \<open>1e-6\<close> and \<open>1e21\<close>, which covers
  every literal of the data; the exponent notation of the other numbers is not
  modelled.
\<close>

fun fractionDigits :: "nat \<Rightarrow> real \<Rightarrow> string" where
  "fractionDigits 0 f = []"
| "fractionDigits (Suc k) f =
     (if f = 0 then []
      else let d = nat \<lfloor>f * 10\<rfloor> in digitChar d # fractionDigits k (f * 10 - real d))"

definition numberToString :: "jsnum \<Rightarrow> string" where
  "numberToString x =
     (case x of NaN \<Rightarrow> ''NaN'' | PInf \<Rightarrow> ''Infinity'' | NInf \<Rightarrow> ''-Infinity''
      | Fin a \<Rightarrow>
          (let n = nat \<lfloor>\<bar>a\<bar>\<rfloor>;
               f = \<bar>a\<bar> - real n;
               body = digitsOf n @ (if f = 0 then [] else ''.'' @ fractionDigits 17 f)
           in if a < 0 then ''-'' @ body else body))"

definition dquote :: char where
  "dquote = CHR 0x22"

definition backslash :: char where
  "backslash = CHR 0x5C"

definition newline :: char where
  "newline = CHR 0x0A"

definition hexDigitChar :: "nat \<Rightarrow> char" where
  "hexDigitChar d = ''0123456789abcdef'' ! d"

text \<open>The escape of one character inside a JSON string.\<close>

definition jsonEscape :: "char \<Rightarrow> string" where
  "jsonEscape c =
     (let n = (of_char c :: nat)
      in if c = dquote then [backslash, dquote]
         else if c = backslash then [backslash, backslash]
         else if n = 8 then [backslash, CHR ''b'']
         else if n = 9 then [backslash, CHR ''t'']
         else if n = 10 then [backslash, CHR ''n'']
         else if n = 12 then [backslash, CHR ''f'']
         else if n = 13 then [backslash, CHR ''r'']
         else if n < 32 then [backslash, CHR ''u'', CHR ''0'', CHR ''0'',
                              hexDigitChar (n div 16), hexDigitChar (n mod 16)]
         else [c])"

definition jsonString :: "string \<Rightarrow> string" where
  "jsonString s = dquote # concat (map jsonEscape s) @ [dquote]"

text \<open>
  \<open>JSON.stringify\<close> of a value inside an array or an object: \<open>undefined\<close> and the numbers
  that are not finite are written \<open>null\<close>.
\<close>

fun stringify :: "jsvalue \<Rightarrow> string" where
  "stringify Undefined = ''null''"
| "stringify (Str s) = jsonString s"
| "stringify (Num x) = (case x of Fin a \<Rightarrow> numberToString x | _ \<Rightarrow> ''null'')"
| "stringify (Arr xs) = ''['' @ joinWith '','' (map stringify xs) @ '']''"

text \<open>
  \<open>JSON.stringify(f.geometry)\<close>: the object with its keys \<open>type\<close> and \<open>coordinates\<close>, in
  the order the features are built with; a key whose value is \<open>undefined\<close> is left out.
\<close>

definition stringifyGeometry :: "geometry \<Rightarrow> string" where
  "stringifyGeometry g =
     ''{'' @ joinWith '',''
       ([jsonString ''type'' @ '':'' @ jsonString (g_type g)]
        @ (if g_coordinates g = Undefined then []
           else [jsonString ''coordinates'' @ '':'' @ stringify (g_coordinates g)]))
     @ ''}''"

subsection \<open>\<open>convertToCSV\<close>\<close>

text \<open>\<open>val.replace(/"/g, '""')\<close>: every double quote is doubled.\<close>

definition doubleQuotes :: "string \<Rightarrow> string" where
  "doubleQuotes s = concat (map (\<lambda>c. if c = dquote then [dquote, dquote] else [c]) s)"

definition quoted :: "string \<Rightarrow> string" where
  "quoted s = dquote # doubleQuotes s @ [dquote]"

text \<open>
  The header row: the keys of all the features in order of first appearance (a \<open>Set\<close>
  keeps insertion order), then \<open>geometry\<close>.
\<close>

definition addKey :: "string list \<Rightarrow> string \<Rightarrow> string list" where
  "addKey ks k = (if k \<in> set ks then ks else ks @ [k])"

definition allKeys :: "feature list \<Rightarrow> string list" where
  "allKeys features = foldl (\<lambda>ks f. foldl addKey ks (map fst (f_properties f))) [] features"

text \<open>
  One cell of a feature's row. The geometry and the arrays are written as JSON text
  between double quotes, quotes doubled; a string is written between double quotes
  only when it holds a comma; a number is written by \<open>join\<close> as \<open>String\<close> of it; an
  absent or \<open>undefined\<close> attribute is the empty cell.
\<close>

definition csvCell :: "feature \<Rightarrow> string \<Rightarrow> string" where
  "csvCell f header =
     (if header = ''geometry'' then quoted (stringifyGeometry (f_geometry f))
      else case getProp (f_properties f) header of
             Undefined \<Rightarrow> []
           | Str s \<Rightarrow> (let val = doubleQuotes s
                       in if CHR '','' \<in> set val then dquote # val @ [dquote] else val)
           | Arr xs \<Rightarrow> quoted (stringify (Arr xs))
           | Num x \<Rightarrow> numberToString x)"

definition convertToCSV :: "feature list \<Rightarrow> string" where
  "convertToCSV features =
     (if features = [] then []
      else let headers = allKeys features @ [''geometry''];
               csvRows = joinWith '','' headers
                         # map (\<lambda>f. joinWith '','' (map (csvCell f) headers)) features
           in joinWith [newline] csvRows)"

subsection \<open>The import of a \<open>.csv\<close> file in \<open>handleFileUpload\<close>\<close>

text \<open>\<open>s.split(c)\<close> with a separator of one character.\<close>

function splitOn :: "char \<Rightarrow> string \<Rightarrow> string list" where
  "splitOn c s =
     (case dropWhile (\<lambda>x. x \<noteq> c) s of
        [] \<Rightarrow> [s]
      | x # r \<Rightarrow> takeWhile (\<lambda>x. x \<noteq> c) s # splitOn c r)"
  by pat_completeness auto

termination
proof (relation "measure (\<lambda>(c, s). length s)")
  show "wf (measure (\<lambda>(c, s). length s))" by simp
next
  fix c :: char and s x r
  assume "dropWhile (\<lambda>x. x \<noteq> c) s = x # r"
  moreover have "length (dropWhile (\<lambda>x. x \<noteq> c) s) \<le> length s"
    by (rule length_dropWhile_le)
  ultimately show "((c, r), (c, s)) \<in> measure (\<lambda>(c, s). length s)" by simp
qed

declare splitOn.simps [simp del]

text \<open>\<open>s.trim()\<close>: the white space at both ends is removed.\<close>

definition trim :: "string \<Rightarrow> string" where
  "trim s = rev (dropWhile isWhiteSpace (rev (dropWhile isWhiteSpace s)))"

text \<open>
  \<open>Number(s)\<close> of a string: the trimmed string must be a numeric literal as a whole.
  The empty string is 0; \<open>0x\<close>, \<open>0o\<close> and \<open>0b\<close> introduce an unsigned integer in base
  16, 8 and 2; otherwise a signed decimal literal or \<open>Infinity\<close>; anything else is NaN.
\<close>

definition radixOf :: "string \<Rightarrow> nat option" where
  "radixOf t =
     (if take 2 t = ''0x'' \<or> take 2 t = ''0X'' then Some 16
      else if take 2 t = ''0o'' \<or> take 2 t = ''0O'' then Some 8
      else if take 2 t = ''0b'' \<or> take 2 t = ''0B'' then Some 2
      else None)"

definition exponentPart :: "string \<Rightarrow> bool" where
  "exponentPart r =
     (case r of [] \<Rightarrow> True
      | c # r1 \<Rightarrow> (c = CHR ''e'' \<or> c = CHR ''E'')
                 \<and> (let (neg, r2) = takeSign r1 in 0 < length r2 \<and> list_all isDigit r2))"

definition isDecimalLiteral :: "string \<Rightarrow> bool" where
  "isDecimalLiteral t =
     (let (neg, u) = takeSign t
      in if u = ''Infinity'' then True
         else
           let ip = takeWhile isDigit u;
               r1 = dropWhile isDigit u;
               (fp, r2) = (case r1 of [] \<Rightarrow> ([], r1)
                  | c # r \<Rightarrow> if c = CHR ''.''
                             then (takeWhile isDigit r, dropWhile isDigit r)
                             else ([], r1))
           in 0 < length ip + length fp \<and> exponentPart r2)"

definition jsNumber :: "string \<Rightarrow> jsnum" where
  "jsNumber s =
     (let t = trim s
      in if t = [] then Fin 0
         else case radixOf t of
                Some b \<Rightarrow>
                  (let ds = drop 2 t
                   in if 0 < length ds \<and> list_all (\<lambda>c. isHexDigit c \<and> hexVal c < b) ds
                      then Fin (real (foldl (\<lambda>acc c. b * acc + hexVal c) 0 ds))
                      else NaN)
              | None \<Rightarrow> if isDecimalLiteral t then parseFloat t else NaN)"

text \<open>
  The value stored for the header at position \<open>index\<close> of a row: \<open>undefined\<close> when the
  row has no such cell, the number when the trimmed cell is not empty and reads as a
  number, the trimmed cell otherwise.
\<close>

definition importCell :: "string list \<Rightarrow> nat \<Rightarrow> jsvalue" where
  "importCell row index =
     (if index < length row then
        (let val = trim (row ! index)
         in if \<not> isNaN (jsNumber val) \<and> val \<noteq> [] then Num (jsNumber val) else Str val)
      else Undefined)"

definition importRecord :: "string list \<Rightarrow> string \<Rightarrow> (string \<times> jsvalue) list" where
  "importRecord headers line =
     (let row = splitOn CHR '','' line
      in foldl (\<lambda>obj (h, index). setProp h (importCell row index) obj) []
           (zip headers [0..<length headers]))"

text \<open>
  The records of a document: the first line gives the headers, every later line that
  is not blank gives a record; lines are cut at line feeds and cells at commas.
\<close>

definition parseCSV :: "string \<Rightarrow> (string \<times> jsvalue) list list" where
  "parseCSV content =
     (let lines = splitOn newline content;
          headers = map trim (splitOn CHR '','' (hd lines))
      in map (importRecord headers) (filter (\<lambda>l. trim l \<noteq> []) (tl lines)))"

text \<open>
  \<open>a === b\<close> between a value read from a document and an attribute: an array is never
  identical to another value, NaN is not equal to itself.
\<close>

fun strictEquals :: "jsvalue \<Rightarrow> jsvalue \<Rightarrow> bool" where
  "strictEquals Undefined Undefined = True"
| "strictEquals (Str a) (Str b) = (a = b)"
| "strictEquals (Num a) (Num b) = (\<not> isNaN a \<and> a = b)"
| "strictEquals _ _ = False"

text \<open>\<open>{...properties, ...match}\<close>: the keys of \<open>match\<close> are written over the attributes.\<close>

definition mergeProps :: "(string \<times> jsvalue) list \<Rightarrow> (string \<times> jsvalue) list \<Rightarrow> (string \<times> jsvalue) list" where
  "mergeProps props m = foldl (\<lambda>p (k, v). setProp k v p) props m"

text \<open>
  \<open>updateCollection\<close>: every feature takes the attributes of the first record whose
  geocode is its own.
\<close>

definition updateCollection :: "(string \<times> jsvalue) list list \<Rightarrow> feature list \<Rightarrow> feature list" where
  "updateCollection dataToImport features =
     map (\<lambda>feature.
            case find (\<lambda>d. strictEquals (getProp d ''geocode'')
                                         (getProp (f_properties feature) ''geocode''))
                      dataToImport of
              Some m \<Rightarrow> feature\<lparr>f_properties := mergeProps (f_properties feature) m\<rparr>
            | None \<Rightarrow> feature)
         features"

text \<open>Export, then import of the exported text into the same collection.\<close>

definition exportImport :: "feature list \<Rightarrow> feature list" where
  "exportImport features = updateCollection (parseCSV (convertToCSV features)) features"

subsection \<open>The districts collection\<close>

text \<open>A ring of points as a coordinates array, each point \<open>[lng, lat]\<close>.\<close>

definition ringValue :: "point list \<Rightarrow> jsvalue" where
  "ringValue ring = Arr (map (\<lambda>p. Arr [Num (fst p), Num (snd p)]) ring)"

definition multiPolygon :: "point list list \<Rightarrow> geometry" where
  "multiPolygon rings =
     \<lparr> g_type = ''MultiPolygon'', g_coordinates = Arr (map (\<lambda>r. Arr [ringValue r]) rings) \<rparr>"

text \<open>\<open>districtsData.features\<close> with all the attributes.\<close>

definition districtFeatures :: "feature list" where
  "districtFeatures =
     [\<lparr> f_id = ''dist-rural'',
        f_properties =
          [(''id'', Str ''dist-rural''), (''geocode'', Str ''KAD01''),
           (''name'', Str ''Bengaluru Rural''), (''type'', Str ''District''),
           (''description'', Str ''District surrounding Bengaluru Urban.''),
           (''population'', Num (Fin 990923)), (''literacyRate'', Num (Fin 77.93)),
           (''areaSqKm'', Num (Fin 2298)), (''nearestCity'', Str ''Bengaluru City''),
           (''distanceToCityKm'', Num (Fin 0)),
           (''nearestAirport'', Str ''Kempegowda Int. (KIA)''),
           (''distanceToAirportKm'', Num (Fin 0)), (''sexRatio'', Num (Fin 946)),
           (''numTaluks'', Num (Fin 4)),
           (''economicFocus'', Str ''Agriculture, Textiles, Industrial Parks'')],
        f_geometry = multiPolygon [COORDS_DODDABALLAPUR, COORDS_DEVANAHALLI,
                                   COORDS_NELAMANGALA, COORDS_HOSKOTE] \<rparr>,
      \<lparr> f_id = ''dist-urban'',
        f_properties =
          [(''id'', Str ''dist-urban''), (''geocode'', Str ''KAD02''),
           (''name'', Str ''Bengaluru Urban''), (''type'', Str ''District''),
           (''description'', Str ''The capital district of Karnataka.''),
           (''population'', Num (Fin 9621551)), (''literacyRate'', Num (Fin 87.67)),
           (''areaSqKm'', Num (Fin 2196)), (''nearestCity'', Str ''Bengaluru City''),
           (''distanceToCityKm'', Num (Fin 0)),
           (''nearestAirport'', Str ''Kempegowda Int. (KIA)''),
           (''distanceToAirportKm'', Num (Fin 15)), (''sexRatio'', Num (Fin 916)),
           (''numTaluks'', Num (Fin 5)),
           (''economicFocus'', Str ''IT/BT, Services, Manufacturing, Aerospace'')],
        f_geometry = multiPolygon [COORDS_BLR_NORTH, COORDS_BLR_EAST,
                                   COORDS_BLR_SOUTH, COORDS_ANEKAL] \<rparr>]"

definition ruralDistrict :: feature where
  "ruralDistrict = districtFeatures ! 0"

definition urbanDistrict :: feature where
  "urbanDistrict = districtFeatures ! 1"

text \<open>
  The text of the exported districts collection: the header line, and the cells of
  each district's line in front of its geometry cell.
\<close>

definition headerLine :: string where
  "headerLine = ''id,geocode,name,type,description,population,literacyRate,areaSqK''
      @ ''m,nearestCity,distanceToCityKm,nearestAirport,distanceToAirportK''
      @ ''m,sexRatio,numTaluks,economicFocus,geometry''"

definition ruralCells :: string where
  "ruralCells = ''dist-rural,KAD01,Bengaluru Rural,District,District surrounding B''
      @ ''engaluru Urban.,990923,77.93,2298,Bengaluru City,0,Kempegowda In''
      @ ''t. (KIA),0,946,4,'' @ [dquote] @ ''Agriculture, Textiles, Industrial Parks'' @ [dquote]
      @ '',''"

definition urbanCells :: string where
  "urbanCells = ''dist-urban,KAD02,Bengaluru Urban,District,The capital district o''
      @ ''f Karnataka.,9621551,87.67,2196,Bengaluru City,0,Kempegowda Int.''
      @ '' (KIA),15,916,5,'' @ [dquote] @ ''IT/BT, Services, Manufacturing, Aerospace'' @ [dquote]
      @ '',''"

section \<open>Properties of the normalisation of an element\<close>















section \<open>Properties of the query and its retries\<close>

subsection \<open>One attempt of \<open>executeOverpassQuery\<close>\<close>

lemma exec_request_state:
  "emit (Request q a) (st\<lparr>nreq := nreq st + 1\<rparr>) = st\<lparr>nreq := nreq st + 1, events := events st @ [Request q a]\<rparr>"
  by (simp add: emit_def)

lemma exec_gateway_retry:
  assumes "answersStatus (ep (nreq st) q) s" "s = 504 \<or> s = 502" "attempt \<le> 2"
  shows "executeOverpassQuery ep rnd q attempt st =
         executeOverpassQuery ep rnd q (attempt + 1)
           (emit (Sleep 2000) (emit (Request q attempt) (st\<lparr>nreq := nreq st + 1\<rparr>)))"
  using assms by (subst executeOverpassQuery.simps) (auto simp: response_ok_def Let_def answersStatus_def split: fetch_result.splits)


lemma exec_gateway_fail:
  assumes "answersStatus (ep (nreq st) q) s" "s = 504 \<or> s = 502" "attempt > 2"
  shows "executeOverpassQuery ep rnd q attempt st =
         (Inl (mkError (''OSM_ERROR_'' @ digitsOf s)), emit (Request q attempt) (st\<lparr>nreq := nreq st + 1\<rparr>))"
  using assms by (subst executeOverpassQuery.simps) (auto simp: response_ok_def Let_def catchClause_def mkError_def answersStatus_def split: fetch_result.splits)

lemma exec_rate_retry:
  assumes "answersStatus (ep (nreq st) q) 429" "attempt \<le> 5"
  shows "executeOverpassQuery ep rnd q attempt st =
         executeOverpassQuery ep rnd q (attempt + 1)
           (emit (Sleep (3000 * 2 powi (int attempt - 1) + rnd (nrand st) * 1000))
              ((emit (Request q attempt) (st\<lparr>nreq := nreq st + 1\<rparr>))\<lparr>nrand := nrand st + 1\<rparr>))"
  using assms by (subst executeOverpassQuery.simps) (auto simp: response_ok_def Let_def emit_def answersStatus_def split: fetch_result.splits)

lemma exec_rate_fail:
  assumes "answersStatus (ep (nreq st) q) 429" "attempt > 5"
  shows "executeOverpassQuery ep rnd q attempt st =
         (Inl (mkError ''OSM_ERROR_429''), emit (Request q attempt) (st\<lparr>nreq := nreq st + 1\<rparr>))"
  using assms by (subst executeOverpassQuery.simps) (auto simp: response_ok_def Let_def catchClause_def mkError_def digitsOf.simps digitChar_def answersStatus_def split: fetch_result.splits)

lemma exec_ok:
  assumes "ep (nreq st) q = Response s (Inr els)" "response_ok s"
  shows "executeOverpassQuery ep rnd q attempt st =
         (Inr (map transformToGeoFeature (filter hasCoords els)), emit (Request q attempt) (st\<lparr>nreq := nreq st + 1\<rparr>))"
  using assms by (subst executeOverpassQuery.simps) (auto simp: Let_def)



subsection \<open>Every query ends after six requests at most\<close>

lemma callDepths_append: "callDepths (xs @ ys) = callDepths xs @ callDepths ys"
  by (induction xs rule: callDepths.induct) auto

lemma exec_cases:
  "(\<exists>r. executeOverpassQuery ep rnd q a st = (r, emit (Request q a) (st\<lparr>nreq := nreq st + 1\<rparr>))) \<or>
   (a \<le> 5 \<and> (\<exists>st'. executeOverpassQuery ep rnd q a st = executeOverpassQuery ep rnd q (a + 1) st'
        \<and> nreq st' = nreq st + 1 \<and> callDepths (events st') = callDepths (events st)))"
proof -
  let ?st1 = "emit (Request q a) (st\<lparr>nreq := nreq st + 1\<rparr>)"
  have s1: "nreq ?st1 = nreq st + 1" "callDepths (events ?st1) = callDepths (events st)"
    by (simp_all add: emit_def callDepths_append)
  have s2: "nreq (emit (Sleep d) (?st1\<lparr>nrand := k\<rparr>)) = nreq st + 1"
     "callDepths (events (emit (Sleep d) (?st1\<lparr>nrand := k\<rparr>))) = callDepths (events st)" for d k
    by (simp_all add: emit_def callDepths_append)
  have s3: "nreq (emit (Sleep d) ?st1) = nreq st + 1"
     "callDepths (events (emit (Sleep d) ?st1)) = callDepths (events st)" for d
    by (simp_all add: emit_def callDepths_append)
  show ?thesis
    apply (subst (1 2) executeOverpassQuery.simps)
    apply (simp only: Let_def)
    apply (cases "ep (nreq st) q")
    subgoal for err
      using s1 by (auto simp: catchClause_def)
    subgoal for status body
      apply (cases body)
      using s1 s2 s3 by (auto simp: catchClause_def mkError_def)
    done
qed

lemma exec_nreq: "nreq (snd (executeOverpassQuery ep rnd q a st)) \<le> nreq st + Suc (6 - a)"
proof (induction "6 - a" arbitrary: a st)
  case 0
  then have "\<not> a \<le> 5" by simp
  then show ?case using exec_cases [of ep rnd q a st] by (auto simp: emit_def)
next
  case (Suc n)
  from exec_cases [of ep rnd q a st] show ?case
  proof
    assume "\<exists>r. executeOverpassQuery ep rnd q a st = (r, emit (Request q a) (st\<lparr>nreq := nreq st + 1\<rparr>))"
    then show ?thesis using Suc.hyps(2) by (auto simp: emit_def)
  next
    assume "a \<le> 5 \<and> (\<exists>st'. executeOverpassQuery ep rnd q a st = executeOverpassQuery ep rnd q (a + 1) st'
        \<and> nreq st' = nreq st + 1 \<and> callDepths (events st') = callDepths (events st))"
    then obtain st' where a: "a \<le> 5" and e: "executeOverpassQuery ep rnd q a st = executeOverpassQuery ep rnd q (a + 1) st'"
       and n: "nreq st' = nreq st + 1" by blast
    have "n = 6 - (a + 1)" using Suc.hyps(2) by simp
    from Suc.hyps(1) [OF this, of st'] have "nreq (snd (executeOverpassQuery ep rnd q (a + 1) st')) \<le> nreq st' + Suc (6 - (a + 1))" .
    then show ?thesis using e n a by simp
  qed
qed

lemma exec_callDepths: "callDepths (events (snd (executeOverpassQuery ep rnd q a st))) = callDepths (events st)"
proof (induction "6 - a" arbitrary: a st)
  case 0
  then have "\<not> a \<le> 5" by simp
  then show ?case using exec_cases [of ep rnd q a st] by (auto simp: emit_def callDepths_append)
next
  case (Suc n)
  from exec_cases [of ep rnd q a st] show ?case
  proof
    assume "\<exists>r. executeOverpassQuery ep rnd q a st = (r, emit (Request q a) (st\<lparr>nreq := nreq st + 1\<rparr>))"
    then show ?thesis by (auto simp: emit_def callDepths_append)
  next
    assume "a \<le> 5 \<and> (\<exists>st'. executeOverpassQuery ep rnd q a st = executeOverpassQuery ep rnd q (a + 1) st'
        \<and> nreq st' = nreq st + 1 \<and> callDepths (events st') = callDepths (events st))"
    then obtain st' where a: "a \<le> 5" and e: "executeOverpassQuery ep rnd q a st = executeOverpassQuery ep rnd q (a + 1) st'"
       and n: "callDepths (events st') = callDepths (events st)" by blast
    have "n = 6 - (a + 1)" using Suc.hyps(2) by simp
    from Suc.hyps(1) [OF this, of st'] show ?thesis using e n by simp
  qed
qed

subsection \<open>Errors that persist through the retries\<close>

lemma exec_429_chain:
  assumes a: "\<forall>k<6. answersStatus (ep (nreq st + k) q) 429"
  shows "executeOverpassQuery ep rnd q 1 st =
     (Inl (mkError ''OSM_ERROR_429''),
      st\<lparr> nreq := nreq st + 6, nrand := nrand st + 5,
          events := events st @
            [Request q 1, Sleep (3000 + rnd (nrand st) * 1000),
             Request q 2, Sleep (6000 + rnd (nrand st + 1) * 1000),
             Request q 3, Sleep (12000 + rnd (nrand st + 2) * 1000),
             Request q 4, Sleep (24000 + rnd (nrand st + 3) * 1000),
             Request q 5, Sleep (48000 + rnd (nrand st + 4) * 1000),
             Request q 6] \<rparr>)"
proof -
  have a0: "answersStatus (ep (nreq st) q) 429" using a by force
  have a1: "answersStatus (ep (Suc (nreq st)) q) 429" using a [rule_format, of 1] by (simp add: eval_nat_numeral)
  have a2: "answersStatus (ep (Suc (Suc (nreq st))) q) 429" using a [rule_format, of 2] by (simp add: eval_nat_numeral)
  have a3: "answersStatus (ep (Suc (Suc (Suc (nreq st)))) q) 429" using a [rule_format, of 3] by (simp add: eval_nat_numeral)
  have a4: "answersStatus (ep (Suc (Suc (Suc (Suc (nreq st))))) q) 429" using a [rule_format, of 4] by (simp add: eval_nat_numeral)
  have a5: "answersStatus (ep (Suc (Suc (Suc (Suc (Suc (nreq st)))))) q) 429" using a [rule_format, of 5] by (simp add: eval_nat_numeral)
  define s1 where "s1 = emit (Sleep (3000 * 2 powi (int 1 - 1) + rnd (nrand st) * 1000))
              ((emit (Request q 1) (st\<lparr>nreq := nreq st + 1\<rparr>))\<lparr>nrand := nrand st + 1\<rparr>)"
  have e1: "executeOverpassQuery ep rnd q 1 st = executeOverpassQuery ep rnd q 2 s1"
    unfolding s1_def using exec_rate_retry [of ep st q 1 rnd] a0 by (simp del: One_nat_def)
  have n1: "nreq s1 = Suc (nreq st)" "nrand s1 = nrand st + 1" by (simp_all add: s1_def emit_def)
  define s2 where "s2 = emit (Sleep (3000 * 2 powi (int 2 - 1) + rnd (nrand s1) * 1000))
              ((emit (Request q 2) (s1\<lparr>nreq := nreq s1 + 1\<rparr>))\<lparr>nrand := nrand s1 + 1\<rparr>)"
  have e2: "executeOverpassQuery ep rnd q 2 s1 = executeOverpassQuery ep rnd q 3 s2"
    unfolding s2_def using exec_rate_retry [of ep s1 q 2 rnd] a1 n1 by (simp del: One_nat_def)
  have n2: "nreq s2 = Suc (Suc (nreq st))" "nrand s2 = nrand st + 2" by (simp_all add: s2_def emit_def n1)
  define s3 where "s3 = emit (Sleep (3000 * 2 powi (int 3 - 1) + rnd (nrand s2) * 1000))
              ((emit (Request q 3) (s2\<lparr>nreq := nreq s2 + 1\<rparr>))\<lparr>nrand := nrand s2 + 1\<rparr>)"
  have e3: "executeOverpassQuery ep rnd q 3 s2 = executeOverpassQuery ep rnd q 4 s3"
    unfolding s3_def using exec_rate_retry [of ep s2 q 3 rnd] a2 n2 by (simp del: One_nat_def)
  have n3: "nreq s3 = Suc (Suc (Suc (nreq st)))" "nrand s3 = nrand st + 3" by (simp_all add: s3_def emit_def n2)
  define s4 where "s4 = emit (Sleep (3000 * 2 powi (int 4 - 1) + rnd (nrand s3) * 1000))
              ((emit (Request q 4) (s3\<lparr>nreq := nreq s3 + 1\<rparr>))\<lparr>nrand := nrand s3 + 1\<rparr>)"
  have e4: "executeOverpassQuery ep rnd q 4 s3 = executeOverpassQuery ep rnd q 5 s4"
    unfolding s4_def using exec_rate_retry [of ep s3 q 4 rnd] a3 n3 by (simp del: One_nat_def)
  have n4: "nreq s4 = Suc (Suc (Suc (Suc (nreq st))))" "nrand s4 = nrand st + 4" by (simp_all add: s4_def emit_def n3)
  define s5 where "s5 = emit (Sleep (3000 * 2 powi (int 5 - 1) + rnd (nrand s4) * 1000))
              ((emit (Request q 5) (s4\<lparr>nreq := nreq s4 + 1\<rparr>))\<lparr>nrand := nrand s4 + 1\<rparr>)"
  have e5: "executeOverpassQuery ep rnd q 5 s4 = executeOverpassQuery ep rnd q 6 s5"
    unfolding s5_def using exec_rate_retry [of ep s4 q 5 rnd] a4 n4 by (simp del: One_nat_def)
  have n5: "nreq s5 = Suc (Suc (Suc (Suc (Suc (nreq st)))))" "nrand s5 = nrand st + 5" by (simp_all add: s5_def emit_def n4)
  have e6: "executeOverpassQuery ep rnd q 6 s5 =
      (Inl (mkError ''OSM_ERROR_429''), emit (Request q 6) (s5\<lparr>nreq := nreq s5 + 1\<rparr>))"
    using exec_rate_fail [of ep s5 q 6 rnd] a5 n5 by (simp del: One_nat_def)
  have fin: "emit (Request q 6) (s5\<lparr>nreq := nreq s5 + 1\<rparr>) =
      st\<lparr> nreq := nreq st + 6, nrand := nrand st + 5,
          events := events st @
            [Request q 1, Sleep (3000 + rnd (nrand st) * 1000),
             Request q 2, Sleep (6000 + rnd (nrand st + 1) * 1000),
             Request q 3, Sleep (12000 + rnd (nrand st + 2) * 1000),
             Request q 4, Sleep (24000 + rnd (nrand st + 3) * 1000),
             Request q 5, Sleep (48000 + rnd (nrand st + 4) * 1000),
             Request q 6] \<rparr>"
    by (simp add: s5_def s4_def s3_def s2_def s1_def emit_def eval_nat_numeral)
  show ?thesis using e1 e2 e3 e4 e5 e6 fin by (simp del: One_nat_def)
qed


lemma exec_gateway_chain:
  assumes a0: "answersStatus (ep (nreq st) q) s1" "s1 = 504 \<or> s1 = 502"
      and a1: "answersStatus (ep (nreq st + 1) q) s2" "s2 = 504 \<or> s2 = 502"
      and a2: "answersStatus (ep (nreq st + 2) q) s3" "s3 = 504 \<or> s3 = 502"
  shows "executeOverpassQuery ep rnd q 1 st =
     (Inl (mkError (''OSM_ERROR_'' @ digitsOf s3)),
      st\<lparr> nreq := nreq st + 3,
          events := events st @ [Request q 1, Sleep 2000, Request q 2, Sleep 2000, Request q 3] \<rparr>)"
proof -
  define t1 where "t1 = emit (Sleep 2000) (emit (Request q 1) (st\<lparr>nreq := nreq st + 1\<rparr>))"
  have e1: "executeOverpassQuery ep rnd q 1 st = executeOverpassQuery ep rnd q 2 t1"
    unfolding t1_def using exec_gateway_retry [of ep st q s1 1 rnd] a0 by (simp del: One_nat_def)
  have n1: "nreq t1 = nreq st + 1" by (simp add: t1_def emit_def)
  define t2 where "t2 = emit (Sleep 2000) (emit (Request q 2) (t1\<lparr>nreq := nreq t1 + 1\<rparr>))"
  have e2: "executeOverpassQuery ep rnd q 2 t1 = executeOverpassQuery ep rnd q 3 t2"
    unfolding t2_def using exec_gateway_retry [of ep t1 q s2 2 rnd] a1 n1 by (simp del: One_nat_def)
  have n2: "nreq t2 = nreq st + 2" by (simp add: t2_def emit_def n1)
  have e3: "executeOverpassQuery ep rnd q 3 t2 =
      (Inl (mkError (''OSM_ERROR_'' @ digitsOf s3)), emit (Request q 3) (t2\<lparr>nreq := nreq t2 + 1\<rparr>))"
    using exec_gateway_fail [of ep t2 q s3 3 rnd] a2 n2 by (simp del: One_nat_def)
  have fin: "emit (Request q 3) (t2\<lparr>nreq := nreq t2 + 1\<rparr>) =
      st\<lparr> nreq := nreq st + 3,
          events := events st @ [Request q 1, Sleep 2000, Request q 2, Sleep 2000, Request q 3] \<rparr>"
    by (simp add: t2_def t1_def emit_def eval_nat_numeral)
  show ?thesis using e1 e2 e3 fin by (simp del: One_nat_def)
qed


lemma includes_429: "includes_str (errorMsgOf (mkError ''OSM_ERROR_429'')) ''OSM_ERROR_429''"
  by (simp add: errorMsgOf_def mkError_def)

section \<open>Properties of the bounding-box scan\<close>

subsection \<open>The outcomes of one call\<close>

lemma quadrantStep_eq: "quadrantStep r results = (results @ okResults r, paced r)"
  by (cases r; cases "fst r") (auto simp: quadrantStep_def okResults_def paced_def)

lemma quadrants_four:
  "quadrants b = [quadrants b ! 0, quadrants b ! 1, quadrants b ! 2, quadrants b ! 3]"
  by (cases b) (simp add: quadrants_def Let_def)

lemma fetch_success:
  assumes "executeOverpassQuery ep rnd (queryOf b) 1 (emit (Call depth (queryOf b)) st) = (Inr fs, st1)"
  shows "fetchRetailStoresBounded ep rnd b depth st = (Inr fs, st1)"
  using assms by (subst fetchRetailStoresBounded.simps) simp

lemma fetch_rate_limited:
  assumes "executeOverpassQuery ep rnd (queryOf b) 1 (emit (Call depth (queryOf b)) st) = (Inl err, st1)"
      and "includes_str (errorMsgOf err) ''OSM_ERROR_429''"
  shows "fetchRetailStoresBounded ep rnd b depth st = (Inl rateLimitError, st1)"
  using assms by (subst fetchRetailStoresBounded.simps) (simp add: Let_def)

lemma fetch_unrecoverable:
  assumes "executeOverpassQuery ep rnd (queryOf b) 1 (emit (Call depth (queryOf b)) st) = (Inl err, st1)"
      and "\<not> includes_str (errorMsgOf err) ''OSM_ERROR_429''"
      and "\<not> (depth < 2 \<and> splittable (errorMsgOf err))"
  shows "fetchRetailStoresBounded ep rnd b depth st = (if depth > 0 then (Inr [], st1) else (Inl err, st1))"
  using assms by (subst fetchRetailStoresBounded.simps) (auto simp add: Let_def)

lemma fetch_split:
  assumes "executeOverpassQuery ep rnd (queryOf b) 1 (emit (Call depth (queryOf b)) st) = (Inl err, st1)"
      and "\<not> includes_str (errorMsgOf err) ''OSM_ERROR_429''"
      and "depth < 2" "splittable (errorMsgOf err)"
  shows "fetchRetailStoresBounded ep rnd b depth st =
     (let r1 = fetchRetailStoresBounded ep rnd (quadrants b ! 0) (depth + 1) st1;
          r2 = fetchRetailStoresBounded ep rnd (quadrants b ! 1) (depth + 1) (paced r1);
          r3 = fetchRetailStoresBounded ep rnd (quadrants b ! 2) (depth + 1) (paced r2);
          r4 = fetchRetailStoresBounded ep rnd (quadrants b ! 3) (depth + 1) (paced r3)
      in (Inr (okResults r1 @ okResults r2 @ okResults r3 @ okResults r4), paced r4))"
  using assms
  apply (subst fetchRetailStoresBounded.simps)
  apply (subst quadrants_four)
  apply (simp add: Let_def quadrantStep_eq del: One_nat_def)
  done

lemma fetch_ok:
  assumes "ep (nreq st) (queryOf b) = Response s (Inr els)" "response_ok s"
  shows "fetchRetailStoresBounded ep rnd b depth st =
     (Inr (map transformToGeoFeature (filter hasCoords els)),
      st\<lparr> nreq := nreq st + 1, events := events st @ [Call depth (queryOf b), Request (queryOf b) 1] \<rparr>)"
proof -
  let ?st0 = "emit (Call depth (queryOf b)) st"
  have "ep (nreq ?st0) (queryOf b) = Response s (Inr els)" using assms(1) by (simp add: emit_def)
  from exec_ok [where ep = ep and st = "?st0" and q = "queryOf b" and rnd = rnd and attempt = 1, OF this assms(2)]
  have "fetchRetailStoresBounded ep rnd b depth st =
     (Inr (map transformToGeoFeature (filter hasCoords els)), emit (Request (queryOf b) 1) (?st0\<lparr>nreq := nreq ?st0 + 1\<rparr>))"
    by (rule fetch_success)
  then show ?thesis by (simp add: emit_def)
qed

lemma fetch_429:
  assumes "\<forall>k<6. answersStatus (ep (nreq st + k) (queryOf b)) 429"
  shows "fetchRetailStoresBounded ep rnd b depth st =
     (Inl rateLimitError,
      st\<lparr> nreq := nreq st + 6, nrand := nrand st + 5,
          events := events st @
            [Call depth (queryOf b),
             Request (queryOf b) 1, Sleep (3000 + rnd (nrand st) * 1000),
             Request (queryOf b) 2, Sleep (6000 + rnd (nrand st + 1) * 1000),
             Request (queryOf b) 3, Sleep (12000 + rnd (nrand st + 2) * 1000),
             Request (queryOf b) 4, Sleep (24000 + rnd (nrand st + 3) * 1000),
             Request (queryOf b) 5, Sleep (48000 + rnd (nrand st + 4) * 1000),
             Request (queryOf b) 6] \<rparr>)"
proof -
  let ?st0 = "emit (Call depth (queryOf b)) st"
  have h: "\<forall>k<6. answersStatus (ep (nreq ?st0 + k) (queryOf b)) 429"
    using assms(1) by (simp add: emit_def)
  from exec_429_chain [where ep = ep and st = "?st0" and q = "queryOf b" and rnd = rnd, OF h]
  have "fetchRetailStoresBounded ep rnd b depth st = (Inl rateLimitError,
      ?st0\<lparr> nreq := nreq ?st0 + 6, nrand := nrand ?st0 + 5,
          events := events ?st0 @
            [Request (queryOf b) 1, Sleep (3000 + rnd (nrand ?st0) * 1000),
             Request (queryOf b) 2, Sleep (6000 + rnd (nrand ?st0 + 1) * 1000),
             Request (queryOf b) 3, Sleep (12000 + rnd (nrand ?st0 + 2) * 1000),
             Request (queryOf b) 4, Sleep (24000 + rnd (nrand ?st0 + 3) * 1000),
             Request (queryOf b) 5, Sleep (48000 + rnd (nrand ?st0 + 4) * 1000),
             Request (queryOf b) 6] \<rparr>)"
    by (rule fetch_rate_limited [OF _ includes_429])
  then show ?thesis by (simp add: emit_def)
qed


lemma gateway_msg:
  assumes "s = 504 \<or> s = 502"
  shows "\<not> includes_str (errorMsgOf (mkError (''OSM_ERROR_'' @ digitsOf s))) ''OSM_ERROR_429''"
    and "splittable (errorMsgOf (mkError (''OSM_ERROR_'' @ digitsOf s)))"
proof -
  have d: "digitsOf 504 = ''504''" "digitsOf 502 = ''502''"
    by (simp_all add: digitsOf.simps digitChar_def)
  show "\<not> includes_str (errorMsgOf (mkError (''OSM_ERROR_'' @ digitsOf s))) ''OSM_ERROR_429''"
    using assms by (elim disjE) (simp_all add: errorMsgOf_def mkError_def d)
  show "splittable (errorMsgOf (mkError (''OSM_ERROR_'' @ digitsOf s)))"
    using assms by (elim disjE) (simp_all add: errorMsgOf_def mkError_def splittable_def d)
qed

text \<open>Persisting gateway errors where the depth allows no split.\<close>
lemma fetch_gateway_leaf:
  assumes "\<forall>k<3. answersStatus (ep (nreq st + k) (queryOf b)) 504" "\<not> depth < 2"
  shows "fetchRetailStoresBounded ep rnd b depth st =
     (Inr [], st\<lparr> nreq := nreq st + 3,
          events := events st @ [Call depth (queryOf b), Request (queryOf b) 1, Sleep 2000,
             Request (queryOf b) 2, Sleep 2000, Request (queryOf b) 3] \<rparr>)"
proof -
  let ?st0 = "emit (Call depth (queryOf b)) st"
  have a: "answersStatus (ep (nreq ?st0) (queryOf b)) 504" "answersStatus (ep (nreq ?st0 + 1) (queryOf b)) 504"
     "answersStatus (ep (nreq ?st0 + 2) (queryOf b)) 504"
    using assms(1) [rule_format, of 0] assms(1) [rule_format, of 1] assms(1) [rule_format, of 2]
    by (simp_all add: emit_def)
  have e: "executeOverpassQuery ep rnd (queryOf b) 1 ?st0 =
     (Inl (mkError (''OSM_ERROR_'' @ digitsOf 504)),
      ?st0\<lparr> nreq := nreq ?st0 + 3,
          events := events ?st0 @ [Request (queryOf b) 1, Sleep 2000, Request (queryOf b) 2, Sleep 2000, Request (queryOf b) 3] \<rparr>)"
    by (rule exec_gateway_chain [where ep = ep and st = "?st0" and q = "queryOf b" and rnd = rnd
          and ?s1.0 = 504 and ?s2.0 = 504 and ?s3.0 = 504, OF a(1) _ a(2) _ a(3)]) simp_all
  have g: "\<not> includes_str (errorMsgOf (mkError (''OSM_ERROR_'' @ digitsOf 504))) ''OSM_ERROR_429''"
    by (rule gateway_msg(1)) simp
  from fetch_unrecoverable [OF e g] assms(2) show ?thesis by (simp add: emit_def)
qed

text \<open>Persisting gateway errors where the depth allows a split.\<close>
lemma fetch_gateway_split:
  assumes "\<forall>k<3. answersStatus (ep (nreq st + k) (queryOf b)) 504" "depth < 2"
  defines "st1 \<equiv> st\<lparr> nreq := nreq st + 3,
          events := events st @ [Call depth (queryOf b), Request (queryOf b) 1, Sleep 2000,
             Request (queryOf b) 2, Sleep 2000, Request (queryOf b) 3] \<rparr>"
  shows "fetchRetailStoresBounded ep rnd b depth st =
     (let r1 = fetchRetailStoresBounded ep rnd (quadrants b ! 0) (depth + 1) st1;
          r2 = fetchRetailStoresBounded ep rnd (quadrants b ! 1) (depth + 1) (paced r1);
          r3 = fetchRetailStoresBounded ep rnd (quadrants b ! 2) (depth + 1) (paced r2);
          r4 = fetchRetailStoresBounded ep rnd (quadrants b ! 3) (depth + 1) (paced r3)
      in (Inr (okResults r1 @ okResults r2 @ okResults r3 @ okResults r4), paced r4))"
proof -
  let ?st0 = "emit (Call depth (queryOf b)) st"
  have a: "answersStatus (ep (nreq ?st0) (queryOf b)) 504" "answersStatus (ep (nreq ?st0 + 1) (queryOf b)) 504"
     "answersStatus (ep (nreq ?st0 + 2) (queryOf b)) 504"
    using assms(1) [rule_format, of 0] assms(1) [rule_format, of 1] assms(1) [rule_format, of 2]
    by (simp_all add: emit_def)
  have "executeOverpassQuery ep rnd (queryOf b) 1 ?st0 =
     (Inl (mkError (''OSM_ERROR_'' @ digitsOf 504)),
      ?st0\<lparr> nreq := nreq ?st0 + 3,
          events := events ?st0 @ [Request (queryOf b) 1, Sleep 2000, Request (queryOf b) 2, Sleep 2000, Request (queryOf b) 3] \<rparr>)"
    by (rule exec_gateway_chain [where ep = ep and st = "?st0" and q = "queryOf b" and rnd = rnd
          and ?s1.0 = 504 and ?s2.0 = 504 and ?s3.0 = 504, OF a(1) _ a(2) _ a(3)]) simp_all
  then have e: "executeOverpassQuery ep rnd (queryOf b) 1 ?st0 =
     (Inl (mkError (''OSM_ERROR_'' @ digitsOf 504)), st1)"
    by (simp add: st1_def emit_def)
  have g1: "\<not> includes_str (errorMsgOf (mkError (''OSM_ERROR_'' @ digitsOf 504))) ''OSM_ERROR_429''"
    by (rule gateway_msg(1)) simp
  have g2: "splittable (errorMsgOf (mkError (''OSM_ERROR_'' @ digitsOf 504)))"
    by (rule gateway_msg(2)) simp
  show ?thesis
    by (rule fetch_split [OF e g1 assms(2) g2])
qed

subsection \<open>Bounds on every scan\<close>

lemma paced_Inr [simp]: "paced (Inr fs, s) = emit (Sleep 200) s"
  by (simp add: paced_def)
lemma paced_Inl [simp]: "paced (Inl e, s) = s"
  by (simp add: paced_def)
lemma okResults_Inr [simp]: "okResults (Inr fs, s) = fs"
  by (simp add: okResults_def)
lemma okResults_Inl [simp]: "okResults (Inl e, s) = []"
  by (simp add: okResults_def)

lemma fetch_step:
  "snd (fetchRetailStoresBounded ep rnd b depth st) =
     snd (executeOverpassQuery ep rnd (queryOf b) 1 (emit (Call depth (queryOf b)) st))
   \<or> (depth < 2 \<and> snd (fetchRetailStoresBounded ep rnd b depth st) =
        paced (fetchRetailStoresBounded ep rnd (quadrants b ! 3) (depth + 1)
          (paced (fetchRetailStoresBounded ep rnd (quadrants b ! 2) (depth + 1)
          (paced (fetchRetailStoresBounded ep rnd (quadrants b ! 1) (depth + 1)
          (paced (fetchRetailStoresBounded ep rnd (quadrants b ! 0) (depth + 1)
          (snd (executeOverpassQuery ep rnd (queryOf b) 1 (emit (Call depth (queryOf b)) st)))))))))))"
proof -
  obtain r st1 where e: "executeOverpassQuery ep rnd (queryOf b) 1 (emit (Call depth (queryOf b)) st) = (r, st1)"
    by (cases "executeOverpassQuery ep rnd (queryOf b) 1 (emit (Call depth (queryOf b)) st)")
  show ?thesis
  proof (cases r)
    case (Inr fs)
    with e fetch_success [of ep rnd b depth st fs st1] show ?thesis by simp
  next
    case (Inl err)
    note e' = e [unfolded Inl]
    show ?thesis
    proof (cases "includes_str (errorMsgOf err) ''OSM_ERROR_429''")
      case True
      from fetch_rate_limited [OF e' True] e' show ?thesis by simp
    next
      case n4: False
      show ?thesis
      proof (cases "depth < 2 \<and> splittable (errorMsgOf err)")
        case True
        then have d: "depth < 2" and sp: "splittable (errorMsgOf err)" by simp_all
        from fetch_split [OF e' n4 d sp] e' d show ?thesis by (simp add: Let_def)
      next
        case False
        from fetch_unrecoverable [OF e' n4 False] e' show ?thesis by simp
      qed
    qed
  qed
qed

lemma grows_trans: "grows a b n1 l1 \<Longrightarrow> grows b c n2 l2 \<Longrightarrow> grows a c (n1 + n2) (l1 + l2)"
  unfolding grows_def
  apply (elim conjE exE)
  subgoal for ds1 ds2
    apply (rule conjI, simp)
    apply (rule exI [of _ "ds1 @ ds2"])
    apply simp
    done
  done

lemma grows_mono: "grows a b n l \<Longrightarrow> n \<le> n' \<Longrightarrow> l \<le> l' \<Longrightarrow> grows a b n' l'"
  unfolding grows_def by (elim conjE exE) (rule conjI, simp, rule exI, auto)

lemma grows_exec: "grows st (snd (executeOverpassQuery ep rnd q 1 st)) 6 0"
  unfolding grows_def using exec_nreq [of ep rnd q 1 st] exec_callDepths [of ep rnd q 1 st]
  by simp

lemma grows_call: "d \<le> 2 \<Longrightarrow> grows st (emit (Call d q) st) 0 (if d = 2 then 1 else 0)"
  unfolding grows_def by (simp add: emit_def callDepths_append)

lemma grows_paced: "grows (snd r) (paced r) 0 0"
  unfolding grows_def by (cases r; cases "fst r") (auto simp: paced_def emit_def callDepths_append)

lemma grows_entry:
  "d \<le> 2 \<Longrightarrow> grows st (snd (executeOverpassQuery ep rnd q 1 (emit (Call d q) st))) 6 (if d = 2 then 1 else 0)"
  using grows_trans [OF grows_call [of d st q] grows_exec [of "emit (Call d q) st" ep rnd q]] by simp

lemma grows_level2: "grows st (snd (fetchRetailStoresBounded ep rnd b 2 st)) 6 1"
  using fetch_step [of ep rnd b 2 st] grows_entry [of 2 st ep rnd "queryOf b"] by simp

lemma grows_quadrant:
  assumes "\<And>b st. grows st (snd (fetchRetailStoresBounded ep rnd b d st)) n l"
  shows "grows st (paced (fetchRetailStoresBounded ep rnd b d st)) n l"
  using grows_trans [OF assms [of st b] grows_paced [of "fetchRetailStoresBounded ep rnd b d st"]] by simp

lemma grows_split:
  assumes lvl: "\<And>b st. grows st (snd (fetchRetailStoresBounded ep rnd b (depth + 1) st)) n l"
      and d: "depth < 2"
  shows "grows st (snd (fetchRetailStoresBounded ep rnd b depth st)) (6 + 4 * n) (4 * l)"
proof -
  let ?s0 = "snd (executeOverpassQuery ep rnd (queryOf b) 1 (emit (Call depth (queryOf b)) st))"
  let ?s1 = "paced (fetchRetailStoresBounded ep rnd (quadrants b ! 0) (depth + 1) ?s0)"
  let ?s2 = "paced (fetchRetailStoresBounded ep rnd (quadrants b ! 1) (depth + 1) ?s1)"
  let ?s3 = "paced (fetchRetailStoresBounded ep rnd (quadrants b ! 2) (depth + 1) ?s2)"
  let ?s4 = "paced (fetchRetailStoresBounded ep rnd (quadrants b ! 3) (depth + 1) ?s3)"
  have g0: "grows st ?s0 6 0" using grows_entry [of depth st ep rnd "queryOf b"] d by simp
  have g1: "grows ?s0 ?s1 n l" by (rule grows_quadrant [OF lvl])
  have g2: "grows ?s1 ?s2 n l" by (rule grows_quadrant [OF lvl])
  have g3: "grows ?s2 ?s3 n l" by (rule grows_quadrant [OF lvl])
  have g4: "grows ?s3 ?s4 n l" by (rule grows_quadrant [OF lvl])
  have "grows st ?s4 (6 + n + n + n + n) (0 + l + l + l + l)"
    by (rule grows_trans [OF grows_trans [OF grows_trans [OF grows_trans [OF g0 g1] g2] g3] g4])
  moreover have "6 + n + n + n + n = 6 + 4 * n" "0 + l + l + l + l = 4 * l" by simp_all
  ultimately have g: "grows st ?s4 (6 + 4 * n) (4 * l)" by metis
  from fetch_step [of ep rnd b depth st] show ?thesis
  proof
    assume "snd (fetchRetailStoresBounded ep rnd b depth st) = ?s0"
    then show ?thesis using grows_mono [OF g0, of "6 + 4 * n" "4 * l"] by simp
  next
    assume "depth < 2 \<and> snd (fetchRetailStoresBounded ep rnd b depth st) = ?s4"
    then show ?thesis using g by simp
  qed
qed

lemma grows_level1: "grows st (snd (fetchRetailStoresBounded ep rnd b 1 st)) 30 4"
  using grows_split [of ep rnd 1 6 1 st b] grows_level2 by (simp add: eval_nat_numeral)

lemma grows_level0: "grows st (snd (fetchRetailStoresBounded ep rnd b 0 st)) 126 16"
  using grows_split [of ep rnd 0 30 4 st b] grows_level1 by simp

lemma fold_max_le: "fold max ds (m::nat) \<le> k \<longleftrightarrow> m \<le> k \<and> list_all (\<lambda>x. x \<le> k) ds"
  by (induction ds arbitrary: m) auto

lemma scan_bounded:
  "maxDepth (events (snd (fetchRetailStoresBounded ep rnd b 0 initialScan))) \<le> 2
   \<and> callsAt 2 (events (snd (fetchRetailStoresBounded ep rnd b 0 initialScan))) \<le> 16
   \<and> nreq (snd (fetchRetailStoresBounded ep rnd b 0 initialScan)) \<le> 126"
  using grows_level0 [of initialScan ep rnd b]
  by (auto simp: grows_def initialScan_def maxDepth_def callsAt_def fold_max_le)

subsection \<open>The scan when every request is answered with HTTP 504\<close>


lemma hasCoords_point: "hasCoords (pointElement i)"
  by (simp add: hasCoords_def pointElement_def truthyNum_def)

lemma p504_answers: "\<forall>k<3. answersStatus (perpetual504 (n + k) q) 504"
  by (simp add: perpetual504_def answersStatus_def)

lemma p504_level2:
  "\<exists>s'. fetchRetailStoresBounded perpetual504 rnd b 2 st = (Inr [], s')
        \<and> nreq s' = nreq st + 3 \<and> callDepths (events s') = callDepths (events st) @ [2]"
  using fetch_gateway_leaf [where ep = perpetual504 and st = st and b = b and depth = 2 and rnd = rnd,
          OF p504_answers]
  by (simp add: callDepths_append)

lemma p504_split:
  assumes lvl: "\<And>b st. \<exists>s'. fetchRetailStoresBounded perpetual504 rnd b (depth + 1) st = (Inr [], s')
        \<and> nreq s' = nreq st + n \<and> callDepths (events s') = callDepths (events st) @ ds"
      and d: "depth < 2"
  shows "\<exists>s'. fetchRetailStoresBounded perpetual504 rnd b depth st = (Inr [], s')
        \<and> nreq s' = nreq st + (3 + 4 * n)
        \<and> callDepths (events s') = callDepths (events st) @ depth # ds @ ds @ ds @ ds"
proof -
  define st1 where "st1 = st\<lparr> nreq := nreq st + 3,
          events := events st @ [Call depth (queryOf b), Request (queryOf b) 1, Sleep 2000,
             Request (queryOf b) 2, Sleep 2000, Request (queryOf b) 3] \<rparr>"
  have i1: "nreq st1 = nreq st + 3" "callDepths (events st1) = callDepths (events st) @ [depth]"
    by (simp_all add: st1_def callDepths_append)
  obtain s1 where r1: "fetchRetailStoresBounded perpetual504 rnd (quadrants b ! 0) (depth + 1) st1 = (Inr [], s1)"
    and n1: "nreq s1 = nreq st1 + n" and c1: "callDepths (events s1) = callDepths (events st1) @ ds"
    using lvl [of "quadrants b ! 0" st1] by blast
  let ?p1 = "emit (Sleep 200) s1"
  obtain s2 where r2: "fetchRetailStoresBounded perpetual504 rnd (quadrants b ! 1) (depth + 1) ?p1 = (Inr [], s2)"
    and n2: "nreq s2 = nreq ?p1 + n" and c2: "callDepths (events s2) = callDepths (events ?p1) @ ds"
    using lvl [of "quadrants b ! 1" ?p1] by blast
  let ?p2 = "emit (Sleep 200) s2"
  obtain s3 where r3: "fetchRetailStoresBounded perpetual504 rnd (quadrants b ! 2) (depth + 1) ?p2 = (Inr [], s3)"
    and n3: "nreq s3 = nreq ?p2 + n" and c3: "callDepths (events s3) = callDepths (events ?p2) @ ds"
    using lvl [of "quadrants b ! 2" ?p2] by blast
  let ?p3 = "emit (Sleep 200) s3"
  obtain s4 where r4: "fetchRetailStoresBounded perpetual504 rnd (quadrants b ! 3) (depth + 1) ?p3 = (Inr [], s4)"
    and n4: "nreq s4 = nreq ?p3 + n" and c4: "callDepths (events s4) = callDepths (events ?p3) @ ds"
    using lvl [of "quadrants b ! 3" ?p3] by blast
  have "fetchRetailStoresBounded perpetual504 rnd b depth st = (Inr [], emit (Sleep 200) s4)"
    using fetch_gateway_split [where ep = perpetual504 and st = st and b = b and depth = depth and rnd = rnd,
          OF p504_answers d]
    by (simp only: Let_def st1_def [symmetric] r1 r2 r3 r4 paced_Inr okResults_Inr append_Nil)
  moreover have "nreq (emit (Sleep 200) s4) = nreq st + (3 + 4 * n)"
    using n1 n2 n3 n4 i1 by (simp add: emit_def)
  moreover have "callDepths (events (emit (Sleep 200) s4)) = callDepths (events st) @ depth # ds @ ds @ ds @ ds"
    using c1 c2 c3 c4 i1 by (simp add: emit_def callDepths_append)
  ultimately show ?thesis by blast
qed

lemma p504_level1:
  "\<exists>s'. fetchRetailStoresBounded perpetual504 rnd b 1 st = (Inr [], s')
        \<and> nreq s' = nreq st + 15 \<and> callDepths (events s') = callDepths (events st) @ [1, 2, 2, 2, 2]"
  using p504_split [where depth = 1 and n = 3 and ds = "[2]" and rnd = rnd and b = b and st = st]
        p504_level2 [of rnd]
  by (simp add: eval_nat_numeral)

lemma p504_level0:
  "\<exists>s'. fetchRetailStoresBounded perpetual504 rnd b 0 st = (Inr [], s')
        \<and> nreq s' = nreq st + 63
        \<and> callDepths (events s') = callDepths (events st) @
             [0, 1, 2, 2, 2, 2, 1, 2, 2, 2, 2, 1, 2, 2, 2, 2, 1, 2, 2, 2, 2]"
  using p504_split [where depth = 0 and n = 15 and ds = "[1, 2, 2, 2, 2]" and rnd = rnd and b = b and st = st]
        p504_level1 [of rnd]
  by simp

text \<open>
  Claim C5. A scan started at depth 0 returns, whatever the endpoint answers: the
  function is total, no call is made below depth 2, at most 16 calls are made at depth
  2, and at most 126 requests are sent (21 calls, each with at most 6 attempts). When
  every request is answered with HTTP 504 the scan returns the empty list after exactly
  16 calls at depth 2 and 63 requests.
\<close>

theorem scan_terminates_within_bounds:
  "maxDepth (events (snd (fetchRetailStoresBounded ep rnd b 0 initialScan))) \<le> 2
   \<and> callsAt 2 (events (snd (fetchRetailStoresBounded ep rnd b 0 initialScan))) \<le> 16
   \<and> nreq (snd (fetchRetailStoresBounded ep rnd b 0 initialScan)) \<le> 126
   \<and> fst (fetchRetailStoresBounded perpetual504 rnd b 0 initialScan) = Inr []
   \<and> callsAt 2 (events (snd (fetchRetailStoresBounded perpetual504 rnd b 0 initialScan))) = 16
   \<and> nreq (snd (fetchRetailStoresBounded perpetual504 rnd b 0 initialScan)) = 63"
proof -
  obtain s' where "fetchRetailStoresBounded perpetual504 rnd b 0 initialScan = (Inr [], s')"
     "nreq s' = nreq initialScan + 63"
     "callDepths (events s') = callDepths (events initialScan) @
             [0, 1, 2, 2, 2, 2, 1, 2, 2, 2, 2, 1, 2, 2, 2, 2, 1, 2, 2, 2, 2]"
    using p504_level0 [of rnd b initialScan] by blast
  then have "fst (fetchRetailStoresBounded perpetual504 rnd b 0 initialScan) = Inr []
   \<and> callsAt 2 (events (snd (fetchRetailStoresBounded perpetual504 rnd b 0 initialScan))) = 16
   \<and> nreq (snd (fetchRetailStoresBounded perpetual504 rnd b 0 initialScan)) = 63"
    by (simp add: callsAt_def initialScan_def)
  with scan_bounded [of ep rnd b] show ?thesis by simp
qed

subsection \<open>The scenario of the full box failing and its quadrants answering\<close>








subsection \<open>The split into quadrants\<close>










subsection \<open>Rate limiting\<close>

text \<open>
  Claim C4. When the endpoint answers the six requests of a query with HTTP 429, the
  query is retried five times, the wait before the retry that follows attempt \<open>k\<close>
  being 3000 ms \<times> 2^(k - 1) plus a jitter of \<open>Math.random() * 1000\<close>, which lies in
  [0, 1000) ms; then the call throws the rate-limit error, at every depth, without
  calling itself on any quadrant.
\<close>

theorem rate_limit_retried_then_fatal:
  assumes "\<forall>k<6. answersStatus (ep (nreq st + k) (queryOf b)) 429"
      and "\<forall>n. 0 \<le> rnd n \<and> rnd n < 1"
  shows "fetchRetailStoresBounded ep rnd b depth st =
     (Inl rateLimitError,
      st\<lparr> nreq := nreq st + 6, nrand := nrand st + 5,
          events := events st @
            [Call depth (queryOf b),
             Request (queryOf b) 1, Sleep (3000 * 2 ^ 0 + rnd (nrand st) * 1000),
             Request (queryOf b) 2, Sleep (3000 * 2 ^ 1 + rnd (nrand st + 1) * 1000),
             Request (queryOf b) 3, Sleep (3000 * 2 ^ 2 + rnd (nrand st + 2) * 1000),
             Request (queryOf b) 4, Sleep (3000 * 2 ^ 3 + rnd (nrand st + 3) * 1000),
             Request (queryOf b) 5, Sleep (3000 * 2 ^ 4 + rnd (nrand st + 4) * 1000),
             Request (queryOf b) 6] \<rparr>)
     \<and> (\<forall>n. 0 \<le> rnd n * 1000 \<and> rnd n * 1000 < 1000)"
proof -
  have "\<forall>n. 0 \<le> rnd n * 1000 \<and> rnd n * 1000 < 1000" using assms(2) by simp
  with fetch_429 [where ep = ep and st = st and b = b and rnd = rnd and depth = depth, OF assms(1)]
  show ?thesis by simp
qed

theorem rate_limit_retried_then_fatal_witness:
  "(\<forall>k. answersStatus (perpetual429 (nreq initialScan + k) (queryOf scenarioBox)) 429)
   \<and> (\<forall>n. (0::real) \<le> 1 / 2 \<and> (1::real) / 2 < 1)
   \<and> fetchRetailStoresBounded perpetual429 (\<lambda>n. 1 / 2) scenarioBox 0 initialScan =
     (Inl rateLimitError,
      \<lparr> nreq = 6, nrand = 5,
        events = [Call 0 (queryOf scenarioBox),
             Request (queryOf scenarioBox) 1, Sleep 3500,
             Request (queryOf scenarioBox) 2, Sleep 6500,
             Request (queryOf scenarioBox) 3, Sleep 12500,
             Request (queryOf scenarioBox) 4, Sleep 24500,
             Request (queryOf scenarioBox) 5, Sleep 48500,
             Request (queryOf scenarioBox) 6] \<rparr>)"
proof -
  have h0: "\<forall>k. answersStatus (perpetual429 (nreq initialScan + k) (queryOf scenarioBox)) 429"
    by (simp add: perpetual429_def answersStatus_def)
  then have h1: "\<forall>k<6. answersStatus (perpetual429 (nreq initialScan + k) (queryOf scenarioBox)) 429"
    by simp
  have h2: "\<forall>n. (0::real) \<le> (\<lambda>n. 1 / 2) n \<and> (\<lambda>n. 1 / 2) n < (1::real)" by simp
  from rate_limit_retried_then_fatal [where ep = perpetual429 and st = initialScan
      and b = scenarioBox and rnd = "\<lambda>n. 1 / 2" and depth = 0, OF h1 h2] h0 show ?thesis
    by (simp add: initialScan_def)
qed

section \<open>Properties of the generated villages\<close>

subsection \<open>Decimal numerals are read back\<close>

lemma digitVal_digitChar: "d < 10 \<Longrightarrow> digitVal (digitChar d) = d"
proof -
  assume "d < 10"
  then have "d \<in> {0,1,2,3,4,5,6,7,8,9}" by auto
  then show ?thesis by (auto simp: digitVal_def digitChar_def)
qed

lemma digitsVal_snoc: "digitsVal (ds @ [c]) = 10 * digitsVal ds + digitVal c"
  by (simp add: digitsVal_def)

lemma digitsVal_digitsOf: "digitsVal (digitsOf n) = n"
proof (induction n rule: digitsOf.induct)
  case (1 n)
  show ?case
  proof (cases "n < 10")
    case True
    then show ?thesis by (simp add: digitsOf.simps [of n] digitsVal_def digitVal_digitChar)
  next
    case False
    then have "digitsVal (digitsOf (n div 10)) = n div 10" using 1 by simp
    with False show ?thesis
      by (simp add: digitsOf.simps [of n] digitsVal_snoc digitVal_digitChar)
  qed
qed

lemma digitsOf_inj: "digitsOf m = digitsOf n \<longleftrightarrow> m = n"
  using digitsVal_digitsOf by metis

lemma pins_distinct: "distinct (map fst REAL_PINCODES)"
  by (simp add: REAL_PINCODES_def)

lemma table_finite: "list_all (\<lambda>(n, lat, lng). \<not> isNaN lat \<and> \<not> isNaN lng) villageLocationTable"
  by (simp add: villageLocationTable_def)

subsection \<open>One call of \<open>createVillageFeature\<close>\<close>

lemma organic_ring_length: "3 \<le> length (fst (generateOrganicPolygon rnd d lat lng r))"
  by (simp add: generateOrganicPolygon_def Let_def)

lemma organicPoint_valid:
  assumes "\<not> isNaN lat" "\<not> isNaN lng"
  shows "\<not> isNaN (fst (organicPoint rnd d lat lng r sides i)) \<and> \<not> isNaN (snd (organicPoint rnd d lat lng r sides i))"
  using assms by (cases lat; cases lng) (simp_all add: organicPoint_def Let_def)


lemma organic_ring_valid:
  assumes "\<not> isNaN lat" "\<not> isNaN lng"
  shows "isValidRing (fst (generateOrganicPolygon rnd d lat lng r))"
proof -
  let ?sides = "6 + nat \<lfloor>rnd d * 4\<rfloor>"
  let ?pts = "map (organicPoint rnd (d + 1) lat lng r ?sides) [0..<?sides]"
  have all: "list_all (\<lambda>p. \<not> isNaN (fst p) \<and> \<not> isNaN (snd p)) ?pts"
    using organicPoint_valid [OF assms] by (simp add: list_all_iff)
  have "hd ?pts = organicPoint rnd (d + 1) lat lng r ?sides 0"
    by (simp add: hd_map upt_conv_Cons)
  then have "\<not> isNaN (fst (hd ?pts)) \<and> \<not> isNaN (snd (hd ?pts))"
    using organicPoint_valid [OF assms] by simp
  with all have "list_all (\<lambda>p. \<not> isNaN (fst p) \<and> \<not> isNaN (snd p)) (?pts @ [hd ?pts])"
    by simp
  then show ?thesis
    by (simp add: isValidRing_def generateOrganicPolygon_def Let_def)
qed


lemma create_state:
  "vId (snd (createVillageFeature rnd name lat lng tn dn crops km st)) = vId st + 1"
  "villageGeocodeCounter (snd (createVillageFeature rnd name lat lng tn dn crops km st))
     = villageGeocodeCounter st + 1"
  "generatedVillages (snd (createVillageFeature rnd name lat lng tn dn crops km st))
     = generatedVillages st"
  by (simp_all add: createVillageFeature_def Let_def split: prod.splits)

lemma create_Some:
  assumes "createVillageFeature rnd name lat lng tn dn crops km st = (Some v, st')"
  shows "v_id v = ''village-'' @ digitsOf (vId st)"
    and "v_geocode v = ''KAV'' @ digitsOf (villageGeocodeCounter st)"
    and "v_name v = name" and "v_taluk v = tn" and "v_centre v = (lng, lat)"
  using assms by (auto simp: createVillageFeature_def Let_def split: prod.splits if_splits)

lemma create_defined:
  assumes "\<not> isNaN lat" "\<not> isNaN lng"
  shows "\<exists>v. fst (createVillageFeature rnd name lat lng tn dn crops km st) = Some v"
  using organic_ring_valid [OF assms, of rnd "draws st" "0.005"]
  by (cases "generateOrganicPolygon rnd (draws st) lat lng 0.005")
     (simp add: createVillageFeature_def Let_def)


lemma location_finite:
  assumes "REAL_VILLAGE_LOCATIONS n = Some (lat, lng)"
  shows "\<not> isNaN lat \<and> \<not> isNaN lng"
proof -
  from assms have "(n, lat, lng) \<in> set villageLocationTable"
    by (simp add: REAL_VILLAGE_LOCATIONS_def map_of_SomeD)
  with table_finite show ?thesis by (auto simp: list_all_iff)
qed

lemma afterCreate_placed:
  assumes "\<not> isNaN lat" "\<not> isNaN lng"
  shows "\<exists>v. generatedVillages (afterCreate rnd name lat lng t s) = generatedVillages s @ [v]
            \<and> v_id v = ''village-'' @ digitsOf (vId s)
            \<and> v_geocode v = ''KAV'' @ digitsOf (villageGeocodeCounter s)
            \<and> v_name v = name \<and> v_taluk v = t_name t \<and> v_centre v = (lng, lat)"
proof -
  obtain v where "fst (createVillageFeature rnd name lat lng (t_name t) (t_district t)
             (t_crops t) (t_keyMarkets t) s) = Some v"
    using create_defined [OF assms] by blast
  then obtain st1 where c: "createVillageFeature rnd name lat lng (t_name t) (t_district t)
             (t_crops t) (t_keyMarkets t) s = (Some v, st1)"
    by (cases "createVillageFeature rnd name lat lng (t_name t) (t_district t)
             (t_crops t) (t_keyMarkets t) s") simp
  have g: "generatedVillages st1 = generatedVillages s"
    using create_state(3) [of rnd name lat lng "t_name t" "t_district t" "t_crops t" "t_keyMarkets t" s] c
    by simp
  have "generatedVillages (afterCreate rnd name lat lng t s) = generatedVillages s @ [v]"
    using c g by (simp add: afterCreate_def pushVillage_def)
  with create_Some [OF c] show ?thesis by blast
qed

lemma afterCreate_counters:
  "vId (afterCreate rnd name lat lng t s) = vId s + 1"
  "villageGeocodeCounter (afterCreate rnd name lat lng t s) = villageGeocodeCounter s + 1"
proof -
  obtain res st1 where c: "createVillageFeature rnd name lat lng (t_name t) (t_district t)
             (t_crops t) (t_keyMarkets t) s = (res, st1)"
    by (cases "createVillageFeature rnd name lat lng (t_name t) (t_district t)
             (t_crops t) (t_keyMarkets t) s")
  have "vId st1 = vId s + 1" "villageGeocodeCounter st1 = villageGeocodeCounter s + 1"
    using create_state(1,2) [of rnd name lat lng "t_name t" "t_district t" "t_crops t" "t_keyMarkets t" s] c
    by simp_all
  then show "vId (afterCreate rnd name lat lng t s) = vId s + 1"
    "villageGeocodeCounter (afterCreate rnd name lat lng t s) = villageGeocodeCounter s + 1"
    using c by (cases res; simp add: afterCreate_def pushVillage_def)+
qed

lemma afterCreate_grows:
  "\<exists>new. generatedVillages (afterCreate rnd name lat lng t s) = generatedVillages s @ new"
proof -
  obtain res st1 where c: "createVillageFeature rnd name lat lng (t_name t) (t_district t)
             (t_crops t) (t_keyMarkets t) s = (res, st1)"
    by (cases "createVillageFeature rnd name lat lng (t_name t) (t_district t)
             (t_crops t) (t_keyMarkets t) s")
  have g: "generatedVillages st1 = generatedVillages s"
    using create_state(3) [of rnd name lat lng "t_name t" "t_district t" "t_crops t" "t_keyMarkets t" s] c
    by simp
  show ?thesis using c g by (cases res) (simp_all add: afterCreate_def pushVillage_def)
qed

subsection \<open>Invariants of the two steps of a taluk\<close>

lemma place_invariant:
  assumes "Inv st"
      and step: "\<And>s name lat lng. Inv s \<Longrightarrow> name \<in> set names
                   \<Longrightarrow> REAL_VILLAGE_LOCATIONS name = Some (lat, lng)
                   \<Longrightarrow> Inv (afterCreate rnd name lat lng t s)"
  shows "Inv (snd (placeRealVillages rnd t names count st))"
  using assms
proof (induction names arbitrary: count st)
  case Nil
  then show ?case by simp
next
  case (Cons name names)
  have step': "Inv (afterCreate rnd n lat lng t s)"
    if "Inv s" "n \<in> set names" "REAL_VILLAGE_LOCATIONS n = Some (lat, lng)" for s n lat lng
  proof -
    from that(2) have "n \<in> set (name # names)" by simp
    from Cons.prems(2) [OF that(1) this that(3)] show ?thesis .
  qed
  show ?case
  proof (cases "REAL_VILLAGE_LOCATIONS name")
    case None
    have "placeRealVillages rnd t (name # names) count st = placeRealVillages rnd t names count st"
      using None by simp
    moreover have "Inv (snd (placeRealVillages rnd t names count st))"
      by (rule Cons.IH [OF Cons.prems(1) step'])
    ultimately show ?thesis by simp
  next
    case (Some loc)
    obtain lat lng where loc: "loc = (lat, lng)" by (cases loc)
    have nm: "name \<in> set (name # names)" by simp
    have l: "REAL_VILLAGE_LOCATIONS name = Some (lat, lng)" using Some loc by simp
    have a: "Inv (afterCreate rnd name lat lng t st)"
      by (rule Cons.prems(2) [OF Cons.prems(1) nm l])
    obtain res st1 where c: "createVillageFeature rnd name lat lng (t_name t) (t_district t)
             (t_crops t) (t_keyMarkets t) st = (res, st1)"
      by (cases "createVillageFeature rnd name lat lng (t_name t) (t_district t)
             (t_crops t) (t_keyMarkets t) st")
    show ?thesis
    proof (cases res)
      case None
      with a c have i: "Inv st1" by (simp add: afterCreate_def)
      have "placeRealVillages rnd t (name # names) count st = placeRealVillages rnd t names count st1"
        using l c None by simp
      moreover have "Inv (snd (placeRealVillages rnd t names count st1))"
        by (rule Cons.IH [OF i step'])
      ultimately show ?thesis by simp
    next
      case (Some v)
      with a c have i: "Inv (pushVillage v st1)" by (simp add: afterCreate_def)
      have "placeRealVillages rnd t (name # names) count st =
              placeRealVillages rnd t names (count + 1) (pushVillage v st1)"
        using l c Some by simp
      moreover have "Inv (snd (placeRealVillages rnd t names (count + 1) (pushVillage v st1)))"
        by (rule Cons.IH [OF i step'])
      ultimately show ?thesis by simp
    qed
  qed
qed

lemma fill_done:
  "\<not> (count < 35 \<and> attempts < 400) \<Longrightarrow> fillRandomVillages rnd t bounds count attempts st = st"
  by (subst fillRandomVillages.simps) (simp only: if_False)

lemma fill_skip_eq:
  assumes "count < 35" "attempts < 400" "bounds = (minLat, maxLat, minLng, maxLng)"
      and "lat = jadd minLat (jmul (Fin (rnd (draws st))) (jsub maxLat minLat))"
      and "lng = jadd minLng (jmul (Fin (rnd (draws st + 1))) (jsub maxLng minLng))"
      and "isNaN lat \<or> isNaN lng \<or> \<not> isPointInPolygon (lng, lat) (t_coords t)"
  shows "fillRandomVillages rnd t bounds count attempts st =
           fillRandomVillages rnd t bounds count (attempts + 1) (st\<lparr>draws := draws st + 2\<rparr>)"
proof -
  have ca: "count < 35 \<and> attempts < 400" using assms(1,2) by simp
  show ?thesis
    apply (subst fillRandomVillages.simps)
    apply (simp only: ca if_True assms(3) prod.case Let_def)
    using assms(6) unfolding assms(4,5) by auto
qed

lemma fill_place_eq:
  assumes "count < 35" "attempts < 400" "bounds = (minLat, maxLat, minLng, maxLng)"
      and "lat = jadd minLat (jmul (Fin (rnd (draws st))) (jsub maxLat minLat))"
      and "lng = jadd minLng (jmul (Fin (rnd (draws st + 1))) (jsub maxLng minLng))"
      and "\<not> isNaN lat" "\<not> isNaN lng" "isPointInPolygon (lng, lat) (t_coords t)"
      and "name = pick villagePrefixes (rnd (draws st + 2)) @ pick villageSuffixes (rnd (draws st + 3))"
  shows "fillRandomVillages rnd t bounds count attempts st =
           fillRandomVillages rnd t bounds (count + 1) (attempts + 1)
             (afterCreate rnd name lat lng t (st\<lparr>draws := draws st + 4\<rparr>))"
proof -
  let ?lat = "jadd minLat (jmul (Fin (rnd (draws st))) (jsub maxLat minLat))"
  let ?lng = "jadd minLng (jmul (Fin (rnd (draws st + 1))) (jsub maxLng minLng))"
  let ?st1 = "st\<lparr>draws := draws st + 2\<rparr>"
  let ?name = "pick villagePrefixes (rnd (draws ?st1)) @ pick villageSuffixes (rnd (draws ?st1 + 1))"
  let ?st2 = "?st1\<lparr>draws := draws ?st1 + 2\<rparr>"
  have st2: "?st2 = st\<lparr>draws := draws st + 4\<rparr>" by simp
  have nm: "?name = name" unfolding assms(9) by (simp add: numeral_3_eq_3)
  have ca: "count < 35 \<and> attempts < 400" using assms(1,2) by simp
  have v: "\<not> isNaN ?lat" "\<not> isNaN ?lng" "isPointInPolygon (?lng, ?lat) (t_coords t)"
    using assms(6-8) unfolding assms(4,5) by simp_all
  obtain f where "fst (createVillageFeature rnd ?name ?lat ?lng (t_name t) (t_district t)
             (t_crops t) (t_keyMarkets t) ?st2) = Some f"
    using create_defined [OF v(1,2)] by blast
  then obtain st3 where c: "createVillageFeature rnd ?name ?lat ?lng (t_name t) (t_district t)
             (t_crops t) (t_keyMarkets t) ?st2 = (Some f, st3)"
    by (cases "createVillageFeature rnd ?name ?lat ?lng (t_name t) (t_district t)
             (t_crops t) (t_keyMarkets t) ?st2") simp
  have "fillRandomVillages rnd t bounds count attempts st =
          fillRandomVillages rnd t bounds (count + 1) (attempts + 1)
            (afterCreate rnd ?name ?lat ?lng t ?st2)"
    apply (subst fillRandomVillages.simps)
    apply (simp only: ca if_True assms(3) prod.case Let_def)
    using v c by (simp add: afterCreate_def)
  then show ?thesis unfolding assms(4,5) by (simp only: st2 nm)
qed

lemma fill_cases:
  assumes "count < 35" "attempts < 400"
  obtains (skip) "fillRandomVillages rnd t bounds count attempts st =
                    fillRandomVillages rnd t bounds count (attempts + 1) (st\<lparr>draws := draws st + 2\<rparr>)"
  | (place) lat lng name c where "\<not> isNaN lat" "\<not> isNaN lng"
       "isPointInPolygon (lng, lat) (t_coords t)"
       "fillRandomVillages rnd t bounds count attempts st =
          fillRandomVillages rnd t bounds c (attempts + 1)
            (afterCreate rnd name lat lng t (st\<lparr>draws := draws st + 4\<rparr>))"
proof -
  obtain minLat maxLat minLng maxLng where b: "bounds = (minLat, maxLat, minLng, maxLng)"
    by (cases bounds) auto
  let ?lat = "jadd minLat (jmul (Fin (rnd (draws st))) (jsub maxLat minLat))"
  let ?lng = "jadd minLng (jmul (Fin (rnd (draws st + 1))) (jsub maxLng minLng))"
  show ?thesis
  proof (cases "isNaN ?lat \<or> isNaN ?lng \<or> \<not> isPointInPolygon (?lng, ?lat) (t_coords t)")
    case True
    from fill_skip_eq [OF assms b refl refl True] show ?thesis by (rule skip)
  next
    case False
    then have v: "\<not> isNaN ?lat" "\<not> isNaN ?lng" "isPointInPolygon (?lng, ?lat) (t_coords t)" by simp_all
    from fill_place_eq [OF assms b refl refl v refl] v show ?thesis by (rule place [rotated 3])
  qed
qed

lemma fill_invariant:
  assumes "Inv st"
      and drawn: "\<And>s d. Inv s \<Longrightarrow> Inv (s\<lparr>draws := d\<rparr>)"
      and step: "\<And>s name lat lng. Inv s \<Longrightarrow> \<not> isNaN lat \<Longrightarrow> \<not> isNaN lng
                   \<Longrightarrow> isPointInPolygon (lng, lat) (t_coords t)
                   \<Longrightarrow> Inv (afterCreate rnd name lat lng t s)"
  shows "Inv (fillRandomVillages rnd t bounds count attempts st)"
  using assms(1)
proof (induction "400 - attempts" arbitrary: count attempts st)
  case 0
  then have "\<not> (count < 35 \<and> attempts < 400)" by simp
  from fill_done [OF this] "0.prems" show ?case by simp
next
  case (Suc n)
  show ?case
  proof (cases "count < 35 \<and> attempts < 400")
    case False
    from fill_done [OF this] Suc.prems show ?thesis by simp
  next
    case True
    then have c: "count < 35" and a: "attempts < 400" by simp_all
    have m: "n = 400 - (attempts + 1)" using Suc.hyps(2) by simp
    from c a show ?thesis
    proof (cases rule: fill_cases [where rnd = rnd and t = t and bounds = bounds and st = st])
      case skip
      have "Inv (st\<lparr>draws := draws st + 2\<rparr>)" by (rule drawn [OF Suc.prems])
      from Suc.hyps(1) [OF m this] skip show ?thesis by simp
    next
      case (place lat lng name c')
      have "Inv (st\<lparr>draws := draws st + 4\<rparr>)" by (rule drawn [OF Suc.prems])
      from step [OF this place(1-3)]
      have "Inv (afterCreate rnd name lat lng t (st\<lparr>draws := draws st + 4\<rparr>))" .
      from Suc.hyps(1) [OF m this] place(4) show ?thesis by simp
    qed
  qed
qed

lemma process_invariant:
  assumes "Inv st"
      and drawn: "\<And>s d. Inv s \<Longrightarrow> Inv (s\<lparr>draws := d\<rparr>)"
      and curated: "\<And>s name lat lng names. Inv s \<Longrightarrow> REAL_VILLAGE_NAMES (t_name t) = Some names
                   \<Longrightarrow> name \<in> set names
                   \<Longrightarrow> REAL_VILLAGE_LOCATIONS name = Some (lat, lng)
                   \<Longrightarrow> Inv (afterCreate rnd name lat lng t s)"
      and sampled: "\<And>s name lat lng. Inv s \<Longrightarrow> \<not> isNaN lat \<Longrightarrow> \<not> isNaN lng
                   \<Longrightarrow> isPointInPolygon (lng, lat) (t_coords t)
                   \<Longrightarrow> Inv (afterCreate rnd name lat lng t s)"
  shows "Inv (processTaluk rnd t st)"
proof -
  define realNames where "realNames = (case REAL_VILLAGE_NAMES (t_name t) of None \<Rightarrow> [] | Some names \<Rightarrow> names)"
  have cur: "Inv (afterCreate rnd name lat lng t s)"
    if "Inv s" "name \<in> set realNames" "REAL_VILLAGE_LOCATIONS name = Some (lat, lng)" for s name lat lng
  proof (cases "REAL_VILLAGE_NAMES (t_name t)")
    case None
    with that(2) show ?thesis by (simp add: realNames_def)
  next
    case (Some names)
    with that(2) have "name \<in> set names" by (simp add: realNames_def)
    from curated [OF that(1) Some this that(3)] show ?thesis .
  qed
  obtain count st1 where p: "placeRealVillages rnd t realNames 0 st = (count, st1)"
    by (cases "placeRealVillages rnd t realNames 0 st")
  have "Inv (snd (placeRealVillages rnd t realNames 0 st))"
    by (rule place_invariant [OF assms(1) cur])
  with p have "Inv st1" by simp
  then have "Inv (fillRandomVillages rnd t (mathMin (map snd (t_coords t)), mathMax (map snd (t_coords t)),
       mathMin (map fst (t_coords t)), mathMax (map fst (t_coords t))) count 0 st1)"
    by (rule fill_invariant [OF _ drawn sampled])
  then show ?thesis
    using p by (simp add: processTaluk_def Let_def realNames_def)
qed

lemma generate_invariant:
  assumes "Inv st"
      and drawn: "\<And>s d. Inv s \<Longrightarrow> Inv (s\<lparr>draws := d\<rparr>)"
      and curated: "\<And>t s name lat lng names. Inv s \<Longrightarrow> t \<in> set taluks
                   \<Longrightarrow> REAL_VILLAGE_NAMES (t_name t) = Some names
                   \<Longrightarrow> name \<in> set names
                   \<Longrightarrow> REAL_VILLAGE_LOCATIONS name = Some (lat, lng)
                   \<Longrightarrow> Inv (afterCreate rnd name lat lng t s)"
      and sampled: "\<And>t s name lat lng. Inv s \<Longrightarrow> t \<in> set taluks
                   \<Longrightarrow> \<not> isNaN lat \<Longrightarrow> \<not> isNaN lng
                   \<Longrightarrow> isPointInPolygon (lng, lat) (t_coords t)
                   \<Longrightarrow> Inv (afterCreate rnd name lat lng t s)"
  shows "Inv (generateVillages rnd taluks st)"
  using assms
proof (induction taluks arbitrary: st)
  case Nil
  then show ?case by (simp add: generateVillages_def)
next
  case (Cons t ts)
  have t: "t \<in> set (t # ts)" by simp
  have i: "Inv (processTaluk rnd t st)"
  proof (rule process_invariant [where Inv = Inv and st = st and t = t and rnd = rnd, OF Cons.prems(1)])
    show "\<And>s d. Inv s \<Longrightarrow> Inv (s\<lparr>draws := d\<rparr>)" by (rule Cons.prems(2))
    show "\<And>s name lat lng names. Inv s \<Longrightarrow> REAL_VILLAGE_NAMES (t_name t) = Some names
                   \<Longrightarrow> name \<in> set names
                   \<Longrightarrow> REAL_VILLAGE_LOCATIONS name = Some (lat, lng)
                   \<Longrightarrow> Inv (afterCreate rnd name lat lng t s)"
      using Cons.prems(3) [OF _ t] by blast
    show "\<And>s name lat lng. Inv s \<Longrightarrow> \<not> isNaN lat \<Longrightarrow> \<not> isNaN lng
                   \<Longrightarrow> isPointInPolygon (lng, lat) (t_coords t)
                   \<Longrightarrow> Inv (afterCreate rnd name lat lng t s)"
      using Cons.prems(4) [OF _ t] by blast
  qed
  have "Inv (generateVillages rnd ts (processTaluk rnd t st))"
  proof (rule Cons.IH [OF i])
    show "\<And>s d. Inv s \<Longrightarrow> Inv (s\<lparr>draws := d\<rparr>)" by (rule Cons.prems(2))
    show "\<And>t s name lat lng names. Inv s \<Longrightarrow> t \<in> set ts
                   \<Longrightarrow> REAL_VILLAGE_NAMES (t_name t) = Some names
                   \<Longrightarrow> name \<in> set names
                   \<Longrightarrow> REAL_VILLAGE_LOCATIONS name = Some (lat, lng)
                   \<Longrightarrow> Inv (afterCreate rnd name lat lng t s)"
      using Cons.prems(3) by (meson list.set_intros(2))
    show "\<And>t s name lat lng. Inv s \<Longrightarrow> t \<in> set ts
                   \<Longrightarrow> \<not> isNaN lat \<Longrightarrow> \<not> isNaN lng
                   \<Longrightarrow> isPointInPolygon (lng, lat) (t_coords t)
                   \<Longrightarrow> Inv (afterCreate rnd name lat lng t s)"
      using Cons.prems(4) by (meson list.set_intros(2))
  qed
  then show ?case by (simp add: generateVillages_def)
qed

subsection \<open>The geocode counter\<close>

lemma numbered_initial: "numbered initialGen"
  by (simp add: numbered_def initialGen_def)

lemma numbered_drawn: "numbered s \<Longrightarrow> numbered (s\<lparr>draws := d\<rparr>)"
  by (simp add: numbered_def)

lemma numbered_afterCreate:
  assumes "numbered s" "\<not> isNaN lat" "\<not> isNaN lng"
  shows "numbered (afterCreate rnd name lat lng t s)"
proof -
  obtain v where v: "generatedVillages (afterCreate rnd name lat lng t s) = generatedVillages s @ [v]"
      "v_id v = ''village-'' @ digitsOf (vId s)"
      "v_geocode v = ''KAV'' @ digitsOf (villageGeocodeCounter s)"
    using afterCreate_placed [OF assms(2,3)] by blast
  show ?thesis
    using assms(1) v afterCreate_counters [of rnd name lat lng t s]
    by (simp add: numbered_def)
qed

lemma numbered_generate: "numbered (generateVillages rnd taluks initialGen)"
proof (rule generate_invariant [where Inv = numbered, OF numbered_initial])
  show "\<And>s d. numbered s \<Longrightarrow> numbered (s\<lparr>draws := d\<rparr>)" by (rule numbered_drawn)
  show "\<And>t s name lat lng names. numbered s \<Longrightarrow> t \<in> set taluks
          \<Longrightarrow> REAL_VILLAGE_NAMES (t_name t) = Some names \<Longrightarrow> name \<in> set names
          \<Longrightarrow> REAL_VILLAGE_LOCATIONS name = Some (lat, lng)
          \<Longrightarrow> numbered (afterCreate rnd name lat lng t s)"
    using numbered_afterCreate location_finite by blast
  show "\<And>t s name lat lng. numbered s \<Longrightarrow> t \<in> set taluks \<Longrightarrow> \<not> isNaN lat \<Longrightarrow> \<not> isNaN lng
          \<Longrightarrow> isPointInPolygon (lng, lat) (t_coords t)
          \<Longrightarrow> numbered (afterCreate rnd name lat lng t s)"
    using numbered_afterCreate by blast
qed




subsection \<open>Containment in the taluk\<close>

lemma placedIn_generate:
  "list_all (placedIn taluks) (generatedVillages (generateVillages rnd taluks initialGen))"
proof (rule generate_invariant [where Inv = "\<lambda>s. list_all (placedIn taluks) (generatedVillages s)"])
  show "list_all (placedIn taluks) (generatedVillages initialGen)" by (simp add: initialGen_def)
  show "\<And>s d. list_all (placedIn taluks) (generatedVillages s)
          \<Longrightarrow> list_all (placedIn taluks) (generatedVillages (s\<lparr>draws := d\<rparr>))" by simp
  show "list_all (placedIn taluks) (generatedVillages (afterCreate rnd name lat lng t s))"
    if hyp: "list_all (placedIn taluks) (generatedVillages s)" "t \<in> set taluks"
       "REAL_VILLAGE_NAMES (t_name t) = Some names" "name \<in> set names"
       "REAL_VILLAGE_LOCATIONS name = Some (lat, lng)" for t s name lat lng names
  proof -
    have f: "\<not> isNaN lat" "\<not> isNaN lng" using location_finite [OF hyp(5)] by simp_all
    obtain v where v: "generatedVillages (afterCreate rnd name lat lng t s) = generatedVillages s @ [v]"
      "v_name v = name" "v_taluk v = t_name t" "v_centre v = (lng, lat)"
      using afterCreate_placed [OF f] by blast
    have "curatedAt t v" using hyp(3-5) v by (simp add: curatedAt_def)
    then have "placedIn taluks v" using hyp(2) v(3) by (auto simp: placedIn_def list_ex_iff)
    with hyp(1) v(1) show ?thesis by simp
  qed
  show "list_all (placedIn taluks) (generatedVillages (afterCreate rnd name lat lng t s))"
    if hyp: "list_all (placedIn taluks) (generatedVillages s)" "t \<in> set taluks"
       "\<not> isNaN lat" "\<not> isNaN lng" "isPointInPolygon (lng, lat) (t_coords t)" for t s name lat lng
  proof -
    obtain v where v: "generatedVillages (afterCreate rnd name lat lng t s) = generatedVillages s @ [v]"
      "v_name v = name" "v_taluk v = t_name t" "v_centre v = (lng, lat)"
      using afterCreate_placed [OF hyp(3,4)] by blast
    have "placedIn taluks v" using hyp(2,5) v(3,4) by (auto simp: placedIn_def list_ex_iff)
    with hyp(1) v(1) show ?thesis by simp
  qed
qed

lemma sampled_contained:
  "\<exists>new. generatedVillages (fillRandomVillages rnd t bounds count attempts st) = generatedVillages st @ new
      \<and> list_all (\<lambda>v. v_taluk v = t_name t \<and> isPointInPolygon (v_centre v) (t_coords t)) new"
proof (rule fill_invariant [where Inv = "\<lambda>s. \<exists>new. generatedVillages s = generatedVillages st @ new
      \<and> list_all (\<lambda>v. v_taluk v = t_name t \<and> isPointInPolygon (v_centre v) (t_coords t)) new"])
  show "\<exists>new. generatedVillages st = generatedVillages st @ new
      \<and> list_all (\<lambda>v. v_taluk v = t_name t \<and> isPointInPolygon (v_centre v) (t_coords t)) new"
    by simp
  show "\<And>s d. \<exists>new. generatedVillages s = generatedVillages st @ new
      \<and> list_all (\<lambda>v. v_taluk v = t_name t \<and> isPointInPolygon (v_centre v) (t_coords t)) new
     \<Longrightarrow> \<exists>new. generatedVillages (s\<lparr>draws := d\<rparr>) = generatedVillages st @ new
      \<and> list_all (\<lambda>v. v_taluk v = t_name t \<and> isPointInPolygon (v_centre v) (t_coords t)) new"
    by simp
  show "\<exists>new. generatedVillages (afterCreate rnd name lat lng t s) = generatedVillages st @ new
      \<and> list_all (\<lambda>v. v_taluk v = t_name t \<and> isPointInPolygon (v_centre v) (t_coords t)) new"
    if hyp: "\<exists>new. generatedVillages s = generatedVillages st @ new
      \<and> list_all (\<lambda>v. v_taluk v = t_name t \<and> isPointInPolygon (v_centre v) (t_coords t)) new"
      "\<not> isNaN lat" "\<not> isNaN lng" "isPointInPolygon (lng, lat) (t_coords t)" for s name lat lng
  proof -
    from hyp(1) obtain new where n: "generatedVillages s = generatedVillages st @ new"
      "list_all (\<lambda>v. v_taluk v = t_name t \<and> isPointInPolygon (v_centre v) (t_coords t)) new" by blast
    obtain v where v: "generatedVillages (afterCreate rnd name lat lng t s) = generatedVillages s @ [v]"
      "v_taluk v = t_name t" "v_centre v = (lng, lat)"
      using afterCreate_placed [OF hyp(2,3)] by blast
    have "generatedVillages (afterCreate rnd name lat lng t s) = generatedVillages st @ (new @ [v])"
      using v(1) n(1) by simp
    moreover have "list_all (\<lambda>v. v_taluk v = t_name t \<and> isPointInPolygon (v_centre v) (t_coords t)) (new @ [v])"
      using n(2) v(2,3) hyp(4) by simp
    ultimately show ?thesis by blast
  qed
qed

lemma dodda: "talukDataRaw ! 0 = \<lparr> t_name = ''Doddaballapur'', t_district = ''Bengaluru Rural'', t_coords = COORDS_DODDABALLAPUR,
        t_crops = Some [''Ragi'', ''Maize'', ''Silk''],
        t_keyMarkets = Some [''Apparel Park'', ''Weaving''] \<rparr>"
  by (simp add: talukDataRaw_def)

lemma pip_dodda: "isPointInPolygon (Fin 77.5, Fin 13.365) COORDS_DODDABALLAPUR"
  by (simp add: isPointInPolygon_def COORDS_DODDABALLAPUR_def crosses_def jlt_def jsub_def
        J_Nelamangala_Doddaballapur_BlrNorth_def J_Doddaballapur_Devanahalli_BlrNorth_def)

lemma bounds_dodda:
  "mathMin (map snd COORDS_DODDABALLAPUR) = Fin 13.18"
  "mathMax (map snd COORDS_DODDABALLAPUR) = Fin 13.55"
  "mathMin (map fst COORDS_DODDABALLAPUR) = Fin 77.35"
  "mathMax (map fst COORDS_DODDABALLAPUR) = Fin 77.65"
  by (simp_all add: mathMin_def mathMax_def COORDS_DODDABALLAPUR_def jlt_def
        J_Nelamangala_Doddaballapur_BlrNorth_def J_Doddaballapur_Devanahalli_BlrNorth_def)

lemma sample_dodda:
  "\<exists>v. generatedVillages (fillRandomVillages halfDraws (talukDataRaw ! 0)
        (Fin 13.18, Fin 13.55, Fin 77.35, Fin 77.65) 34 0 initialGen) = [v]
      \<and> v_centre v = (Fin 77.5, Fin 13.365) \<and> v_name v = ''Byrasandra''"
proof -
  let ?t = "talukDataRaw ! 0"
  have a: "\<not> isNaN (Fin 13.365)" "\<not> isNaN (Fin 77.5)" by simp_all
  obtain v where v: "generatedVillages (afterCreate halfDraws ''Byrasandra'' (Fin 13.365) (Fin 77.5) ?t
        (initialGen\<lparr>draws := draws initialGen + 4\<rparr>))
           = generatedVillages (initialGen\<lparr>draws := draws initialGen + 4\<rparr>) @ [v]"
      "v_name v = ''Byrasandra''" "v_centre v = (Fin 77.5, Fin 13.365)"
    using afterCreate_placed [OF a] by blast
  have n: "''Byrasandra'' = pick villagePrefixes (halfDraws (draws initialGen + 2))
             @ pick villageSuffixes (halfDraws (draws initialGen + 3))"
    by (simp add: pick_def villagePrefixes_def villageSuffixes_def Let_def halfDraws_def)
  have la: "Fin 13.365 = jadd (Fin 13.18) (jmul (Fin (halfDraws (draws initialGen))) (jsub (Fin 13.55) (Fin 13.18)))"
    by (simp add: halfDraws_def jsub_def)
  have ln: "Fin 77.5 = jadd (Fin 77.35) (jmul (Fin (halfDraws (draws initialGen + 1))) (jsub (Fin 77.65) (Fin 77.35)))"
    by (simp add: halfDraws_def jsub_def)
  have p: "isPointInPolygon (Fin 77.5, Fin 13.365) (t_coords ?t)" using pip_dodda by (simp add: dodda)
  have "fillRandomVillages halfDraws ?t (Fin 13.18, Fin 13.55, Fin 77.35, Fin 77.65) 34 0 initialGen
        = fillRandomVillages halfDraws ?t (Fin 13.18, Fin 13.55, Fin 77.35, Fin 77.65) (34 + 1) (0 + 1)
            (afterCreate halfDraws ''Byrasandra'' (Fin 13.365) (Fin 77.5) ?t
               (initialGen\<lparr>draws := draws initialGen + 4\<rparr>))"
    by (rule fill_place_eq [OF _ _ refl la ln a p n]) simp_all
  also have "\<dots> = afterCreate halfDraws ''Byrasandra'' (Fin 13.365) (Fin 77.5) ?t
               (initialGen\<lparr>draws := draws initialGen + 4\<rparr>)"
    by (rule fill_done) simp
  finally show ?thesis using v by (simp add: initialGen_def)
qed

lemma placements_append: "placements (xs @ ys) = placements xs @ placements ys"
  by (simp add: placements_def)

lemma kept_afterCreate:
  "x \<in> set (placements (generatedVillages s))
     \<Longrightarrow> x \<in> set (placements (generatedVillages (afterCreate rnd name lat lng t s)))"
  using afterCreate_grows [of rnd name lat lng t s] by (auto simp: placements_append)

lemma kept_place:
  assumes "x \<in> set (placements (generatedVillages st))"
  shows "x \<in> set (placements (generatedVillages (snd (placeRealVillages rnd t names count st))))"
  by (rule place_invariant [where Inv = "\<lambda>s. x \<in> set (placements (generatedVillages s))", OF assms])
     (rule kept_afterCreate)

lemma kept_fill:
  assumes "x \<in> set (placements (generatedVillages st))"
  shows "x \<in> set (placements (generatedVillages (fillRandomVillages rnd t bounds count attempts st)))"
proof (rule fill_invariant [where Inv = "\<lambda>s. x \<in> set (placements (generatedVillages s))", OF assms])
  show "\<And>s d. x \<in> set (placements (generatedVillages s))
          \<Longrightarrow> x \<in> set (placements (generatedVillages (s\<lparr>draws := d\<rparr>)))" by simp
  show "\<And>s name lat lng. x \<in> set (placements (generatedVillages s)) \<Longrightarrow> \<not> isNaN lat \<Longrightarrow> \<not> isNaN lng
          \<Longrightarrow> isPointInPolygon (lng, lat) (t_coords t)
          \<Longrightarrow> x \<in> set (placements (generatedVillages (afterCreate rnd name lat lng t s)))"
    by (rule kept_afterCreate)
qed

lemma kept_generate:
  assumes "x \<in> set (placements (generatedVillages st))"
  shows "x \<in> set (placements (generatedVillages (generateVillages rnd taluks st)))"
proof (rule generate_invariant [where Inv = "\<lambda>s. x \<in> set (placements (generatedVillages s))", OF assms])
  show "\<And>s d. x \<in> set (placements (generatedVillages s))
          \<Longrightarrow> x \<in> set (placements (generatedVillages (s\<lparr>draws := d\<rparr>)))" by simp
  show "\<And>t s name lat lng names. x \<in> set (placements (generatedVillages s)) \<Longrightarrow> t \<in> set taluks
          \<Longrightarrow> REAL_VILLAGE_NAMES (t_name t) = Some names \<Longrightarrow> name \<in> set names
          \<Longrightarrow> REAL_VILLAGE_LOCATIONS name = Some (lat, lng)
          \<Longrightarrow> x \<in> set (placements (generatedVillages (afterCreate rnd name lat lng t s)))"
    by (rule kept_afterCreate)
  show "\<And>t s name lat lng. x \<in> set (placements (generatedVillages s)) \<Longrightarrow> t \<in> set taluks
          \<Longrightarrow> \<not> isNaN lat \<Longrightarrow> \<not> isNaN lng
          \<Longrightarrow> isPointInPolygon (lng, lat) (t_coords t)
          \<Longrightarrow> x \<in> set (placements (generatedVillages (afterCreate rnd name lat lng t s)))"
    by (rule kept_afterCreate)
qed

lemma curated_placed_by_step:
  assumes "n \<in> set names" "REAL_VILLAGE_LOCATIONS n = Some (lat, lng)"
  shows "(n, t_name t, (lng, lat))
           \<in> set (placements (generatedVillages (snd (placeRealVillages rnd t names count st))))"
  using assms(1)
proof (induction names arbitrary: count st)
  case Nil
  then show ?case by simp
next
  case (Cons name names)
  show ?case
  proof (cases "name = n")
    case True
    have f: "\<not> isNaN lat" "\<not> isNaN lng" using location_finite [OF assms(2)] by simp_all
    obtain v where v: "generatedVillages (afterCreate rnd n lat lng t st) = generatedVillages st @ [v]"
      "v_name v = n" "v_taluk v = t_name t" "v_centre v = (lng, lat)"
      using afterCreate_placed [OF f] by blast
    then have m: "(n, t_name t, (lng, lat)) \<in> set (placements (generatedVillages (afterCreate rnd n lat lng t st)))"
      by (simp add: placements_def)
    obtain res st1 where c: "createVillageFeature rnd n lat lng (t_name t) (t_district t)
             (t_crops t) (t_keyMarkets t) st = (res, st1)"
      by (cases "createVillageFeature rnd n lat lng (t_name t) (t_district t)
             (t_crops t) (t_keyMarkets t) st")
    have "\<exists>c'. placeRealVillages rnd t (name # names) count st =
            placeRealVillages rnd t names c' (afterCreate rnd n lat lng t st)"
      using True assms(2) c by (cases res) (auto simp: afterCreate_def)
    then obtain c' where "placeRealVillages rnd t (name # names) count st =
            placeRealVillages rnd t names c' (afterCreate rnd n lat lng t st)" by blast
    with kept_place [OF m, of rnd t names c'] show ?thesis by simp
  next
    case False
    with Cons.prems have n: "n \<in> set names" by simp
    show ?thesis
    proof (cases "REAL_VILLAGE_LOCATIONS name")
      case None
      with Cons.IH [OF n, of count st] show ?thesis by simp
    next
      case (Some loc)
      obtain la lo where loc: "loc = (la, lo)" by (cases loc)
      obtain res st1 where c: "createVillageFeature rnd name la lo (t_name t) (t_district t)
             (t_crops t) (t_keyMarkets t) st = (res, st1)"
        by (cases "createVillageFeature rnd name la lo (t_name t) (t_district t)
             (t_crops t) (t_keyMarkets t) st")
      show ?thesis
      proof (cases res)
        case None
        with Cons.IH [OF n, of count st1] Some loc c show ?thesis by simp
      next
        case (Some f)
        with Cons.IH [OF n, of "count + 1" "pushVillage f st1"]
             \<open>REAL_VILLAGE_LOCATIONS name = Some loc\<close> loc c show ?thesis by simp
      qed
    qed
  qed
qed

lemma curated_placed_by_taluk:
  assumes "REAL_VILLAGE_NAMES (t_name t) = Some names" "n \<in> set names"
      and "REAL_VILLAGE_LOCATIONS n = Some (lat, lng)"
  shows "(n, t_name t, (lng, lat)) \<in> set (placements (generatedVillages (processTaluk rnd t st)))"
proof -
  obtain count st1 where p: "placeRealVillages rnd t names 0 st = (count, st1)"
    by (cases "placeRealVillages rnd t names 0 st")
  have "(n, t_name t, (lng, lat)) \<in> set (placements (generatedVillages st1))"
    using curated_placed_by_step [OF assms(2,3), of t rnd 0 st] p by simp
  from kept_fill [OF this] show ?thesis
    using p assms(1) by (simp add: processTaluk_def Let_def)
qed

lemma curated_placed:
  assumes "t \<in> set taluks" "REAL_VILLAGE_NAMES (t_name t) = Some names" "n \<in> set names"
      and "REAL_VILLAGE_LOCATIONS n = Some (lat, lng)"
  shows "(n, t_name t, (lng, lat)) \<in> set (placements (generatedVillages (generateVillages rnd taluks st)))"
  using assms(1)
proof (induction taluks arbitrary: st)
  case Nil
  then show ?case by simp
next
  case (Cons a taluks)
  have g: "generateVillages rnd (a # taluks) st = generateVillages rnd taluks (processTaluk rnd a st)"
    by (simp add: generateVillages_def)
  show ?case
  proof (cases "a = t")
    case True
    from kept_generate [OF curated_placed_by_taluk [OF assms(2-4), of rnd st], of rnd taluks]
    show ?thesis using True g by simp
  next
    case False
    with Cons.prems have "t \<in> set taluks" by simp
    from Cons.IH [OF this, of "processTaluk rnd a st"] show ?thesis using g by simp
  qed
qed

text \<open>
  Claim C2, as the code has it. Every village that step 2 adds was sampled inside its
  taluk's polygon: the ray-casting test holds for its centre. A curated village is
  placed at the location the gazetteer gives, with no test. So every village of the
  collection belongs to a taluk whose polygon contains its centre or whose curated
  village it is.
\<close>

theorem sampled_villages_inside_taluk:
  "list_all (placedIn taluks) (generatedVillages (generateVillages rnd taluks initialGen))
   \<and> (\<exists>new. generatedVillages (fillRandomVillages rnd t bounds count attempts st)
               = generatedVillages st @ new
          \<and> list_all (\<lambda>v. v_taluk v = t_name t \<and> isPointInPolygon (v_centre v) (t_coords t)) new)"
  using placedIn_generate [of taluks rnd] sampled_contained [of rnd t bounds count attempts st]
  by (rule conjI)

lemma tubagere_location: "REAL_VILLAGE_LOCATIONS ''Tubagere'' = Some (Fin 13.35, Fin 77.45)"
  by (simp add: REAL_VILLAGE_LOCATIONS_def villageLocationTable_def)

lemma doddaballapur_names: "REAL_VILLAGE_NAMES ''Doddaballapur'' =
   Some [''Tubagere'', ''Sasalu'', ''Madhure'', ''Doddabelavangala'', ''Melekote'', ''Raghunathapura'',
         ''Konaghatta'', ''Heggadihalli'', ''Aroodi'', ''Kadur'', ''Doddaballapur Ind. Area'']"
  by (simp add: REAL_VILLAGE_NAMES_def)

theorem sampled_villages_inside_taluk_witness:
  "(''Tubagere'', ''Doddaballapur'', (Fin 77.45, Fin 13.35)) \<in> set (placements (villagesData zeroDraws))
   \<and> list_all (placedIn talukDataRaw) (villagesData zeroDraws)
   \<and> (\<exists>v. generatedVillages (fillRandomVillages halfDraws (talukDataRaw ! 0)
               (Fin 13.18, Fin 13.55, Fin 77.35, Fin 77.65) 34 0 initialGen) = [v]
          \<and> v_centre v = (Fin 77.5, Fin 13.365) \<and> v_taluk v = ''Doddaballapur''
          \<and> isPointInPolygon (v_centre v) (t_coords (talukDataRaw ! 0)))"
proof -
  note inst = sampled_villages_inside_taluk [of talukDataRaw zeroDraws]
  note inst' = sampled_villages_inside_taluk [of talukDataRaw halfDraws "talukDataRaw ! 0"
      "(Fin 13.18, Fin 13.55, Fin 77.35, Fin 77.65)" 34 0 initialGen]
  have t: "talukDataRaw ! 0 \<in> set talukDataRaw" by (simp add: talukDataRaw_def)
  have n: "REAL_VILLAGE_NAMES (t_name (talukDataRaw ! 0)) =
   Some [''Tubagere'', ''Sasalu'', ''Madhure'', ''Doddabelavangala'', ''Melekote'', ''Raghunathapura'',
         ''Konaghatta'', ''Heggadihalli'', ''Aroodi'', ''Kadur'', ''Doddaballapur Ind. Area'']"
    by (simp add: dodda doddaballapur_names)
  have "(''Tubagere'', t_name (talukDataRaw ! 0), (Fin 77.45, Fin 13.35))
          \<in> set (placements (generatedVillages (generateVillages zeroDraws talukDataRaw initialGen)))"
    by (rule curated_placed [OF t n _ tubagere_location]) simp
  then have a: "(''Tubagere'', ''Doddaballapur'', (Fin 77.45, Fin 13.35))
          \<in> set (placements (villagesData zeroDraws))"
    by (simp add: dodda villagesData_def)
  from inst have b: "list_all (placedIn talukDataRaw) (villagesData zeroDraws)"
    by (simp add: villagesData_def)
  obtain v where v: "generatedVillages (fillRandomVillages halfDraws (talukDataRaw ! 0)
        (Fin 13.18, Fin 13.55, Fin 77.35, Fin 77.65) 34 0 initialGen) = [v]"
      "v_centre v = (Fin 77.5, Fin 13.365)"
    using sample_dodda by blast
  from inst' obtain new where n: "generatedVillages (fillRandomVillages halfDraws (talukDataRaw ! 0)
        (Fin 13.18, Fin 13.55, Fin 77.35, Fin 77.65) 34 0 initialGen) = generatedVillages initialGen @ new"
      "list_all (\<lambda>v. v_taluk v = t_name (talukDataRaw ! 0)
                   \<and> isPointInPolygon (v_centre v) (t_coords (talukDataRaw ! 0))) new"
    by blast
  have "generatedVillages initialGen = []" by (simp add: initialGen_def)
  with n(1) v(1) have "new = [v]" by simp
  with n(2) have "v_taluk v = t_name (talukDataRaw ! 0)
         \<and> isPointInPolygon (v_centre v) (t_coords (talukDataRaw ! 0))"
    by simp
  then have "v_taluk v = ''Doddaballapur'' \<and> isPointInPolygon (v_centre v) (t_coords (talukDataRaw ! 0))"
    by (simp add: dodda)
  with a b v show ?thesis by blast
qed

text \<open>
  The claim as it was stated fails for curated villages: Nidavanda is a curated village
  of Nelamangala, placed at latitude 13.26, north of every vertex of that taluk's
  polygon.
\<close>

lemma nelamangala: "talukDataRaw ! 2 = \<lparr> t_name = ''Nelamangala'', t_district = ''Bengaluru Rural'',
        t_coords = COORDS_NELAMANGALA,
        t_crops = Some [''Ragi'', ''Arecanut'', ''Coconut''],
        t_keyMarkets = Some [''Industrial'', ''Warehousing''] \<rparr>"
  by (simp add: talukDataRaw_def)

lemma nidavanda_outside: "\<not> isPointInPolygon (Fin 77.22, Fin 13.26) COORDS_NELAMANGALA"
  by (simp add: isPointInPolygon_def COORDS_NELAMANGALA_def crosses_def jlt_def jsub_def
        J_Nelamangala_Doddaballapur_BlrNorth_def)

lemma nidavanda_location: "REAL_VILLAGE_LOCATIONS ''Nidavanda'' = Some (Fin 13.26, Fin 77.22)"
  by (simp add: REAL_VILLAGE_LOCATIONS_def villageLocationTable_def)

lemma nelamangala_names: "REAL_VILLAGE_NAMES ''Nelamangala'' =
   Some [''Sompura'', ''T. Begur'', ''Kulumepalya'', ''Dabaspet'', ''Thyamagondlu'', ''Baraguru'',
         ''Manne'', ''Nidavanda'', ''Mahadevapura'', ''Nelamangala Town'', ''Arishinakunte'']"
  by (simp add: REAL_VILLAGE_NAMES_def)

lemma nelamangala_named: "talukNamed talukDataRaw ''Nelamangala'' = Some (talukDataRaw ! 2)"
  by (simp add: talukNamed_def talukDataRaw_def)

theorem curated_village_outside_taluk:
  "(''Nidavanda'', ''Nelamangala'', (Fin 77.22, Fin 13.26)) \<in> set (placements (villagesData zeroDraws))
   \<and> talukNamed talukDataRaw ''Nelamangala'' = Some (talukDataRaw ! 2)
   \<and> \<not> isPointInPolygon (Fin 77.22, Fin 13.26) (t_coords (talukDataRaw ! 2))"
proof -
  have t: "talukDataRaw ! 2 \<in> set talukDataRaw" by (simp add: talukDataRaw_def)
  have n: "REAL_VILLAGE_NAMES (t_name (talukDataRaw ! 2)) =
   Some [''Sompura'', ''T. Begur'', ''Kulumepalya'', ''Dabaspet'', ''Thyamagondlu'', ''Baraguru'',
         ''Manne'', ''Nidavanda'', ''Mahadevapura'', ''Nelamangala Town'', ''Arishinakunte'']"
    by (simp add: nelamangala nelamangala_names)
  have "(''Nidavanda'', t_name (talukDataRaw ! 2), (Fin 77.22, Fin 13.26))
          \<in> set (placements (generatedVillages (generateVillages zeroDraws talukDataRaw initialGen)))"
    by (rule curated_placed [OF t n _ nidavanda_location]) simp
  then have "(''Nidavanda'', ''Nelamangala'', (Fin 77.22, Fin 13.26)) \<in> set (placements (villagesData zeroDraws))"
    by (simp add: nelamangala villagesData_def)
  moreover have "\<not> isPointInPolygon (Fin 77.22, Fin 13.26) (t_coords (talukDataRaw ! 2))"
    using nidavanda_outside by (simp add: nelamangala)
  ultimately show ?thesis using nelamangala_named by simp
qed

section \<open>Identifiers and geocodes of the collections\<close>

lemma districts_eval:
  "map r_geocode districtsData = [''KAD01'', ''KAD02'']"
  "map r_id districtsData = [''dist-rural'', ''dist-urban'']"
  by (simp_all add: districtsData_def)

lemma taluks_eval:
  "map r_geocode taluksData =
     [''KAT01'', ''KAT02'', ''KAT03'', ''KAT04'', ''KAT05'', ''KAT06'', ''KAT07'', ''KAT08'']"
  "map r_id taluksData =
     [''taluk-0'', ''taluk-1'', ''taluk-2'', ''taluk-3'', ''taluk-4'', ''taluk-5'', ''taluk-6'', ''taluk-7'']"
  by (simp_all add: taluksData_def talukDataRaw_def enumerate_eq_zip talukFeature_def padStart2_def
        digitsOf.simps digitChar_def upt_conv_Cons)

lemma villages_numbered:
  "map v_geocode (villagesData rnd) = map (\<lambda>k. ''KAV'' @ digitsOf (1001 + k)) [0..<length (villagesData rnd)]"
  "map v_id (villagesData rnd) = map (\<lambda>k. ''village-'' @ digitsOf k) [0..<length (villagesData rnd)]"
  using numbered_generate [of rnd talukDataRaw] by (simp_all add: numbered_def villagesData_def)

lemma villages_distinct:
  "distinct (map v_geocode (villagesData rnd))" "distinct (map v_id (villagesData rnd))"
proof -
  have "inj_on (\<lambda>k. ''KAV'' @ digitsOf (1001 + k)) (set [0..<length (villagesData rnd)])"
    by (rule inj_onI) (simp add: digitsOf_inj)
  then show "distinct (map v_geocode (villagesData rnd))"
    unfolding villages_numbered(1) by (simp add: distinct_map)
  have "inj_on (\<lambda>k. ''village-'' @ digitsOf k) (set [0..<length (villagesData rnd)])"
    by (rule inj_onI) (simp add: digitsOf_inj)
  then show "distinct (map v_id (villagesData rnd))"
    unfolding villages_numbered(2) by (simp add: distinct_map)
qed

lemma pincodeLoop_codes:
  "set (map r_id (pincodeLoop cells i rows)) \<subseteq> set (map (\<lambda>row. ''pin-'' @ fst row) rows)
   \<and> set (map r_geocode (pincodeLoop cells i rows)) \<subseteq> set (map (\<lambda>row. ''KAP'' @ fst row) rows)"
  by (induction rows arbitrary: i)
     (auto simp: pincodeFeature_def split: cell.splits prod.splits if_splits)

lemma pincodeLoop_distinct:
  assumes "distinct (map fst rows)"
  shows "distinct (map r_id (pincodeLoop cells i rows)) \<and> distinct (map r_geocode (pincodeLoop cells i rows))"
  using assms
proof (induction rows arbitrary: i)
  case Nil
  then show ?case by simp
next
  case (Cons row rows)
  then have d: "fst row \<notin> set (map fst rows)" and r: "distinct (map fst rows)" by simp_all
  have ih: "distinct (map r_id (pincodeLoop cells (i + 1) rows))
            \<and> distinct (map r_geocode (pincodeLoop cells (i + 1) rows))"
    by (rule Cons.IH [OF r])
  have a: "''pin-'' @ fst row \<notin> set (map r_id (pincodeLoop cells (i + 1) rows))"
    using pincodeLoop_codes [of cells "i + 1" rows] d by auto
  have b: "''KAP'' @ fst row \<notin> set (map r_geocode (pincodeLoop cells (i + 1) rows))"
    using pincodeLoop_codes [of cells "i + 1" rows] d by auto
  show ?case
    using ih a b by (auto simp: pincodeFeature_def split: cell.splits prod.splits)
qed

lemma pincodes_distinct:
  "distinct (map r_id (pincodesData tess))" "distinct (map r_geocode (pincodesData tess))"
  using pincodeLoop_distinct [OF pins_distinct]
  by (cases tess; simp add: pincodesData_def)+

lemma id_heads:
  "i \<in> set (map r_id districtsData) \<Longrightarrow> hd i = CHR ''d''"
  "i \<in> set (map r_id taluksData) \<Longrightarrow> hd i = CHR ''t''"
  "i \<in> set (map v_id (villagesData rnd)) \<Longrightarrow> hd i = CHR ''v''"
  "i \<in> set (map r_id (pincodesData tess)) \<Longrightarrow> hd i = CHR ''p''"
proof -
  show "i \<in> set (map r_id districtsData) \<Longrightarrow> hd i = CHR ''d''"
    unfolding districts_eval by auto
  show "i \<in> set (map r_id taluksData) \<Longrightarrow> hd i = CHR ''t''"
    unfolding taluks_eval by auto
  show "i \<in> set (map v_id (villagesData rnd)) \<Longrightarrow> hd i = CHR ''v''"
    unfolding villages_numbered by auto
  show "i \<in> set (map r_id (pincodesData tess)) \<Longrightarrow> hd i = CHR ''p''"
  proof -
    assume "i \<in> set (map r_id (pincodesData tess))"
    then have "i \<in> set (map (\<lambda>row. ''pin-'' @ fst row) REAL_PINCODES)"
      using pincodeLoop_codes [of _ 0 REAL_PINCODES]
      by (cases tess) (auto simp: pincodesData_def)
    then show ?thesis by auto
  qed
qed

lemma heads_disjoint:
  assumes "\<And>i. i \<in> A \<Longrightarrow> hd i = a" "\<And>i. i \<in> B \<Longrightarrow> hd i = b" "a \<noteq> b"
  shows "A \<inter> B = {}"
  using assms by fastforce

text \<open>
  Claim C7, as the code has it. In each generated collection (districts, taluks,
  villages, postal zones) the geocodes are pairwise distinct; the identifiers of these
  four collections are pairwise distinct, and none of them is the identifier of a store.
  Two stores have the same identifier exactly when their elements have the same
  identifier, and the same geocode exactly when the first six characters of their
  elements' identifiers agree.
\<close>

theorem generated_identifiers_unique:
  "distinct (map r_geocode districtsData) \<and> distinct (map r_geocode taluksData)
   \<and> distinct (map v_geocode (villagesData rnd)) \<and> distinct (map r_geocode (pincodesData tess))
   \<and> distinct (generatedIds rnd tess)
   \<and> s_id (transformToGeoFeature e) \<notin> set (generatedIds rnd tess)
   \<and> (s_id (transformToGeoFeature e1) = s_id (transformToGeoFeature e2) \<longleftrightarrow> el_id e1 = el_id e2)
   \<and> (s_geocode (transformToGeoFeature e1) = s_geocode (transformToGeoFeature e2)
        \<longleftrightarrow> take 6 (el_id e1) = take 6 (el_id e2))"
proof (intro conjI)
  show "distinct (map r_geocode districtsData)" unfolding districts_eval by simp
  show "distinct (map r_geocode taluksData)" unfolding taluks_eval by simp
  show "distinct (map v_geocode (villagesData rnd))" by (rule villages_distinct)
  show "distinct (map r_geocode (pincodesData tess))" by (rule pincodes_distinct)
  have d1: "distinct (map r_id districtsData)" unfolding districts_eval by simp
  have d2: "distinct (map r_id taluksData)" unfolding taluks_eval by simp
  let ?D = "map r_id districtsData" and ?T = "map r_id taluksData"
  let ?V = "map v_id (villagesData rnd)" and ?P = "map r_id (pincodesData tess)"
  have dt: "set ?D \<inter> set ?T = {}" by (rule heads_disjoint [OF id_heads(1) id_heads(2)]) simp_all
  have dv: "set ?D \<inter> set ?V = {}" by (rule heads_disjoint [OF id_heads(1) id_heads(3)]) simp_all
  have dp: "set ?D \<inter> set ?P = {}" by (rule heads_disjoint [OF id_heads(1) id_heads(4)]) simp_all
  have tv: "set ?T \<inter> set ?V = {}" by (rule heads_disjoint [OF id_heads(2) id_heads(3)]) simp_all
  have tp: "set ?T \<inter> set ?P = {}" by (rule heads_disjoint [OF id_heads(2) id_heads(4)]) simp_all
  have vp: "set ?V \<inter> set ?P = {}" by (rule heads_disjoint [OF id_heads(3) id_heads(4)]) simp_all
  have "distinct (?D @ ?T @ ?V @ ?P)"
    unfolding distinct_append set_append
    using d1 d2 villages_distinct(2) [of rnd] pincodes_distinct(1) [of tess] dt dv dp tv tp vp
    by blast
  then show "distinct (generatedIds rnd tess)" by (simp only: generatedIds_def)
  show "s_id (transformToGeoFeature e) \<notin> set (generatedIds rnd tess)"
  proof
    assume "s_id (transformToGeoFeature e) \<in> set (generatedIds rnd tess)"
    then have "hd (s_id (transformToGeoFeature e)) \<in> {CHR ''d'', CHR ''t'', CHR ''v'', CHR ''p''}"
      unfolding generatedIds_def using id_heads by (auto simp del: set_map)
    then show False by (simp add: transformToGeoFeature_def Let_def)
  qed
  show "s_id (transformToGeoFeature e1) = s_id (transformToGeoFeature e2) \<longleftrightarrow> el_id e1 = el_id e2"
    by (simp add: transformToGeoFeature_def Let_def)
  show "s_geocode (transformToGeoFeature e1) = s_geocode (transformToGeoFeature e2)
        \<longleftrightarrow> take 6 (el_id e1) = take 6 (el_id e2)"
    by (simp add: transformToGeoFeature_def Let_def)
qed

text \<open>
  The claim as it was stated fails for the stores: one answer with two nodes whose
  identifiers agree in their first six characters gives two stores with one geocode.
\<close>

theorem scanned_stores_share_geocode:
  "fst (fetchRetailStoresBounded twinEndpoint zeroDraws scenarioBox 0 initialScan) =
     Inr (map transformToGeoFeature [pointElement ''1234567890'', pointElement ''1234567891''])
   \<and> map s_geocode (map transformToGeoFeature
            [pointElement ''1234567890'', pointElement ''1234567891''])
       = [''OSM-123456'', ''OSM-123456'']
   \<and> \<not> distinct (map s_geocode (map transformToGeoFeature
            [pointElement ''1234567890'', pointElement ''1234567891'']))"
proof -
  have "twinEndpoint (nreq initialScan) (queryOf scenarioBox) =
          Response 200 (Inr [pointElement ''1234567890'', pointElement ''1234567891''])"
    by (simp add: twinEndpoint_def)
  from fetch_ok [where ep = twinEndpoint and st = initialScan and b = scenarioBox
          and s = 200 and rnd = zeroDraws and depth = 0, OF this]
  have "fst (fetchRetailStoresBounded twinEndpoint zeroDraws scenarioBox 0 initialScan) =
     Inr (map transformToGeoFeature [pointElement ''1234567890'', pointElement ''1234567891''])"
    by (simp add: response_ok_def hasCoords_point)
  moreover have "map s_geocode (map transformToGeoFeature
            [pointElement ''1234567890'', pointElement ''1234567891''])
       = [''OSM-123456'', ''OSM-123456'']"
    by (simp add: transformToGeoFeature_def Let_def pointElement_def)
  ultimately show ?thesis by simp
qed

section \<open>Properties of the tabular export and import\<close>

subsection \<open>The exported text of the districts collection\<close>

lemma fractionDigits_unfold:
  "fractionDigits k f =
     (if k = 0 then [] else if f = 0 then []
      else digitChar (nat \<lfloor>f * 10\<rfloor>) # fractionDigits (k - 1) (f * 10 - real (nat \<lfloor>f * 10\<rfloor>)))"
  by (cases k) (simp_all add: Let_def)

lemmas number_eval =
  numberToString_def fractionDigits_unfold digitsOf.simps digitChar_def

lemmas coords_eval =
  COORDS_DODDABALLAPUR_def COORDS_DEVANAHALLI_def COORDS_NELAMANGALA_def COORDS_HOSKOTE_def
  COORDS_BLR_NORTH_def COORDS_BLR_EAST_def COORDS_BLR_SOUTH_def COORDS_ANEKAL_def
  J_Nelamangala_Doddaballapur_BlrNorth_def J_Doddaballapur_Devanahalli_BlrNorth_def
  J_Devanahalli_Hoskote_BlrEast_def J_BlrNorth_BlrEast_BlrSouth_def
  J_BlrSouth_BlrEast_Anekal_def J_BlrSouth_Anekal_West_def

lemma csvCell_attribute:
  "header \<noteq> ''geometry'' \<Longrightarrow>
   csvCell f header =
     (case getProp (f_properties f) header of
        Undefined \<Rightarrow> []
      | Str s \<Rightarrow> (if CHR '','' \<in> set (doubleQuotes s) then dquote # doubleQuotes s @ [dquote]
                  else doubleQuotes s)
      | Arr xs \<Rightarrow> quoted (stringify (Arr xs))
      | Num x \<Rightarrow> numberToString x)"
  by (simp add: csvCell_def Let_def split: jsvalue.splits)

lemma districts: "districtFeatures = [ruralDistrict, urbanDistrict]"
  by (simp add: ruralDistrict_def urbanDistrict_def districtFeatures_def)

lemma rural_properties:
  "f_properties ruralDistrict =
          [(''id'', Str ''dist-rural''), (''geocode'', Str ''KAD01''),
           (''name'', Str ''Bengaluru Rural''), (''type'', Str ''District''),
           (''description'', Str ''District surrounding Bengaluru Urban.''),
           (''population'', Num (Fin 990923)), (''literacyRate'', Num (Fin 77.93)),
           (''areaSqKm'', Num (Fin 2298)), (''nearestCity'', Str ''Bengaluru City''),
           (''distanceToCityKm'', Num (Fin 0)),
           (''nearestAirport'', Str ''Kempegowda Int. (KIA)''),
           (''distanceToAirportKm'', Num (Fin 0)), (''sexRatio'', Num (Fin 946)),
           (''numTaluks'', Num (Fin 4)),
           (''economicFocus'', Str ''Agriculture, Textiles, Industrial Parks'')]"
  by (simp add: ruralDistrict_def districtFeatures_def)

lemma urban_properties:
  "f_properties urbanDistrict =
          [(''id'', Str ''dist-urban''), (''geocode'', Str ''KAD02''),
           (''name'', Str ''Bengaluru Urban''), (''type'', Str ''District''),
           (''description'', Str ''The capital district of Karnataka.''),
           (''population'', Num (Fin 9621551)), (''literacyRate'', Num (Fin 87.67)),
           (''areaSqKm'', Num (Fin 2196)), (''nearestCity'', Str ''Bengaluru City''),
           (''distanceToCityKm'', Num (Fin 0)),
           (''nearestAirport'', Str ''Kempegowda Int. (KIA)''),
           (''distanceToAirportKm'', Num (Fin 15)), (''sexRatio'', Num (Fin 916)),
           (''numTaluks'', Num (Fin 5)),
           (''economicFocus'', Str ''IT/BT, Services, Manufacturing, Aerospace'')]"
  by (simp add: urbanDistrict_def districtFeatures_def)

lemma district_keys:
  "allKeys [ruralDistrict, urbanDistrict] =
     [''id'', ''geocode'', ''name'', ''type'', ''description'', ''population'', ''literacyRate'',
      ''areaSqKm'', ''nearestCity'', ''distanceToCityKm'', ''nearestAirport'',
      ''distanceToAirportKm'', ''sexRatio'', ''numTaluks'', ''economicFocus'']"
  by (simp add: allKeys_def addKey_def rural_properties urban_properties)

lemma export_text:
  "convertToCSV districtFeatures
     = headerLine @ [newline] @ (ruralCells @ csvCell ruralDistrict ''geometry'')
       @ [newline] @ (urbanCells @ csvCell urbanDistrict ''geometry'')"
  by (simp add: districts convertToCSV_def district_keys rural_properties
        urban_properties csvCell_attribute getProp_def doubleQuotes_def number_eval
        headerLine_def ruralCells_def urbanCells_def Let_def dquote_def)

subsection \<open>Cutting the text into lines and cells\<close>

lemma splitOn_none: "c \<notin> set s \<Longrightarrow> splitOn c s = [s]"
proof -
  assume "c \<notin> set s"
  hence d: "dropWhile (\<lambda>x. x \<noteq> c) s = []" by auto
  show ?thesis by (subst splitOn.simps) (simp add: d)
qed

lemma splitOn_cut: "c \<notin> set a \<Longrightarrow> splitOn c (a @ c # b) = a # splitOn c b"
proof -
  assume n: "c \<notin> set a"
  hence d: "dropWhile (\<lambda>x. x \<noteq> c) (a @ c # b) = c # b"
    by (induction a) auto
  from n have t: "takeWhile (\<lambda>x. x \<noteq> c) (a @ c # b) = a"
    by (induction a) auto
  show ?thesis by (subst splitOn.simps) (simp add: d t)
qed

lemma rural_geometry_line: "newline \<notin> set (csvCell ruralDistrict ''geometry'')"
  by (simp add: csvCell_def ruralDistrict_def districtFeatures_def quoted_def doubleQuotes_def
        stringifyGeometry_def jsonString_def jsonEscape_def dquote_def backslash_def newline_def
        multiPolygon_def ringValue_def number_eval coords_eval Let_def)

lemma urban_geometry_line: "newline \<notin> set (csvCell urbanDistrict ''geometry'')"
  by (simp add: csvCell_def urbanDistrict_def districtFeatures_def quoted_def doubleQuotes_def
        stringifyGeometry_def jsonString_def jsonEscape_def dquote_def backslash_def newline_def
        multiPolygon_def ringValue_def number_eval coords_eval Let_def)

lemma export_lines:
  "splitOn newline (convertToCSV districtFeatures)
     = [headerLine, ruralCells @ csvCell ruralDistrict ''geometry'',
        urbanCells @ csvCell urbanDistrict ''geometry'']"
proof -
  have h: "newline \<notin> set headerLine"
    by (simp add: headerLine_def newline_def)
  have r: "newline \<notin> set (ruralCells @ csvCell ruralDistrict ''geometry'')"
    using rural_geometry_line by (simp add: ruralCells_def newline_def dquote_def)
  have u: "newline \<notin> set (urbanCells @ csvCell urbanDistrict ''geometry'')"
    using urban_geometry_line by (simp add: urbanCells_def newline_def dquote_def)
  have "splitOn newline (convertToCSV districtFeatures)
          = headerLine # splitOn newline ((ruralCells @ csvCell ruralDistrict ''geometry'')
              @ newline # (urbanCells @ csvCell urbanDistrict ''geometry''))"
    using splitOn_cut [OF h] by (simp add: export_text)
  also have "\<dots> = headerLine # (ruralCells @ csvCell ruralDistrict ''geometry'')
              # splitOn newline (urbanCells @ csvCell urbanDistrict ''geometry'')"
    using splitOn_cut [OF r] by simp
  also have "\<dots> = [headerLine, ruralCells @ csvCell ruralDistrict ''geometry'',
        urbanCells @ csvCell urbanDistrict ''geometry'']"
    using splitOn_none [OF u] by simp
  finally show ?thesis .
qed

subsection \<open>The records read from the exported text\<close>

lemmas cell_eval =
  importCell_def trim_def isWhiteSpace_def jsNumber_def radixOf_def
  isDecimalLiteral_def exponentPart_def takeSign_def isDigit_def isHexDigit_def hexVal_def
  parseFloat_def parseExponent_def digitsVal_def digitVal_def Let_def

lemma export_headers:
  "map trim (splitOn CHR '','' headerLine) =
     [''id'', ''geocode'', ''name'', ''type'', ''description'', ''population'', ''literacyRate'',
      ''areaSqKm'', ''nearestCity'', ''distanceToCityKm'', ''nearestAirport'',
      ''distanceToAirportKm'', ''sexRatio'', ''numTaluks'', ''economicFocus'', ''geometry'']"
  by (simp add: headerLine_def splitOn.simps trim_def isWhiteSpace_def)

lemma rural_row:
  "splitOn CHR '','' (ruralCells @ g) =
     [''dist-rural'', ''KAD01'', ''Bengaluru Rural'', ''District'',
      ''District surrounding Bengaluru Urban.'', ''990923'', ''77.93'', ''2298'',
      ''Bengaluru City'', ''0'', ''Kempegowda Int. (KIA)'', ''0'', ''946'', ''4'',
      dquote # ''Agriculture'', '' Textiles'', '' Industrial Parks'' @ [dquote]]
     @ splitOn CHR '','' g"
proof -
  show ?thesis
    unfolding ruralCells_def dquote_def
    by (simp add: splitOn.simps [of _ "_ # _"])
qed

lemma urban_row:
  "splitOn CHR '','' (urbanCells @ g) =
     [''dist-urban'', ''KAD02'', ''Bengaluru Urban'', ''District'',
      ''The capital district of Karnataka.'', ''9621551'', ''87.67'', ''2196'',
      ''Bengaluru City'', ''0'', ''Kempegowda Int. (KIA)'', ''15'', ''916'', ''5'',
      dquote # ''IT/BT'', '' Services'', '' Manufacturing'', '' Aerospace'' @ [dquote]]
     @ splitOn CHR '','' g"
  unfolding urbanCells_def dquote_def
  by (simp add: splitOn.simps [of _ "_ # _"])

lemma upt16: "[0..<16] = [0,1,2,3,4,5,6,7,8,9,10,11,12,13,14,15::nat]"
  by (simp add: upt_rec)

lemma rural_record:
  "importRecord (map trim (splitOn CHR '','' headerLine)) (ruralCells @ g) =
     [(''id'', Str ''dist-rural''), (''geocode'', Str ''KAD01''),
      (''name'', Str ''Bengaluru Rural''), (''type'', Str ''District''),
      (''description'', Str ''District surrounding Bengaluru Urban.''),
      (''population'', Num (Fin 990923)), (''literacyRate'', Num (Fin 77.93)),
      (''areaSqKm'', Num (Fin 2298)), (''nearestCity'', Str ''Bengaluru City''),
      (''distanceToCityKm'', Num (Fin 0)),
      (''nearestAirport'', Str ''Kempegowda Int. (KIA)''),
      (''distanceToAirportKm'', Num (Fin 0)), (''sexRatio'', Num (Fin 946)),
      (''numTaluks'', Num (Fin 4)),
      (''economicFocus'', Str (dquote # ''Agriculture'')),
      (''geometry'', Str ''Textiles'')]"
  by (simp add: importRecord_def rural_row export_headers upt16 cell_eval dquote_def)

lemma urban_record:
  "importRecord (map trim (splitOn CHR '','' headerLine)) (urbanCells @ g) =
     [(''id'', Str ''dist-urban''), (''geocode'', Str ''KAD02''),
      (''name'', Str ''Bengaluru Urban''), (''type'', Str ''District''),
      (''description'', Str ''The capital district of Karnataka.''),
      (''population'', Num (Fin 9621551)), (''literacyRate'', Num (Fin 87.67)),
      (''areaSqKm'', Num (Fin 2196)), (''nearestCity'', Str ''Bengaluru City''),
      (''distanceToCityKm'', Num (Fin 0)),
      (''nearestAirport'', Str ''Kempegowda Int. (KIA)''),
      (''distanceToAirportKm'', Num (Fin 15)), (''sexRatio'', Num (Fin 916)),
      (''numTaluks'', Num (Fin 5)),
      (''economicFocus'', Str (dquote # ''IT/BT'')),
      (''geometry'', Str ''Services'')]"
  by (simp add: importRecord_def urban_row export_headers upt16 cell_eval dquote_def)

lemma trim_nonempty: "\<not> isWhiteSpace c \<Longrightarrow> trim (c # s) \<noteq> []"
  by (simp add: trim_def dropWhile_eq_Nil_conv)

lemma import_records:
  "parseCSV (convertToCSV districtFeatures) =
     [importRecord (map trim (splitOn CHR '','' headerLine))
        (ruralCells @ csvCell ruralDistrict ''geometry''),
      importRecord (map trim (splitOn CHR '','' headerLine))
        (urbanCells @ csvCell urbanDistrict ''geometry'')]"
proof -
  have r: "trim (ruralCells @ g) \<noteq> []" for g
    unfolding ruralCells_def by (simp add: trim_nonempty isWhiteSpace_def)
  have u: "trim (urbanCells @ g) \<noteq> []" for g
    unfolding urbanCells_def by (simp add: trim_nonempty isWhiteSpace_def)
  show ?thesis
    by (simp add: parseCSV_def export_lines r u)
qed

subsection \<open>The districts collection after export and import\<close>

lemma districts_after_import:
  "map f_properties (exportImport districtFeatures) =
     [[(''id'', Str ''dist-rural''), (''geocode'', Str ''KAD01''),
       (''name'', Str ''Bengaluru Rural''), (''type'', Str ''District''),
       (''description'', Str ''District surrounding Bengaluru Urban.''),
       (''population'', Num (Fin 990923)), (''literacyRate'', Num (Fin 77.93)),
       (''areaSqKm'', Num (Fin 2298)), (''nearestCity'', Str ''Bengaluru City''),
       (''distanceToCityKm'', Num (Fin 0)),
       (''nearestAirport'', Str ''Kempegowda Int. (KIA)''),
       (''distanceToAirportKm'', Num (Fin 0)), (''sexRatio'', Num (Fin 946)),
       (''numTaluks'', Num (Fin 4)),
       (''economicFocus'', Str (dquote # ''Agriculture'')),
       (''geometry'', Str ''Textiles'')],
      [(''id'', Str ''dist-urban''), (''geocode'', Str ''KAD02''),
       (''name'', Str ''Bengaluru Urban''), (''type'', Str ''District''),
       (''description'', Str ''The capital district of Karnataka.''),
       (''population'', Num (Fin 9621551)), (''literacyRate'', Num (Fin 87.67)),
       (''areaSqKm'', Num (Fin 2196)), (''nearestCity'', Str ''Bengaluru City''),
       (''distanceToCityKm'', Num (Fin 0)),
       (''nearestAirport'', Str ''Kempegowda Int. (KIA)''),
       (''distanceToAirportKm'', Num (Fin 15)), (''sexRatio'', Num (Fin 916)),
       (''numTaluks'', Num (Fin 5)),
       (''economicFocus'', Str (dquote # ''IT/BT'')),
       (''geometry'', Str ''Services'')]]"
  unfolding exportImport_def import_records rural_record urban_record
  by (simp add: updateCollection_def districts rural_properties urban_properties
        getProp_def mergeProps_def)

text \<open>
  Claim C3, at the districts collection of the application. \<open>convertToCSV\<close> writes a
  string that holds a comma between double quotes, and the geometry as quoted JSON
  text in a last column; the import cuts every line at every comma and keeps the
  quotes. After the export and the import of the exported text, merged by geocode,
  the attribute \<open>economicFocus\<close> of each district is the text up to its first comma
  with the opening quote in front, and each district has a new attribute \<open>geometry\<close>
  that holds the next piece of that text. The other attributes are as before
  (lemma \<open>districts_after_import\<close>).
\<close>

theorem exported_districts_not_restored:
  "map (\<lambda>f. getProp (f_properties f) ''economicFocus'') districtFeatures
     = [Str ''Agriculture, Textiles, Industrial Parks'',
        Str ''IT/BT, Services, Manufacturing, Aerospace'']
   \<and> map (\<lambda>f. getProp (f_properties f) ''economicFocus'') (exportImport districtFeatures)
     = [Str (dquote # ''Agriculture''), Str (dquote # ''IT/BT'')]
   \<and> map (\<lambda>f. getProp (f_properties f) ''geometry'') districtFeatures
     = [Undefined, Undefined]
   \<and> map (\<lambda>f. getProp (f_properties f) ''geometry'') (exportImport districtFeatures)
     = [Str ''Textiles'', Str ''Services'']"
proof -
  have m: "map (\<lambda>f. getProp (f_properties f) k) fs = map (\<lambda>p. getProp p k) (map f_properties fs)"
    for k and fs :: "feature list"
    by simp
  show ?thesis
    unfolding m districts_after_import
    by (simp add: districts rural_properties urban_properties getProp_def)
qed

end
